theory Spec2Isabelle
  imports Complex_Main
begin

section \<open>Data model\<close>

text \<open>
  The game keeps its entities in arrays that only grow (\<open>PlayingState.volumeBlocks\<close>,
  \<open>PlayingState.kids\<close>, \<open>PlayingState.shelves\<close>). A JavaScript object reference to an
  entity is modelled by the entity's index in its array, so that the aliasing between a
  shelf's slot array, a kid's \<open>carriedVolumeBlock\<close>, the player's \<open>carriedVolumeBlocks\<close> and
  the block's own \<open>holder\<close>/\<open>shelf\<close> back-references stays visible. Numbers are JavaScript
  doubles in the source; they are modelled by exact reals (and by integers where the source
  only ever stores integers). Rounding is modelled for the products that
  \<open>awardXP\<close> floors, and nowhere else.
\<close>

datatype holderRef = PlayerRef | KidRef nat

record volumeBlock =
  b_x :: real
  b_y :: real
  b_vx :: real
  b_vy :: real
  b_width :: real
  b_height :: real
  b_color :: string
  isHeld :: bool
  isShelved :: bool
  holder :: "holderRef option"
  b_shelf :: "nat option"
  visible :: bool

record box =
  offsetX :: real
  offsetY :: real
  box_width :: real
  box_height :: real

record shelf =
  s_ref :: nat
  s_x :: real
  s_y :: real
  s_width :: real
  s_height :: real
  s_color :: string
  capacity :: nat
  volumeBlocks :: "nat option list"
  emptySlotGlow :: real
  emptySlotGlowDirection :: real
  collisionBox :: "box option"

section \<open>Shelf.js\<close>

text \<open>The constructor: \<open>new Shelf(game, x, y, color, capacity = 6)\<close>; \<open>ref\<close> is the
  index the new object gets in \<open>PlayingState.shelves\<close>.\<close>

definition Shelf :: "nat \<Rightarrow> real \<Rightarrow> real \<Rightarrow> string \<Rightarrow> nat \<Rightarrow> shelf" where
  "Shelf ref x y color cap =
     \<lparr> s_ref = ref, s_x = x, s_y = y, s_width = 64, s_height = 96,
       s_color = color, capacity = cap, volumeBlocks = replicate cap None,
       emptySlotGlow = 0, emptySlotGlowDirection = 1,
       collisionBox = Some \<lparr> offsetX = 0, offsetY = 0, box_width = 64, box_height = 96 \<rparr> \<rparr>"

text \<open>\<open>this.volumeBlocks[i]\<close>: reading past the end of a JavaScript array gives
  \<open>undefined\<close>, which is as falsy as \<open>null\<close>.\<close>

definition slotAt :: "shelf \<Rightarrow> nat \<Rightarrow> nat option" where
  "slotAt s i = (if i < length (volumeBlocks s) then volumeBlocks s ! i else None)"

text \<open>\<open>this.volumeBlocks[i] = v\<close>: writing at the end of a JavaScript array extends it.\<close>

definition setSlot :: "nat option list \<Rightarrow> nat \<Rightarrow> nat option \<Rightarrow> nat option list" where
  "setSlot xs i v =
     (if i < length xs then xs[i := v] else xs @ replicate (i - length xs) None @ [v])"

definition volumeBlockCount :: "shelf \<Rightarrow> nat" where
  "volumeBlockCount s = length (filter (\<lambda>v. v \<noteq> None) (volumeBlocks s))"

definition hasEmptySlots :: "shelf \<Rightarrow> bool" where
  "hasEmptySlots s = (volumeBlockCount s < capacity s)"

definition getEmptySlotCount :: "shelf \<Rightarrow> int" where
  "getEmptySlotCount s = int (capacity s) - int (volumeBlockCount s)"

text \<open>Modelled from the spec: \<open>VolumeBlock.js\<close> is not among the sources. Section 4.2:
  shelve transitions the block to Shelved with the owning reference set to the shelf; the
  three location states are mutually exclusive and the owning reference is a holder or a
  shelf, never both.\<close>

definition shelve :: "nat \<Rightarrow> volumeBlock \<Rightarrow> volumeBlock" where
  "shelve sref b = b\<lparr> isShelved := True, b_shelf := Some sref, isHeld := False, holder := None \<rparr>"

text \<open>Modelled from the spec: \<open>VolumeBlock.js\<close> is not among the sources. Section 4.2:
  unshelve clears the owning reference and marks the block Floor.\<close>

definition unshelve :: "volumeBlock \<Rightarrow> volumeBlock" where
  "unshelve b = b\<lparr> isShelved := False, b_shelf := None, isHeld := False, holder := None \<rparr>"

text \<open>The loop of \<open>addVolumeBlock\<close> that looks for the first empty slot:
  \<open>while (slotIndex < this.capacity && this.volumeBlocks[slotIndex]) slotIndex++\<close>.\<close>

function findSlot :: "shelf \<Rightarrow> nat \<Rightarrow> nat" where
  "findSlot s slotIndex =
     (if slotIndex < capacity s \<and> slotAt s slotIndex \<noteq> None
      then findSlot s (slotIndex + 1) else slotIndex)"
  by pat_completeness auto
termination
  by (relation "measure (\<lambda>(s, i). capacity s - i)") auto

declare findSlot.simps [simp del]

text \<open>\<open>addVolumeBlock(volumeBlock)\<close>: \<open>r\<close> is the reference of the block (its index in
  \<open>PlayingState.volumeBlocks\<close>) and \<open>b\<close> its fields; the result is the returned boolean with
  the shelf and the block as the call leaves them.\<close>

definition addVolumeBlock :: "shelf \<Rightarrow> nat \<Rightarrow> volumeBlock \<Rightarrow> bool \<times> shelf \<times> volumeBlock" where
  "addVolumeBlock s r b =
     (if \<not> hasEmptySlots s \<or> b_color b \<noteq> s_color s then (False, s, b)
      else let slotIndex = findSlot s 0 in
        if slotIndex < capacity s
        then (True, s\<lparr> volumeBlocks := setSlot (volumeBlocks s) slotIndex (Some r) \<rparr>,
              shelve (s_ref s) b)
        else (False, s, b))"

text \<open>\<open>removeVolumeBlock(index)\<close> returns the removed block's reference, or \<open>None\<close> for
  \<open>null\<close>; the caller applies \<open>unshelve\<close> to the block it names.\<close>

definition removeVolumeBlock :: "shelf \<Rightarrow> int \<Rightarrow> nat option \<times> shelf" where
  "removeVolumeBlock s index =
     (if index \<ge> 0 \<and> index < int (length (volumeBlocks s)) \<and> volumeBlocks s ! nat index \<noteq> None
      then (volumeBlocks s ! nat index, s\<lparr> volumeBlocks := (volumeBlocks s)[nat index := None] \<rparr>)
      else (None, s))"

text \<open>Scenario driver: a sequence of \<open>addVolumeBlock\<close> calls on one shelf, collecting the
  returned booleans.\<close>

fun addVolumeBlocks :: "shelf \<Rightarrow> (nat \<times> volumeBlock) list \<Rightarrow> bool list \<times> shelf" where
  "addVolumeBlocks s [] = ([], s)"
| "addVolumeBlocks s ((r, b) # rest) =
     (case addVolumeBlock s r b of (ok, s', b') \<Rightarrow>
        (case addVolumeBlocks s' rest of (oks, s'') \<Rightarrow> (ok # oks, s'')))"

text \<open>A red block lying on the floor, for the concrete scenarios.\<close>

definition redBlock :: volumeBlock where
  "redBlock = \<lparr> b_x = 0, b_y = 0, b_vx = 0, b_vy = 0, b_width = 16, b_height = 16,
     b_color = ''red'', isHeld = False, isShelved = False, holder = None, b_shelf = None,
     visible = True \<rparr>"


section \<open>More of the data model\<close>

datatype kidState = Wandering | Fleeing | Stealing

text \<open>The fields of a \<open>Kid\<close>. \<open>k_ref\<close> is the kid's index in \<open>PlayingState.kids\<close>, which
  stands for \<open>this\<close> where the source stores the kid as a block's holder. The sprite
  animation fields (\<open>animationFrame\<close>, \<open>animationTimer\<close>, \<open>facing\<close>, \<open>isMoving\<close>) are only
  read by rendering and are left out. \<open>fleeTimer\<close> is absent until \<open>updateFleeing\<close> first
  sets it and is \<open>null\<close> again after the timeout: \<open>None\<close> stands for both.\<close>

record kid =
  k_ref :: nat
  k_x :: real
  k_y :: real
  k_width :: real
  k_height :: real
  k_vx :: real
  k_vy :: real
  aggressionLevel :: int
  spriteType :: int
  speed :: real
  fleeSpeed :: real
  direction :: real
  directionChangeTimer :: real
  directionChangeInterval :: real
  k_state :: kidState
  target :: "nat option"
  carriedVolumeBlock :: "nat option"
  volumeBlockStealCooldown :: real
  volumeBlockStealCooldownTime :: real
  dropVolumeBlockTimer :: real
  grabDelay :: real
  grabDelayTime :: real
  dropVolumeBlockMinTime :: real
  dropVolumeBlockMaxTime :: real
  shelfDetectionRange :: real
  playerDetectionRange :: real
  stuckTimer :: real
  hasPlayedLaughSound :: bool
  fleeTimer :: "real option"

text \<open>\<open>Player.js\<close> is not among the sources; the record holds the fields of the player that
  \<open>PlayingState.js\<close>, \<open>Shelf.js\<close> and the kid read or write. \<open>xpMultiplier\<close> is the value
  that \<open>getXPMultiplier()\<close> returns.\<close>

record playerStats =
  pickupRadius :: real
  returnRadius :: real
  carrySlots :: int
  stamina :: real
  maxStamina :: real
  chaosDampening :: real

record player =
  p_x :: real
  p_y :: real
  p_width :: real
  p_height :: real
  stats :: playerStats
  repelRadius :: real
  xpMultiplier :: real
  carriedVolumeBlocks :: "nat list"

text \<open>Fire-and-forget audio cues, in the order they are played.\<close>

datatype cue = LaughCue | PickupCue | ShelfCue

text \<open>What a kid's methods reach through \<open>this.game\<close>: the player, the shelves and the world
  bounds of the current state, the blocks that shelves and kids refer to, the
  \<open>gameData.kidsRepelled\<close> counter, the audio output and the ambient random source.
  \<open>Kid.update\<close> is only called from \<open>PlayingState.update\<close>, which the state manager runs
  on its current state, so \<open>this.game.stateManager.currentState\<close> is the playing state and
  its \<open>shelves\<close> array exists. \<open>v_rnd\<close> is the sequence of values that the coming calls of
  \<open>Math.random()\<close> return.\<close>

record kidView =
  v_player :: "player option"
  v_shelves :: "shelf list"
  v_volumeBlocks :: "volumeBlock list"
  v_worldWidth :: real
  v_worldHeight :: real
  v_kidsRepelled :: nat
  v_cues :: "cue list"
  v_rnd :: "nat \<Rightarrow> real"

section \<open>Kid.js\<close>

text \<open>\<open>Math.random()\<close>: the next value of the sequence, and the sequence advanced.\<close>

definition random :: "kidView \<Rightarrow> real \<times> kidView" where
  "random v = (v_rnd v 0, v\<lparr> v_rnd := (\<lambda>n. v_rnd v (Suc n)) \<rparr>)"

text \<open>\<open>Math.atan2(y, x)\<close>, without the signed zeros of the floating-point original.\<close>

definition atan2 :: "real \<Rightarrow> real \<Rightarrow> real" where
  "atan2 y x =
     (if x > 0 then arctan (y / x)
      else if x < 0 \<and> y \<ge> 0 then arctan (y / x) + pi
      else if x < 0 then arctan (y / x) - pi
      else if y > 0 then pi / 2
      else if y < 0 then - pi / 2
      else 0)"

text \<open>\<open>Entity.js\<close> is not among the sources: \<open>getCenterX()\<close> and \<open>getCenterY()\<close> are taken to be
  the centre of the entity's bounding box.\<close>

definition kidCenterX :: "kid \<Rightarrow> real" where
  "kidCenterX k = k_x k + k_width k / 2"

definition kidCenterY :: "kid \<Rightarrow> real" where
  "kidCenterY k = k_y k + k_height k / 2"

definition shelfCenterX :: "shelf \<Rightarrow> real" where
  "shelfCenterX s = s_x s + s_width s / 2"

definition shelfCenterY :: "shelf \<Rightarrow> real" where
  "shelfCenterY s = s_y s + s_height s / 2"

definition playerCenterX :: "player \<Rightarrow> real" where
  "playerCenterX p = p_x p + p_width p / 2"

definition playerCenterY :: "player \<Rightarrow> real" where
  "playerCenterY p = p_y p + p_height p / 2"

definition blockCenterX :: "volumeBlock \<Rightarrow> real" where
  "blockCenterX b = b_x b + b_width b / 2"

definition blockCenterY :: "volumeBlock \<Rightarrow> real" where
  "blockCenterY b = b_y b + b_height b / 2"

text \<open>\<open>getDistanceTo(entity)\<close>, given the centre of the other entity.\<close>

definition getDistanceTo :: "kid \<Rightarrow> real \<Rightarrow> real \<Rightarrow> real" where
  "getDistanceTo k cx cy =
     (let dx = kidCenterX k - cx; dy = kidCenterY k - cy in sqrt (dx * dx + dy * dy))"

definition distToPlayer :: "kid \<Rightarrow> player \<Rightarrow> real" where
  "distToPlayer k p = getDistanceTo k (playerCenterX p) (playerCenterY p)"

definition distToShelf :: "kid \<Rightarrow> shelf \<Rightarrow> real" where
  "distToShelf k s = getDistanceTo k (shelfCenterX s) (shelfCenterY s)"

definition checkCollision :: "kid \<Rightarrow> real \<Rightarrow> real \<Rightarrow> shelf \<Rightarrow> bool" where
  "checkCollision k x y entity =
     (case collisionBox entity of
        None \<Rightarrow> False
      | Some cb \<Rightarrow>
          (let kidLeft = x; kidRight = x + k_width k; kidTop = y; kidBottom = y + k_height k;
               entityLeft = s_x entity + offsetX cb; entityRight = entityLeft + box_width cb;
               entityTop = s_y entity + offsetY cb; entityBottom = entityTop + box_height cb
           in \<not> (kidLeft \<ge> entityRight \<or> kidRight \<le> entityLeft \<or>
                 kidTop \<ge> entityBottom \<or> kidBottom \<le> entityTop)))"

definition isNearShelf :: "kid \<Rightarrow> shelf \<Rightarrow> real \<Rightarrow> bool" where
  "isNearShelf k s distance =
     (let kidLeft = k_x k; kidRight = k_x k + k_width k;
          kidTop = k_y k; kidBottom = k_y k + k_height k;
          expandedLeft = s_x s - distance; expandedRight = s_x s + s_width s + distance;
          expandedTop = s_y s - distance; expandedBottom = s_y s + s_height s + distance
      in \<not> (kidLeft \<ge> expandedRight \<or> kidRight \<le> expandedLeft \<or>
            kidTop \<ge> expandedBottom \<or> kidBottom \<le> expandedTop))"

text \<open>\<open>ensureSafeSpawnPosition\<close>: the first shelf that the kid overlaps moves it to (30, 30)
  and ends the loop.\<close>

fun ensureSafeSpawnPosition :: "kid \<Rightarrow> shelf list \<Rightarrow> kid" where
  "ensureSafeSpawnPosition k [] = k"
| "ensureSafeSpawnPosition k (s # ss) =
     (if checkCollision k (k_x k) (k_y k) s then k\<lparr> k_x := 30, k_y := 30 \<rparr>
      else ensureSafeSpawnPosition k ss)"

text \<open>The constructor \<open>new Kid(game, x, y, aggressionLevel)\<close>; it draws the sprite type and
  the initial direction from the random source, in this order.\<close>

definition Kid :: "nat \<Rightarrow> shelf list \<Rightarrow> real \<Rightarrow> real \<Rightarrow> int \<Rightarrow> (nat \<Rightarrow> real) \<Rightarrow> kid \<times> (nat \<Rightarrow> real)" where
  "Kid ref shs x y level g =
     (let r1 = g 0; r2 = g 1;
          k0 = \<lparr> k_ref = ref, k_x = x, k_y = y, k_width = 48, k_height = 60, k_vx = 0, k_vy = 0,
                 aggressionLevel = level,
                 spriteType = \<lfloor>r1 * 3\<rfloor> + 1,
                 speed = (if level = 1 then 70 else if level = 2 then 80 else 90),
                 fleeSpeed = (if level = 1 then 100 else if level = 2 then 110 else 120),
                 direction = r2 * pi * 2,
                 directionChangeTimer = 0,
                 directionChangeInterval = 2,
                 k_state = Wandering,
                 target = None,
                 carriedVolumeBlock = None,
                 volumeBlockStealCooldown = 0,
                 volumeBlockStealCooldownTime =
                   (if level = 1 then 2.0 else if level = 2 then 1.5 else 1.0),
                 dropVolumeBlockTimer = 0,
                 grabDelay = 0,
                 grabDelayTime = (if level = 1 then 1.0 else if level = 2 then 0.5 else 0.2),
                 dropVolumeBlockMinTime = (if level = 1 then 4 else if level = 2 then 3 else 2),
                 dropVolumeBlockMaxTime = (if level = 1 then 6 else if level = 2 then 4 else 3),
                 shelfDetectionRange = 160,
                 playerDetectionRange = 120,
                 stuckTimer = 0,
                 hasPlayedLaughSound = False,
                 fleeTimer = None \<rparr>
      in (ensureSafeSpawnPosition k0 shs, (\<lambda>n. g (n + 2))))"

text \<open>\<open>playLaughingSound\<close>: one alert cue per flee episode, guarded by the one-shot flag.\<close>

definition playLaughingSound :: "kid \<times> kidView \<Rightarrow> kid \<times> kidView" where
  "playLaughingSound = (\<lambda>(k, v).
     if \<not> hasPlayedLaughSound k
     then (k\<lparr> hasPlayedLaughSound := True \<rparr>, v\<lparr> v_cues := v_cues v @ [LaughCue] \<rparr>)
     else (k, v))"

text \<open>The collision loop of \<open>applyMovement\<close> over \<open>state.shelves\<close>, carrying
  \<open>(canMoveX, canMoveY)\<close>; it leaves early once both are false.\<close>

fun scanShelves :: "kid \<Rightarrow> real \<Rightarrow> real \<Rightarrow> shelf list \<Rightarrow> bool \<times> bool \<Rightarrow> bool \<times> bool" where
  "scanShelves k newX newY [] (canMoveX, canMoveY) = (canMoveX, canMoveY)"
| "scanShelves k newX newY (s # ss) (canMoveX, canMoveY) =
     (if \<bar>s_x s - k_x k\<bar> > 150 \<or> \<bar>s_y s - k_y k\<bar> > 150
      then scanShelves k newX newY ss (canMoveX, canMoveY)
      else
        let cx = (if canMoveX \<and> checkCollision k newX (k_y k) s then False else canMoveX);
            cy = (if canMoveY \<and> checkCollision k (k_x k) newY s then False else canMoveY)
        in if \<not> cx \<and> \<not> cy then (cx, cy) else scanShelves k newX newY ss (cx, cy))"

definition applyMovement :: "real \<Rightarrow> kid \<times> kidView \<Rightarrow> kid \<times> kidView" where
  "applyMovement deltaTime = (\<lambda>(k, v).
     let newX = k_x k + k_vx k * deltaTime;
         newY = k_y k + k_vy k * deltaTime;
         (canMoveX, canMoveY) = scanShelves k newX newY (v_shelves v) (True, True);
         (k1, v1) =
           (if canMoveX then (k\<lparr> k_x := newX \<rparr>, v)
            else
              let kb = k\<lparr> k_vx := - k_vx k * 0.3 \<rparr> in
              if k_state kb = Wandering
              then (let (r, v') = random v
                    in (kb\<lparr> direction := pi - direction kb + (r - 0.5) * 0.5 \<rparr>, v'))
              else (kb, v));
         (k2, v2) =
           (if canMoveY then (k1\<lparr> k_y := newY \<rparr>, v1)
            else
              let kb = k1\<lparr> k_vy := - k_vy k1 * 0.3 \<rparr> in
              if k_state kb = Wandering
              then (let (r, v') = random v1
                    in (kb\<lparr> direction := - direction kb + (r - 0.5) * 0.5 \<rparr>, v'))
              else (kb, v1))
     in if \<not> canMoveX \<and> \<not> canMoveY \<and> k_state k2 = Wandering
        then (let (r, v') = random v2;
                  d = r * pi * 2
              in (k2\<lparr> direction := d, k_vx := cos d * speed k2 * 0.5,
                       k_vy := sin d * speed k2 * 0.5 \<rparr>, v'))
        else (k2, v2))"

text \<open>\<open>dropVolumeBlock\<close>: the carried block goes back to the floor, near the target shelf
  when the kid still has one and near the kid otherwise, kept 20 pixels inside the world.\<close>

definition dropVolumeBlock :: "kid \<times> kidView \<Rightarrow> kid \<times> kidView" where
  "dropVolumeBlock = (\<lambda>(k, v).
     case carriedVolumeBlock k of
       None \<Rightarrow> (k, v)
     | Some bi \<Rightarrow>
         let volumeBlock = (v_volumeBlocks v ! bi)
               \<lparr> isHeld := False, holder := None, isShelved := False, visible := True \<rparr>;
             (randomAngle0, va) = random v;
             (randomDistance0, vb) = random va;
             dropRadius = (if target k \<noteq> None then 180 else 60);
             randomAngle = randomAngle0 * pi * 2;
             randomDistance = randomDistance0 * dropRadius;
             cx = (case target k of Some t \<Rightarrow> shelfCenterX (v_shelves v ! t)
                                  | None \<Rightarrow> kidCenterX k);
             cy = (case target k of Some t \<Rightarrow> shelfCenterY (v_shelves v ! t)
                                  | None \<Rightarrow> kidCenterY k);
             dropX0 = cx + cos randomAngle * randomDistance - b_width volumeBlock / 2;
             dropY0 = cy + sin randomAngle * randomDistance - b_height volumeBlock / 2;
             bounded = (v_worldWidth v \<noteq> 0 \<and> v_worldHeight v \<noteq> 0);
             margin = 20;
             dropX = (if bounded
                      then max margin (min (v_worldWidth v - b_width volumeBlock - margin) dropX0)
                      else dropX0);
             dropY = (if bounded
                      then max margin (min (v_worldHeight v - b_height volumeBlock - margin) dropY0)
                      else dropY0);
             (rvx, vc) = random vb;
             (rvy, vd) = random vc;
             dropped = volumeBlock\<lparr> b_x := dropX, b_y := dropY,
                         b_vx := (rvx - 0.5) * 40, b_vy := (rvy - 0.5) * 40 \<rparr>
         in (k\<lparr> carriedVolumeBlock := None \<rparr>,
             vd\<lparr> v_volumeBlocks := (v_volumeBlocks vd)[bi := dropped] \<rparr>))"

text \<open>\<open>Shelf.removeRandomVolumeBlock\<close> on shelf \<open>si\<close> of the view. A random index outside the
  list of occupied indices reads \<open>undefined\<close>, which \<open>removeVolumeBlock\<close> rejects. The removed
  block is unshelved; its reference is returned.\<close>

definition occupiedIndices :: "shelf \<Rightarrow> nat list" where
  "occupiedIndices s = filter (\<lambda>i. volumeBlocks s ! i \<noteq> None) [0 ..< length (volumeBlocks s)]"

definition removeVolumeBlockIn :: "nat \<Rightarrow> int \<Rightarrow> kidView \<Rightarrow> nat option \<times> kidView" where
  "removeVolumeBlockIn si index v =
     (case removeVolumeBlock (v_shelves v ! si) index of
        (None, s') \<Rightarrow> (None, v)
      | (Some bi, s') \<Rightarrow>
          (Some bi, v\<lparr> v_shelves := (v_shelves v)[si := s'],
                       v_volumeBlocks := (v_volumeBlocks v)[bi := unshelve (v_volumeBlocks v ! bi)] \<rparr>))"

definition removeRandomVolumeBlock :: "nat \<Rightarrow> kidView \<Rightarrow> nat option \<times> kidView" where
  "removeRandomVolumeBlock si v =
     (let volumeBlockIndices = occupiedIndices (v_shelves v ! si) in
      if length volumeBlockIndices = 0 then (None, v)
      else
        let (r, v') = random v;
            pick = \<lfloor>r * real (length volumeBlockIndices)\<rfloor>
        in if 0 \<le> pick \<and> pick < int (length volumeBlockIndices)
           then removeVolumeBlockIn si (int (volumeBlockIndices ! nat pick)) v'
           else (None, v'))"

text \<open>The player proximity check that opens \<open>updateWandering\<close> and follows the guard of
  \<open>updateStealing\<close>: it counts the kid as repelled, makes it flee and plays the alert cue.\<close>

definition playerIsClose :: "kid \<Rightarrow> kidView \<Rightarrow> bool" where
  "playerIsClose k v =
     (case v_player v of None \<Rightarrow> False
      | Some p \<Rightarrow> distToPlayer k p < playerDetectionRange k)"

definition startFleeing :: "kid \<times> kidView \<Rightarrow> kid \<times> kidView" where
  "startFleeing = (\<lambda>(k, v).
     let v1 = (if k_state k \<noteq> Fleeing then v\<lparr> v_kidsRepelled := v_kidsRepelled v + 1 \<rparr> else v)
     in playLaughingSound (k\<lparr> k_state := Fleeing \<rparr>, v1))"

definition hasStock :: "shelf \<Rightarrow> bool" where
  "hasStock s = (\<exists>x \<in> set (volumeBlocks s). x \<noteq> None)"

text \<open>The first loop of \<open>updateWandering\<close>: the first shelf in range that has stock;
  \<open>findTarget\<close> returns its index in \<open>state.shelves\<close>, which stands for the reference
  stored in \<open>this.target\<close>.\<close>

definition stealCandidate :: "kid \<Rightarrow> shelf \<Rightarrow> bool" where
  "stealCandidate k s =
     (\<not> (\<bar>s_x s - k_x k\<bar> > shelfDetectionRange k \<or> \<bar>s_y s - k_y k\<bar> > shelfDetectionRange k)
      \<and> distToShelf k s < shelfDetectionRange k \<and> hasStock s)"

text \<open>The second loop of \<open>updateWandering\<close>: the nearest shelf that has stock, the earlier one
  on a tie; \<open>None\<close> while \<open>nearestDist\<close> is still \<open>Infinity\<close>.\<close>

fun nearestShelf :: "kid \<Rightarrow> shelf list \<Rightarrow> (shelf \<times> real) option \<Rightarrow> (shelf \<times> real) option" where
  "nearestShelf k [] acc = acc"
| "nearestShelf k (s # ss) acc =
     (if hasStock s
      then (let dist = distToShelf k s in
            case acc of
              None \<Rightarrow> nearestShelf k ss (Some (s, dist))
            | Some (s0, nearestDist) \<Rightarrow>
                if dist < nearestDist then nearestShelf k ss (Some (s, dist))
                else nearestShelf k ss acc)
      else nearestShelf k ss acc)"

text \<open>The heading towards the centre of the world with a random deviation, used twice in
  \<open>updateWandering\<close>.\<close>

definition headForCenter :: "kid \<times> kidView \<Rightarrow> kid \<times> kidView" where
  "headForCenter = (\<lambda>(k, v).
     let centerX = v_worldWidth v / 2; centerY = v_worldHeight v / 2;
         dx = centerX - kidCenterX k; dy = centerY - kidCenterY k;
         (r, v') = random v
     in (k\<lparr> direction := atan2 dy dx + (r - 0.5) * 0.5 \<rparr>, v'))"

text \<open>The part of \<open>updateWandering\<close> that chooses the heading.\<close>

definition chooseHeading :: "real \<Rightarrow> kid \<times> kidView \<Rightarrow> kid \<times> kidView" where
  "chooseHeading deltaTime = (\<lambda>(k, v).
     if carriedVolumeBlock k = None \<and> volumeBlockStealCooldown k \<le> 0 \<and> length (v_shelves v) > 0
     then
       (case nearestShelf k (v_shelves v) None of
          Some (s, d) \<Rightarrow>
            (let dx = shelfCenterX s - kidCenterX k; dy = shelfCenterY s - kidCenterY k
             in (k\<lparr> direction := atan2 dy dx \<rparr>, v))
        | None \<Rightarrow>
            (let k1 = k\<lparr> directionChangeTimer := directionChangeTimer k - deltaTime \<rparr> in
             if directionChangeTimer k1 \<le> 0
             then (let (k2, v2) = headForCenter (k1, v)
                   in (k2\<lparr> directionChangeTimer := 1.0 \<rparr>, v2))
             else (k1, v)))
     else
       (let k1 = k\<lparr> directionChangeTimer := directionChangeTimer k - deltaTime \<rparr> in
        if directionChangeTimer k1 \<le> 0
        then
          (let (r, v') = random v;
               d = (case target k1 of
                      Some t \<Rightarrow>
                        (let dx = kidCenterX k1 - shelfCenterX (v_shelves v ! t);
                             dy = kidCenterY k1 - shelfCenterY (v_shelves v ! t)
                         in atan2 dy dx + (r - 0.5) * pi / 2)
                    | None \<Rightarrow> r * pi * 2)
           in (k1\<lparr> direction := d, directionChangeTimer := 1.5 \<rparr>, v'))
        else (k1, v)))"

fun findTarget :: "kid \<Rightarrow> shelf list \<Rightarrow> nat \<Rightarrow> nat option" where
  "findTarget k [] i = None"
| "findTarget k (s # ss) i = (if stealCandidate k s then Some i else findTarget k ss (Suc i))"

definition updateWandering :: "real \<Rightarrow> kid \<times> kidView \<Rightarrow> kid \<times> kidView" where
  "updateWandering deltaTime = (\<lambda>(k, v).
     if playerIsClose k v then startFleeing (k, v)
     else
       case (if carriedVolumeBlock k = None \<and> volumeBlockStealCooldown k \<le> 0
             then findTarget k (v_shelves v) 0 else None) of
         Some t \<Rightarrow> (k\<lparr> target := Some t, k_state := Stealing \<rparr>, v)
       | None \<Rightarrow>
           let (k1, v1) = chooseHeading deltaTime (k, v);
               k2 = k1\<lparr> k_vx := cos (direction k1) * speed k1,
                        k_vy := sin (direction k1) * speed k1 \<rparr>;
               margin = 20;
               (k3, v3) =
                 (if v_worldWidth v1 \<noteq> 0 \<and> v_worldHeight v1 \<noteq> 0 \<and>
                     (k_x k2 \<le> margin \<or> k_x k2 \<ge> v_worldWidth v1 - k_width k2 - margin \<or>
                      k_y k2 \<le> margin \<or> k_y k2 \<ge> v_worldHeight v1 - k_height k2 - margin)
                  then headForCenter (k2, v1) else (k2, v1))
           in applyMovement deltaTime (k3, v3))"

definition updateFleeing :: "real \<Rightarrow> kid \<times> kidView \<Rightarrow> kid \<times> kidView" where
  "updateFleeing deltaTime = (\<lambda>(k, v).
     case v_player v of
       None \<Rightarrow>
         (let k1 = k\<lparr> k_vx := cos (direction k) * fleeSpeed k,
                      k_vy := sin (direction k) * fleeSpeed k \<rparr>;
              (k2, v2) = applyMovement deltaTime (k1, v);
              t0 = (case fleeTimer k2 of None \<Rightarrow> 1 | Some t \<Rightarrow> if t = 0 then 1 else t);
              t1 = t0 - deltaTime
          in if t1 \<le> 0
             then (k2\<lparr> fleeTimer := None, k_state := Wandering, hasPlayedLaughSound := False \<rparr>, v2)
             else (k2\<lparr> fleeTimer := Some t1 \<rparr>, v2))
     | Some p \<Rightarrow>
         if distToPlayer k p > playerDetectionRange k * 1.5
         then (k\<lparr> k_state := Wandering, hasPlayedLaughSound := False \<rparr>, v)
         else
           (let dx = kidCenterX k - playerCenterX p;
                dy = kidCenterY k - playerCenterY p;
                dist = sqrt (dx * dx + dy * dy);
                k1 = (if dist > 0
                      then k\<lparr> k_vx := (dx / dist) * fleeSpeed k, k_vy := (dy / dist) * fleeSpeed k \<rparr>
                      else k);
                (k2, v2) = applyMovement deltaTime (k1, v)
            in if carriedVolumeBlock k2 \<noteq> None
               then (let (r, v3) = random v2
                     in if r < 2.0 * deltaTime then dropVolumeBlock (k2, v3) else (k2, v3))
               else (k2, v2)))"

text \<open>The theft itself, once the kid stands at the shelf and the grab delay has run out.\<close>

definition grabFromShelf :: "nat \<Rightarrow> kid \<times> kidView \<Rightarrow> kid \<times> kidView" where
  "grabFromShelf t = (\<lambda>(k, v).
     let (res, v1) = removeRandomVolumeBlock t v;
         (k2, v2) =
           (case res of
              Some bi \<Rightarrow>
                (let (r, va) = random v1;
                     (k', v') =
                       (if r < 0.5
                        then
                          (let shelf = v_shelves va ! t;
                               dropRadius = 150;
                               (ra, vb) = random va;
                               randomAngle = ra * pi * 2;
                               (rd, vc) = random vb;
                               randomDistance = rd * dropRadius;
                               b = v_volumeBlocks vc ! bi;
                               bx = shelfCenterX shelf + cos randomAngle * randomDistance
                                      - b_width b / 2;
                               by = shelfCenterY shelf + sin randomAngle * randomDistance
                                      - b_height b / 2;
                               (rvx, vd) = random vc;
                               (rvy, ve) = random vd;
                               b' = b\<lparr> b_x := bx, b_y := by, b_vx := (rvx - 0.5) * 60,
                                       b_vy := (rvy - 0.5) * 60, visible := True \<rparr>
                           in (k, ve\<lparr> v_volumeBlocks := (v_volumeBlocks ve)[bi := b'] \<rparr>))
                        else
                          (let b = v_volumeBlocks va ! bi;
                               b' = b\<lparr> isHeld := True, holder := Some (KidRef (k_ref k)),
                                       visible := True \<rparr>
                           in (k\<lparr> carriedVolumeBlock := Some bi \<rparr>,
                               va\<lparr> v_volumeBlocks := (v_volumeBlocks va)[bi := b'] \<rparr>)))
                 in (k'\<lparr> volumeBlockStealCooldown := volumeBlockStealCooldownTime k',
                         k_state := Fleeing \<rparr>, v'))
            | None \<Rightarrow> (k\<lparr> k_state := Wandering, volumeBlockStealCooldown := 1 \<rparr>, v1))
     in (k2\<lparr> target := None, grabDelay := 0 \<rparr>, v2))"

definition updateStealing :: "real \<Rightarrow> kid \<times> kidView \<Rightarrow> kid \<times> kidView" where
  "updateStealing deltaTime = (\<lambda>(k, v).
     case target k of
       None \<Rightarrow> (k\<lparr> k_state := Wandering \<rparr>, v)
     | Some t \<Rightarrow>
         if carriedVolumeBlock k \<noteq> None then (k\<lparr> k_state := Wandering \<rparr>, v)
         else if playerIsClose k v then startFleeing (k, v)
         else
           (let shelf = v_shelves v ! t;
                dx = shelfCenterX shelf - kidCenterX k;
                dy = shelfCenterY shelf - kidCenterY k;
                dist = sqrt (dx * dx + dy * dy)
            in if \<not> isNearShelf k shelf 5
               then applyMovement deltaTime
                      (k\<lparr> k_vx := (dx / dist) * speed k, k_vy := (dy / dist) * speed k \<rparr>, v)
               else
                 (let k1 = (if grabDelay k \<le> 0 then k\<lparr> grabDelay := grabDelayTime k \<rparr> else k);
                      k2 = k1\<lparr> grabDelay := grabDelay k1 - deltaTime \<rparr>
                  in if grabDelay k2 \<le> 0 then grabFromShelf t (k2, v) else (k2, v))))"

text \<open>\<open>Kid.update\<close>, in the order of the source: the steal cooldown, the state machine, the
  stuck detector, the carry timer with its forced drop, and the world bounds.\<close>

definition stuckCheck :: "real \<Rightarrow> kid \<times> kidView \<Rightarrow> kid \<times> kidView" where
  "stuckCheck deltaTime = (\<lambda>(k, v).
     if \<bar>k_vx k\<bar> < 0.1 \<and> \<bar>k_vy k\<bar> < 0.1
     then
       (let k1 = k\<lparr> stuckTimer := stuckTimer k + deltaTime \<rparr> in
        if stuckTimer k1 > 1.0
        then (let (r, v') = random v in (k1\<lparr> direction := r * pi * 2, stuckTimer := 0 \<rparr>, v'))
        else (k1, v))
     else (k\<lparr> stuckTimer := 0 \<rparr>, v))"

definition carryTimer :: "real \<Rightarrow> kid \<times> kidView \<Rightarrow> kid \<times> kidView" where
  "carryTimer deltaTime = (\<lambda>(k, v).
     if carriedVolumeBlock k \<noteq> None
     then
       (let k1 = k\<lparr> dropVolumeBlockTimer := dropVolumeBlockTimer k + deltaTime \<rparr>;
            (r, v1) = random v
        in if dropVolumeBlockTimer k1 >
                dropVolumeBlockMinTime k1 + r * (dropVolumeBlockMaxTime k1 - dropVolumeBlockMinTime k1)
           then (let (k2, v2) = dropVolumeBlock (k1, v1)
                 in (k2\<lparr> dropVolumeBlockTimer := 0, k_state := Wandering \<rparr>, v2))
           else (k1, v1))
     else (k, v))"

definition keepInWorld :: "kid \<times> kidView \<Rightarrow> kid \<times> kidView" where
  "keepInWorld = (\<lambda>(k, v).
     if v_worldWidth v \<noteq> 0 \<and> v_worldHeight v \<noteq> 0
     then (k\<lparr> k_x := max 0 (min (v_worldWidth v - k_width k) (k_x k)),
              k_y := max 0 (min (v_worldHeight v - k_height k) (k_y k)) \<rparr>, v)
     else (k, v))"

definition stateMachine :: "real \<Rightarrow> kid \<times> kidView \<Rightarrow> kid \<times> kidView" where
  "stateMachine deltaTime = (\<lambda>(k, v).
     case k_state k of
       Wandering \<Rightarrow> updateWandering deltaTime (k, v)
     | Fleeing \<Rightarrow> updateFleeing deltaTime (k, v)
     | Stealing \<Rightarrow> updateStealing deltaTime (k, v))"

definition Kid_update :: "real \<Rightarrow> kid \<times> kidView \<Rightarrow> kid \<times> kidView" where
  "Kid_update deltaTime = (\<lambda>(k, v).
     let k1 = (if volumeBlockStealCooldown k > 0
               then k\<lparr> volumeBlockStealCooldown := volumeBlockStealCooldown k - deltaTime \<rparr>
               else k)
     in keepInWorld (carryTimer deltaTime (stuckCheck deltaTime (stateMachine deltaTime (k1, v)))))"

section \<open>PlayingState.js\<close>

record gameData =
  chaosLevel :: real
  maxChaos :: real
  playerLevel :: nat
  xp :: int
  xpToNext :: int
  elapsedTime :: real
  targetTime :: real
  isPaused :: bool
  volumeBlocksCollected :: nat
  volumeBlocksShelved :: nat
  kidsRepelled :: nat

record particle =
  pt_x :: real
  pt_y :: real
  pt_amount :: int
  pt_vy :: real
  lifetime :: real
  age :: real

record notification =
  active :: bool
  increase :: int
  timer :: real
  duration :: real

text \<open>Requests to the state manager, in the order they are made.\<close>

datatype stateRequest = PushPaused | PushUpgradeSelection | GameOverWon | GameOverChaos

text \<open>The playing state together with \<open>game.gameData\<close>, the requests made to the state
  manager, the audio cues played and the random source. \<open>playerLevel\<close> is a natural number:
  it starts at 1 and is only ever incremented. \<open>xp\<close> and \<open>xpToNext\<close> only ever hold
  integers. A particle's text \<open>+n XP\<close> is kept as the number \<open>n\<close>.\<close>

record playingState =
  gameData :: gameData
  player :: "player option"
  kids :: "kid list"
  ps_volumeBlocks :: "volumeBlock list"
  shelves :: "shelf list"
  particles :: "particle list"
  worldWidth :: real
  worldHeight :: real
  kidSpawnTimer :: real
  kidSpawnInterval :: real
  maxKids :: int
  lastMaxKids :: int
  maxKidsIncreaseNotification :: notification
  requests :: "stateRequest list"
  cues :: "cue list"
  rnd :: "nat \<Rightarrow> real"

definition spawnPoints :: "(real \<times> real) list" where
  "spawnPoints = [(500, 400), (1500, 400), (500, 800), (1500, 800),
                  (1000, 300), (1000, 900), (300, 600), (1700, 600)]"

subsection \<open>updateChaos\<close>

text \<open>\<open>holder.constructor.name === 'Kid'\<close> on a block that is held.\<close>

definition heldByKid :: "volumeBlock \<Rightarrow> bool" where
  "heldByKid b = (isHeld b \<and> (case holder b of Some (KidRef i) \<Rightarrow> True | _ \<Rightarrow> False))"

definition totalChaosVolumeBlocks :: "playingState \<Rightarrow> nat" where
  "totalChaosVolumeBlocks w =
     length (filter (\<lambda>b. \<not> isHeld b \<and> \<not> isShelved b) (ps_volumeBlocks w))
     + length (filter heldByKid (ps_volumeBlocks w))"

definition chaosPerVolumeBlock :: "real \<Rightarrow> real" where
  "chaosPerVolumeBlock elapsed =
     (let minutes = elapsed / 60 in
      if minutes < 3 then 0.05 else if minutes < 5 then 0.03 else 0.01)"

definition updateChaos :: "real \<Rightarrow> playingState \<Rightarrow> playingState" where
  "updateChaos deltaTime w =
     (let g = gameData w;
          total = totalChaosVolumeBlocks w;
          g1 = (if total > 0
                then
                  (let chaosRate = real total * chaosPerVolumeBlock (elapsedTime g);
                       dampening = (case player w of None \<Rightarrow> 0
                                    | Some p \<Rightarrow> chaosDampening (stats p));
                       chaosMultiplier = 1 - dampening / 100
                   in g\<lparr> chaosLevel := chaosLevel g + chaosRate * deltaTime * chaosMultiplier \<rparr>)
                else g);
          g2 = (if chaosLevel g1 > 0 \<and> total = 0
                then g1\<lparr> chaosLevel := chaosLevel g1 - 0.1 * deltaTime \<rparr>
                else g1);
          g3 = g2\<lparr> chaosLevel := max 0 (min (maxChaos g2) (chaosLevel g2)) \<rparr>
      in w\<lparr> gameData := g3 \<rparr>)"

subsection \<open>awardXP\<close>

text \<open>The requirement of a level: \<open>Math.floor(100 * Math.pow(1.45, level - 1))\<close>, read after
  the level has been incremented, so that \<open>level\<close> is at least 1. The precision of
  \<open>Math.pow\<close> is left to the implementation by the language, so the power and its product
  are taken exactly here.\<close>

definition xpRequirement :: "nat \<Rightarrow> int" where
  "xpRequirement level = \<lfloor>100 * (1.45 :: real) ^ (level - 1)\<rfloor>"

text \<open>The floor in \<open>awardXP\<close> makes the rounding of its floating-point products visible
  (10 * (1.4 * 1.5) floors to 20, not 21), so these products are rounded as the source
  rounds them. \<open>fl\<close> rounds a real to the nearest binary64 number, ties to the even
  significand: 53 significant bits at the exponent of the argument. The subnormal range and
  overflow to infinity are not modelled; amounts of XP are far from both.\<close>

definition roundHalfEven :: "real \<Rightarrow> int" where
  "roundHalfEven r =
     (let f = \<lfloor>r\<rfloor>; d = r - of_int f in
      if d < 1 / 2 then f else if d > 1 / 2 then f + 1 else if even f then f else f + 1)"

definition fl :: "real \<Rightarrow> real" where
  "fl x =
     (if x = 0 then 0
      else let e = \<lfloor>log 2 \<bar>x\<bar>\<rfloor>; ulp = 2 powi (e - 52)
           in of_int (roundHalfEven (x / ulp)) * ulp)"

text \<open>The amount granted: \<open>this.player?.getXPMultiplier() || 1\<close>, then
  \<open>xpMultiplier *= 1.5\<close> in the first two minutes, then
  \<open>Math.floor(amount * xpMultiplier)\<close>; each product is a binary64 product.\<close>

definition multipliedAmount :: "real \<Rightarrow> playingState \<Rightarrow> int" where
  "multipliedAmount amount w =
     (let m0 = (case player w of None \<Rightarrow> 1
                | Some p \<Rightarrow> if xpMultiplier p = 0 then 1 else xpMultiplier p);
          m = (if elapsedTime (gameData w) < 120 then fl (m0 * 1.5) else m0)
      in \<lfloor>fl (amount * m)\<rfloor>)"

text \<open>One pass of the level-up loop's body.\<close>

definition levelUp :: "playingState \<Rightarrow> playingState" where
  "levelUp w =
     (let g = gameData w;
          g1 = g\<lparr> xp := xp g - xpToNext g, playerLevel := playerLevel g + 1 \<rparr>;
          pl = (case player w of None \<Rightarrow> None
                | Some p \<Rightarrow> Some (p\<lparr> stats := (stats p)\<lparr> stamina := maxStamina (stats p) \<rparr> \<rparr>));
          g2 = g1\<lparr> xpToNext := xpRequirement (playerLevel g1) \<rparr>
      in w\<lparr> gameData := g2, player := pl, requests := requests w @ [PushUpgradeSelection] \<rparr>)"

text \<open>\<open>while (gameData.xp >= gameData.xpToNext) { ... }\<close>. The first pass may subtract a
  requirement that is not positive; every later one subtracts at least 100.\<close>

function levelUpLoop :: "playingState \<Rightarrow> playingState" where
  "levelUpLoop w =
     (if xp (gameData w) \<ge> xpToNext (gameData w) then levelUpLoop (levelUp w) else w)"
  by pat_completeness auto
termination
proof (relation "measures [\<lambda>w. if xpToNext (gameData w) \<le> 0 then 1 else 0,
                           \<lambda>w. nat (xp (gameData w))]", goal_cases)
  case 1
  show ?case by simp
next
  case (2 w)
  have "(1::real) \<le> 1.45 ^ playerLevel (gameData w)"
    by (rule one_le_power) simp
  then have "(100::real) \<le> 100 * 1.45 ^ playerLevel (gameData w)" by simp
  then have "(100::int) \<le> \<lfloor>100 * (1.45::real) ^ playerLevel (gameData w)\<rfloor>"
    by (simp add: le_floor_iff)
  then have pos: "xpToNext (gameData (levelUp w)) \<ge> 100"
    by (simp add: levelUp_def xpRequirement_def Let_def)
  have x: "xp (gameData (levelUp w)) = xp (gameData w) - xpToNext (gameData w)"
    by (simp add: levelUp_def Let_def)
  show ?case
  proof (cases "xpToNext (gameData w) \<le> 0")
    case True
    with pos show ?thesis by simp
  next
    case False
    with 2 pos x show ?thesis by simp
  qed
qed

declare levelUpLoop.simps [simp del]

definition awardXP :: "real \<Rightarrow> playingState \<Rightarrow> playingState" where
  "awardXP amount w =
     (let granted = multipliedAmount amount w;
          g = (gameData w)\<lparr> xp := xp (gameData w) + granted \<rparr>;
          ps = (case player w of None \<Rightarrow> particles w
                | Some p \<Rightarrow> particles w @
                    [\<lparr> pt_x = playerCenterX p, pt_y = p_y p - 10, pt_amount = granted,
                       pt_vy = - 50, lifetime = 1.5, age = 0 \<rparr>])
      in levelUpLoop (w\<lparr> gameData := g, particles := ps \<rparr>))"

subsection \<open>updateKidSpawning\<close>

definition waveMaxKids :: "real \<Rightarrow> int" where
  "waveMaxKids minutes =
     (if minutes < 1 then 3
      else if minutes < 3 then 5
      else if minutes < 5 then 7
      else if minutes < 10 then 10
      else 10 + \<lfloor>minutes - 10\<rfloor> * 2)"

definition spawnAggression :: "real \<Rightarrow> int" where
  "spawnAggression minutes =
     (if minutes \<ge> 15 then 3 else if minutes \<ge> 10 then 3 else if minutes \<ge> 5 then 2 else 1)"

text \<open>The result is \<open>None\<close> where the source would throw: a random value outside [0, 1)
  makes \<open>this.spawnPoints[...]\<close> undefined, and reading its \<open>x\<close> is a TypeError. The new
  kid's constructor looks at the shelves of the current state.\<close>

definition updateKidSpawning :: "real \<Rightarrow> playingState \<Rightarrow> playingState option" where
  "updateKidSpawning deltaTime w =
     (let minutes = elapsedTime (gameData w) / 60;
          newMaxKids = waveMaxKids minutes;
          w1 = (if newMaxKids > maxKids w
                then w\<lparr> maxKids := newMaxKids,
                        maxKidsIncreaseNotification :=
                          \<lparr> active = True, increase = newMaxKids - maxKids w,
                            timer = 0, duration = 3 \<rparr> \<rparr>
                else w);
          n = maxKidsIncreaseNotification w1;
          w2 = (if active n
                then (let n1 = n\<lparr> timer := timer n + deltaTime \<rparr>
                      in w1\<lparr> maxKidsIncreaseNotification :=
                              (if timer n1 \<ge> duration n1 then n1\<lparr> active := False \<rparr> else n1) \<rparr>)
                else w1)
      in if int (length (kids w2)) \<ge> maxKids w2 then Some w2
         else
           let w3 = w2\<lparr> kidSpawnTimer := kidSpawnTimer w2 - deltaTime \<rparr> in
           if kidSpawnTimer w3 \<le> 0
           then
             (let aggression = spawnAggression minutes;
                  spawnInterval = 15;
                  pick = \<lfloor>rnd w3 0 * real (length spawnPoints)\<rfloor>
              in if 0 \<le> pick \<and> pick < int (length spawnPoints)
                 then
                   (let (x, y) = spawnPoints ! nat pick;
                        (k, g) = Kid (length (kids w3)) (shelves w3) x y aggression
                                   (\<lambda>n. rnd w3 (Suc n))
                    in Some (w3\<lparr> kids := kids w3 @ [k], kidSpawnTimer := spawnInterval,
                                 kidSpawnInterval := spawnInterval, rnd := g \<rparr>))
                 else None)
           else Some w3)"

subsection \<open>The interactions of the player with blocks, kids and shelves\<close>

text \<open>Modelled from the spec: \<open>Player.js\<close> is not among the sources. Section 3: the player
  has an ordered collection of carried blocks, bounded by the carry-slot count;
  \<open>pickupVolumeBlock\<close> appends the block when a slot is free and reports whether it did.\<close>

definition pickupVolumeBlock :: "player \<Rightarrow> nat \<Rightarrow> bool \<times> player" where
  "pickupVolumeBlock p bi =
     (if int (length (carriedVolumeBlocks p)) < carrySlots (stats p)
      then (True, p\<lparr> carriedVolumeBlocks := carriedVolumeBlocks p @ [bi] \<rparr>)
      else (False, p))"

text \<open>Modelled from the spec: \<open>VolumeBlock.js\<close> is not among the sources. Sections 4.2 and 7:
  \<open>pickup(holder)\<close> takes a block from Floor to Held and sets the owning reference; it is a
  no-op on a block that is already Held or Shelved.\<close>

definition pickup :: "holderRef \<Rightarrow> volumeBlock \<Rightarrow> volumeBlock" where
  "pickup h b = (if isHeld b \<or> isShelved b then b else b\<lparr> isHeld := True, holder := Some h \<rparr>)"

text \<open>Modelled from the spec: \<open>Player.js\<close> is not among the sources. \<open>shelveVolumeBlock(shelf)\<close>
  hands over the first carried block whose color is the shelf's color and takes it out of
  the carried collection, or returns \<open>null\<close> when the player carries no such block.\<close>

definition shelveVolumeBlock :: "volumeBlock list \<Rightarrow> player \<Rightarrow> shelf \<Rightarrow> nat option \<times> player" where
  "shelveVolumeBlock bs p s =
     (case find (\<lambda>bi. b_color (bs ! bi) = s_color s) (carriedVolumeBlocks p) of
        None \<Rightarrow> (None, p)
      | Some bi \<Rightarrow> (Some bi, p\<lparr> carriedVolumeBlocks := remove1 bi (carriedVolumeBlocks p) \<rparr>))"

text \<open>Modelled from the spec: \<open>VolumeBlock.js\<close> is not among the sources. Section 4.2: the
  velocity integrates into the position each tick.\<close>

definition VolumeBlock_update :: "real \<Rightarrow> volumeBlock \<Rightarrow> volumeBlock" where
  "VolumeBlock_update deltaTime b =
     b\<lparr> b_x := b_x b + b_vx b * deltaTime, b_y := b_y b + b_vy b * deltaTime \<rparr>"

definition playPickupSound :: "playingState \<Rightarrow> playingState" where
  "playPickupSound w = w\<lparr> cues := cues w @ [PickupCue] \<rparr>"

definition playShelfSound :: "playingState \<Rightarrow> playingState" where
  "playShelfSound w = w\<lparr> cues := cues w @ [ShelfCue] \<rparr>"

text \<open>The body of the loop of \<open>checkVolumeBlockPickup\<close> for the block with reference \<open>bi\<close>;
  the radius and the player's centre are computed once, before the loop.\<close>

definition pickupStep :: "real \<Rightarrow> real \<Rightarrow> real \<Rightarrow> nat \<Rightarrow> playingState \<Rightarrow> playingState" where
  "pickupStep pickupRadiusPixels pcx pcy bi w =
     (let b = ps_volumeBlocks w ! bi in
      if isHeld b \<or> isShelved b then w
      else
        let distance = sqrt ((blockCenterX b - pcx)\<^sup>2 + (blockCenterY b - pcy)\<^sup>2) in
        if distance \<le> pickupRadiusPixels
        then
          (case player w of
             None \<Rightarrow> w
           | Some p \<Rightarrow>
               (case pickupVolumeBlock p bi of
                  (True, p') \<Rightarrow>
                    (let g = gameData w;
                         g1 = g\<lparr> volumeBlocksCollected := volumeBlocksCollected g + 1 \<rparr>;
                         g2 = g1\<lparr> chaosLevel := chaosLevel g1 - 0.5 \<rparr>;
                         g3 = g2\<lparr> chaosLevel := max 0 (chaosLevel g2) \<rparr>;
                         w1 = w\<lparr> player := Some p',
                                 ps_volumeBlocks := (ps_volumeBlocks w)[bi := pickup PlayerRef b],
                                 gameData := g3 \<rparr>
                     in playPickupSound (awardXP 5 w1))
                | (False, p') \<Rightarrow> w\<lparr> player := Some p' \<rparr>))
        else w)"

definition checkVolumeBlockPickup :: "playingState \<Rightarrow> playingState" where
  "checkVolumeBlockPickup w =
     (case player w of
        None \<Rightarrow> w
      | Some p \<Rightarrow>
          fold (pickupStep (pickupRadius (stats p) * 32) (playerCenterX p) (playerCenterY p))
            [0 ..< length (ps_volumeBlocks w)] w)"

text \<open>The body of the loop of \<open>checkVolumeBlockSnatching\<close> for the kid with reference \<open>ki\<close>.
  The kid's reference to the block is cleared before the player is asked to take it.\<close>

definition snatchStep :: "real \<Rightarrow> real \<Rightarrow> real \<Rightarrow> nat \<Rightarrow> playingState \<Rightarrow> playingState" where
  "snatchStep snatchRadius pcx pcy ki w =
     (let kid = kids w ! ki in
      case carriedVolumeBlock kid of
        None \<Rightarrow> w
      | Some bi \<Rightarrow>
          let distance = sqrt ((kidCenterX kid - pcx)\<^sup>2 + (kidCenterY kid - pcy)\<^sup>2) in
          if distance \<le> snatchRadius
          then
            (let kid1 = kid\<lparr> carriedVolumeBlock := None, dropVolumeBlockTimer := 0 \<rparr>;
                 w1 = w\<lparr> kids := (kids w)[ki := kid1] \<rparr>
             in case player w1 of
                  None \<Rightarrow> w1
                | Some p \<Rightarrow>
                    (case pickupVolumeBlock p bi of
                       (True, p') \<Rightarrow>
                         (let g = gameData w1;
                              g1 = g\<lparr> volumeBlocksCollected := volumeBlocksCollected g + 1 \<rparr>;
                              g2 = g1\<lparr> chaosLevel := chaosLevel g1 - 0.75 \<rparr>;
                              g3 = g2\<lparr> chaosLevel := max 0 (chaosLevel g2) \<rparr>;
                              w2 = w1\<lparr> player := Some p',
                                       ps_volumeBlocks := (ps_volumeBlocks w1)
                                          [bi := pickup PlayerRef (ps_volumeBlocks w1 ! bi)],
                                       kids := (kids w1)[ki := kid1\<lparr> k_state := Fleeing \<rparr>],
                                       gameData := g3 \<rparr>
                          in playPickupSound (awardXP 7 w2))
                     | (False, p') \<Rightarrow> w1\<lparr> player := Some p' \<rparr>))
          else w)"

definition checkVolumeBlockSnatching :: "playingState \<Rightarrow> playingState" where
  "checkVolumeBlockSnatching w =
     (case player w of
        None \<Rightarrow> w
      | Some p \<Rightarrow>
          if int (length (carriedVolumeBlocks p)) \<ge> carrySlots (stats p) then w
          else fold (snatchStep (repelRadius p) (playerCenterX p) (playerCenterY p))
                 [0 ..< length (kids w)] w)"

definition isPlayerNearShelf :: "player option \<Rightarrow> shelf \<Rightarrow> real \<Rightarrow> bool" where
  "isPlayerNearShelf po s distance =
     (case po of
        None \<Rightarrow> False
      | Some p \<Rightarrow>
          (let playerLeft = p_x p; playerRight = p_x p + p_width p;
               playerTop = p_y p; playerBottom = p_y p + p_height p;
               expandedLeft = s_x s - distance; expandedRight = s_x s + s_width s + distance;
               expandedTop = s_y s - distance; expandedBottom = s_y s + s_height s + distance
           in \<not> (playerLeft \<ge> expandedRight \<or> playerRight \<le> expandedLeft \<or>
                 playerTop \<ge> expandedBottom \<or> playerBottom \<le> expandedTop)))"

text \<open>The body of the loop of \<open>checkVolumeBlockShelving\<close> for the shelf with reference \<open>si\<close>.\<close>

definition shelvingStep :: "real \<Rightarrow> nat \<Rightarrow> playingState \<Rightarrow> playingState" where
  "shelvingStep returnDistance si w =
     (let s = shelves w ! si in
      if isPlayerNearShelf (player w) s returnDistance \<and> hasEmptySlots s
      then
        (case player w of
           None \<Rightarrow> w
         | Some p \<Rightarrow>
             (case shelveVolumeBlock (ps_volumeBlocks w) p s of
                (None, p') \<Rightarrow> w\<lparr> player := Some p' \<rparr>
              | (Some bi, p') \<Rightarrow>
                  (case addVolumeBlock s bi (ps_volumeBlocks w ! bi) of
                     (True, s', b') \<Rightarrow>
                       (let g = gameData w;
                            g1 = g\<lparr> volumeBlocksShelved := volumeBlocksShelved g + 1 \<rparr>;
                            g2 = g1\<lparr> chaosLevel := chaosLevel g1 - 1.0 \<rparr>;
                            g3 = g2\<lparr> chaosLevel := max 0 (chaosLevel g2) \<rparr>;
                            w1 = w\<lparr> player := Some p', shelves := (shelves w)[si := s'],
                                    ps_volumeBlocks := (ps_volumeBlocks w)[bi := b'],
                                    gameData := g3 \<rparr>
                        in playShelfSound (awardXP 10 w1))
                   | (False, s', b') \<Rightarrow> w\<lparr> player := Some p' \<rparr>)))
      else w)"

definition checkVolumeBlockShelving :: "playingState \<Rightarrow> playingState" where
  "checkVolumeBlockShelving w =
     (case player w of
        None \<Rightarrow> w
      | Some p \<Rightarrow>
          if length (carriedVolumeBlocks p) = 0 then w
          else fold (shelvingStep (returnRadius (stats p) * 32)) [0 ..< length (shelves w)] w)"

subsection \<open>update\<close>

text \<open>\<open>Shelf.update\<close> only animates the glow of the empty slots.\<close>

definition Shelf_update :: "real \<Rightarrow> player option \<Rightarrow> volumeBlock list \<Rightarrow> shelf \<Rightarrow> shelf" where
  "Shelf_update deltaTime po bs s =
     (if hasEmptySlots s
      then
        (let playerHasMatchingVolumeBlock =
               (case po of None \<Rightarrow> False
                | Some p \<Rightarrow> \<exists>bi \<in> set (carriedVolumeBlocks p). b_color (bs ! bi) = s_color s);
             glowSpeed = (if playerHasMatchingVolumeBlock then 4 else 2);
             maxGlow = (if playerHasMatchingVolumeBlock then 1 else 0.7);
             minGlow = (if playerHasMatchingVolumeBlock then 0.5 else 0.3);
             s1 = s\<lparr> emptySlotGlow :=
                      emptySlotGlow s + emptySlotGlowDirection s * deltaTime * glowSpeed \<rparr>
         in if emptySlotGlow s1 \<ge> maxGlow
            then s1\<lparr> emptySlotGlow := maxGlow, emptySlotGlowDirection := - 1 \<rparr>
            else if emptySlotGlow s1 \<le> minGlow
            then s1\<lparr> emptySlotGlow := minGlow, emptySlotGlowDirection := 1 \<rparr>
            else s1)
      else s\<lparr> emptySlotGlow := 0 \<rparr>)"

definition updateParticles :: "real \<Rightarrow> playingState \<Rightarrow> playingState" where
  "updateParticles deltaTime w =
     w\<lparr> particles :=
          filter (\<lambda>p. age p < lifetime p)
            (map (\<lambda>p. p\<lparr> age := age p + deltaTime, pt_y := pt_y p + pt_vy p * deltaTime,
                          pt_vy := pt_vy p + 100 * deltaTime \<rparr>) (particles w)) \<rparr>"

text \<open>What kid \<open>ki\<close> sees of the playing state, and its update written back.\<close>

definition viewOf :: "playingState \<Rightarrow> kidView" where
  "viewOf w = \<lparr> v_player = player w, v_shelves = shelves w, v_volumeBlocks = ps_volumeBlocks w,
                v_worldWidth = worldWidth w, v_worldHeight = worldHeight w,
                v_kidsRepelled = kidsRepelled (gameData w), v_cues = cues w, v_rnd = rnd w \<rparr>"

definition kidStep :: "real \<Rightarrow> nat \<Rightarrow> playingState \<Rightarrow> playingState" where
  "kidStep deltaTime ki w =
     (case Kid_update deltaTime (kids w ! ki, viewOf w) of
        (k', v') \<Rightarrow>
          w\<lparr> kids := (kids w)[ki := k'], shelves := v_shelves v',
             ps_volumeBlocks := v_volumeBlocks v',
             gameData := (gameData w)\<lparr> kidsRepelled := v_kidsRepelled v' \<rparr>,
             cues := v_cues v', rnd := v_rnd v' \<rparr>)"

text \<open>Steps 4 of the tick: the player, the shelves, the blocks and the kids, in this order.
  \<open>Player.update\<close> is not among the sources and is a parameter.\<close>

definition updateEntities :: "(real \<Rightarrow> player \<Rightarrow> player) \<Rightarrow> real \<Rightarrow> playingState \<Rightarrow> playingState" where
  "updateEntities Player_update deltaTime w =
     (let w1 = w\<lparr> player := map_option (Player_update deltaTime) (player w) \<rparr>;
          w2 = w1\<lparr> shelves := map (Shelf_update deltaTime (player w1) (ps_volumeBlocks w1)) (shelves w1) \<rparr>;
          w3 = w2\<lparr> ps_volumeBlocks := map (VolumeBlock_update deltaTime) (ps_volumeBlocks w2) \<rparr>
      in fold (kidStep deltaTime) [0 ..< length (kids w3)] w3)"

text \<open>The interactions and the ephemeral timers that end a tick; the audit of the block
  states only logs, after drawing one random number.\<close>

definition resolveInteractions :: "real \<Rightarrow> playingState \<Rightarrow> playingState" where
  "resolveInteractions deltaTime w =
     (let w1 = checkVolumeBlockPickup w;
          w2 = checkVolumeBlockSnatching w1;
          w3 = checkVolumeBlockShelving w2;
          w4 = updateParticles deltaTime w3
      in w4\<lparr> rnd := (\<lambda>n. rnd w4 (Suc n)) \<rparr>)"

text \<open>\<open>PlayingState.update\<close>. \<open>pausePressed\<close> is the answer of the input manager to the
  pause keys. The result is \<open>None\<close> where \<open>updateKidSpawning\<close> throws.\<close>

definition update ::
  "bool \<Rightarrow> (real \<Rightarrow> player \<Rightarrow> player) \<Rightarrow> real \<Rightarrow> playingState \<Rightarrow> playingState option" where
  "update pausePressed Player_update deltaTime w =
     (if pausePressed then Some (w\<lparr> requests := requests w @ [PushPaused] \<rparr>)
      else if isPaused (gameData w) then Some w
      else
        let w1 = w\<lparr> gameData := (gameData w)\<lparr> elapsedTime := elapsedTime (gameData w) + deltaTime \<rparr> \<rparr> in
        if elapsedTime (gameData w1) \<ge> targetTime (gameData w1)
        then Some (w1\<lparr> requests := requests w1 @ [GameOverWon] \<rparr>)
        else
          let w2 = updateChaos deltaTime w1 in
          if chaosLevel (gameData w2) \<ge> maxChaos (gameData w2)
          then Some (w2\<lparr> requests := requests w2 @ [GameOverChaos] \<rparr>)
          else
            (case updateKidSpawning deltaTime (updateEntities Player_update deltaTime w2) of
               None \<Rightarrow> None
             | Some w4 \<Rightarrow> Some (resolveInteractions deltaTime w4)))"

text \<open>The invariant of the chaos level.\<close>

definition chaosInRange :: "playingState \<Rightarrow> bool" where
  "chaosInRange w =
     (0 \<le> chaosLevel (gameData w) \<and> chaosLevel (gameData w) \<le> maxChaos (gameData w))"

section \<open>Concrete states for the scenarios\<close>

text \<open>One minute into a game, four red blocks on the floor, chaos just below the maximum.\<close>

definition chaosGameData :: gameData where
  "chaosGameData = \<lparr> chaosLevel = 99.9, maxChaos = 100, playerLevel = 1, xp = 0, xpToNext = 100,
     elapsedTime = 60, targetTime = 1800, isPaused = False, volumeBlocksCollected = 0,
     volumeBlocksShelved = 0, kidsRepelled = 0 \<rparr>"

definition chaosState :: playingState where
  "chaosState = \<lparr> gameData = chaosGameData, player = None, kids = [],
     ps_volumeBlocks = [redBlock, redBlock, redBlock, redBlock], shelves = [], particles = [],
     worldWidth = 1920, worldHeight = 1080, kidSpawnTimer = 15, kidSpawnInterval = 15,
     maxKids = 3, lastMaxKids = 3,
     maxKidsIncreaseNotification = \<lparr> active = False, increase = 0, timer = 0, duration = 3 \<rparr>,
     requests = [], cues = [], rnd = (\<lambda>n. 1 / 4) \<rparr>"


text \<open>A player with one carry slot, and a state at XP 95 of 100 after the early-game
  boost has ended.\<close>

definition demoPlayer :: player where
  "demoPlayer = \<lparr> p_x = 100, p_y = 500, p_width = 32, p_height = 48,
     stats = \<lparr> pickupRadius = 1, returnRadius = 1, carrySlots = 1, stamina = 40,
               maxStamina = 100, chaosDampening = 0 \<rparr>,
     repelRadius = 64, xpMultiplier = 1, carriedVolumeBlocks = [] \<rparr>"

definition xpState :: playingState where
  "xpState = chaosState\<lparr> gameData := chaosGameData\<lparr> xp := 95, elapsedTime := 200 \<rparr>,
                         player := Some demoPlayer \<rparr>"


text \<open>A kid as the constructor makes it, and the same kid fleeing into a corner between
  two shelves, one to its right and one below it.\<close>

definition demoKid :: kid where
  "demoKid = fst (Kid 0 [] 100 100 1 (\<lambda>n. 1 / 4))"

definition corneredKid :: kid where
  "corneredKid = demoKid\<lparr> k_state := Fleeing, k_vx := 10, k_vy := 10, direction := 0 \<rparr>"

definition corneredView :: kidView where
  "corneredView = \<lparr> v_player = None,
     v_shelves = [Shelf 0 150 100 ''red'' 6, Shelf 1 100 162 ''blue'' 6],
     v_volumeBlocks = [], v_worldWidth = 1920, v_worldHeight = 1080,
     v_kidsRepelled = 0, v_cues = [], v_rnd = (\<lambda>n. 1 / 4) \<rparr>"


text \<open>A kid in the Stealing state standing at a red shelf that holds one block, with half
  a second of grab delay left and nobody near.\<close>

definition thiefShelf :: shelf where
  "thiefShelf = (Shelf 0 200 200 ''red'' 6)\<lparr> volumeBlocks := [Some 0, None, None, None, None, None] \<rparr>"

definition thiefKid :: kid where
  "thiefKid = demoKid\<lparr> k_x := 155, k_y := 200, k_state := Stealing, target := Some 0,
                       grabDelay := 1 / 2 \<rparr>"

definition thiefView :: kidView where
  "thiefView = \<lparr> v_player = None, v_shelves = [thiefShelf],
     v_volumeBlocks = [shelve 0 redBlock], v_worldWidth = 1920, v_worldHeight = 1080,
     v_kidsRepelled = 0, v_cues = [], v_rnd = (\<lambda>n. 1 / 4) \<rparr>"

text \<open>The player standing on the kid of the constructor, the same kid carrying a block
  for five seconds, and the player far away.\<close>

definition nearView :: kidView where
  "nearView = \<lparr> v_player = Some (demoPlayer\<lparr> p_x := 108, p_y := 106 \<rparr>), v_shelves = [],
     v_volumeBlocks = [redBlock\<lparr> isHeld := True, holder := Some (KidRef 0) \<rparr>],
     v_worldWidth = 1920, v_worldHeight = 1080,
     v_kidsRepelled = 0, v_cues = [], v_rnd = (\<lambda>n. 1 / 4) \<rparr>"

definition carrierKid :: kid where
  "carrierKid = demoKid\<lparr> carriedVolumeBlock := Some 0, dropVolumeBlockTimer := 5 \<rparr>"

definition farView :: kidView where
  "farView = nearView\<lparr> v_player := Some (demoPlayer\<lparr> p_x := 108, p_y := 476 \<rparr>) \<rparr>"

text \<open>The player with one free carry slot between two kids that each carry a block.\<close>

definition snatchState :: playingState where
  "snatchState = chaosState
     \<lparr> player := Some (demoPlayer\<lparr> p_x := 108, p_y := 106 \<rparr>),
       kids := [carrierKid, carrierKid\<lparr> k_ref := 1, carriedVolumeBlock := Some 1 \<rparr>],
       ps_volumeBlocks := [redBlock\<lparr> isHeld := True, holder := Some (KidRef 0) \<rparr>,
                           redBlock\<lparr> isHeld := True, holder := Some (KidRef 1) \<rparr>] \<rparr>"

text \<open>The state at XP 95 of 100 with a player whose XP multiplier is 0, and with a player
  who carries a red block and stands at a red shelf.\<close>

definition zeroXpState :: playingState where
  "zeroXpState = xpState\<lparr> player := Some (demoPlayer\<lparr> xpMultiplier := 0 \<rparr>) \<rparr>"

definition shelvingState :: playingState where
  "shelvingState = xpState
     \<lparr> player := Some (demoPlayer\<lparr> carriedVolumeBlocks := [0] \<rparr>),
       ps_volumeBlocks := [pickup PlayerRef redBlock],
       shelves := [Shelf 0 100 500 ''red'' 6] \<rparr>"


section \<open>Properties of the shelf\<close>

lemma findSlot_le: "i \<le> capacity s \<Longrightarrow> findSlot s i \<le> capacity s"
  by (induction s i rule: findSlot.induct) (subst findSlot.simps, simp)

lemma findSlot_ge: "i \<le> findSlot s i"
proof (induction s i rule: findSlot.induct)
  case (1 s i)
  show ?case
  proof (cases "i < capacity s \<and> slotAt s i \<noteq> None")
    case True
    with 1 have "i + 1 \<le> findSlot s (i + 1)" by simp
    moreover have "findSlot s i = findSlot s (i + 1)"
      using True by (subst findSlot.simps) simp
    ultimately show ?thesis by simp
  next
    case False
    then show ?thesis by (subst findSlot.simps) auto
  qed
qed

lemma findSlot_full_below:
  "i \<le> j \<Longrightarrow> j < findSlot s i \<Longrightarrow> slotAt s j \<noteq> None"
proof (induction s i rule: findSlot.induct)
  case (1 s i)
  show ?case
  proof (cases "i < capacity s \<and> slotAt s i \<noteq> None")
    case True
    then have eq: "findSlot s i = findSlot s (i + 1)"
      by (subst findSlot.simps) simp
    show ?thesis
    proof (cases "j = i")
      case True
      with \<open>i < capacity s \<and> slotAt s i \<noteq> None\<close> show ?thesis by simp
    next
      case False
      with "1.prems" have "i + 1 \<le> j" by simp
      moreover from "1.prems" eq have "j < findSlot s (i + 1)" by simp
      ultimately show ?thesis using "1.IH" True by blast
    qed
  next
    case False
    then have "findSlot s i = i" by (subst findSlot.simps) auto
    with "1.prems" show ?thesis by simp
  qed
qed

lemma findSlot_stop:
  "findSlot s i < capacity s \<Longrightarrow> slotAt s (findSlot s i) = None"
proof (induction s i rule: findSlot.induct)
  case (1 s i)
  show ?case
  proof (cases "i < capacity s \<and> slotAt s i \<noteq> None")
    case True
    then have eq: "findSlot s i = findSlot s (i + 1)"
      by (subst findSlot.simps) simp
    with 1 True show ?thesis by simp
  next
    case False
    then have eq: "findSlot s i = i" by (subst findSlot.simps) auto
    with "1.prems" False show ?thesis by simp
  qed
qed

lemma count_full_prefix:
  "\<forall>j<n. slotAt s j \<noteq> None \<Longrightarrow> n \<le> volumeBlockCount s"
proof -
  assume a: "\<forall>j<n. slotAt s j \<noteq> None"
  have len: "n \<le> length (volumeBlocks s)"
  proof (rule ccontr)
    assume "\<not> n \<le> length (volumeBlocks s)"
    then have "length (volumeBlocks s) < n" by simp
    with a have "slotAt s (length (volumeBlocks s)) \<noteq> None" by blast
    then show False by (simp add: slotAt_def)
  qed
  have "\<forall>v \<in> set (take n (volumeBlocks s)). v \<noteq> None"
  proof
    fix v assume "v \<in> set (take n (volumeBlocks s))"
    then obtain j where "j < n" "j < length (volumeBlocks s)" "v = volumeBlocks s ! j"
      by (auto simp: in_set_conv_nth)
    with a show "v \<noteq> None" by (auto simp: slotAt_def)
  qed
  then have "filter (\<lambda>v. v \<noteq> None) (take n (volumeBlocks s)) = take n (volumeBlocks s)"
    by (simp add: filter_id_conv)
  then have "length (filter (\<lambda>v. v \<noteq> None) (take n (volumeBlocks s))) = n"
    using len by simp
  moreover have "length (filter (\<lambda>v. v \<noteq> None) (take n (volumeBlocks s)))
      \<le> length (filter (\<lambda>v. v \<noteq> None) (volumeBlocks s))"
    by (metis append_take_drop_id filter_append length_append le_add1)
  ultimately show ?thesis by (simp add: volumeBlockCount_def)
qed

lemma findSlot_found: "hasEmptySlots s \<Longrightarrow> findSlot s 0 < capacity s"
proof (rule ccontr)
  assume h: "hasEmptySlots s" and n: "\<not> findSlot s 0 < capacity s"
  have "findSlot s 0 \<le> capacity s" by (rule findSlot_le) simp
  with n have eq: "findSlot s 0 = capacity s" by simp
  have "\<forall>j<capacity s. slotAt s j \<noteq> None"
    using findSlot_full_below [of 0 _ s] eq by simp
  then have "capacity s \<le> volumeBlockCount s" by (rule count_full_prefix)
  with h show False by (simp add: hasEmptySlots_def)
qed


lemma addVolumeBlock_success:
  assumes "hasEmptySlots s" "b_color b = s_color s"
  shows "\<exists>i < capacity s. slotAt s i = None \<and> (\<forall>j<i. slotAt s j \<noteq> None) \<and>
           addVolumeBlock s r b =
             (True, s\<lparr> volumeBlocks := setSlot (volumeBlocks s) i (Some r) \<rparr>, shelve (s_ref s) b)"
proof -
  let ?i = "findSlot s 0"
  have lt: "?i < capacity s" using assms(1) by (rule findSlot_found)
  have "slotAt s ?i = None" using lt by (rule findSlot_stop)
  moreover have "\<forall>j < ?i. slotAt s j \<noteq> None"
    using findSlot_full_below [of 0 _ s] by simp
  moreover have "addVolumeBlock s r b =
      (True, s\<lparr> volumeBlocks := setSlot (volumeBlocks s) ?i (Some r) \<rparr>, shelve (s_ref s) b)"
    using assms lt by (simp add: addVolumeBlock_def)
  ultimately show ?thesis using lt by blast
qed

lemma addVolumeBlock_failure:
  "\<not> (hasEmptySlots s \<and> b_color b = s_color s) \<Longrightarrow> addVolumeBlock s r b = (False, s, b)"
  by (auto simp: addVolumeBlock_def)

lemma scenario_A:
  assumes "b_color b1 = ''red''" "b_color b2 = ''red''" "b_color b3 = ''red''"
    "b_color b4 = ''red''" "b_color b5 = ''red''" "b_color b6 = ''red''"
  shows "case addVolumeBlocks (Shelf ref x y ''red'' 6)
              [(r1, b1), (r2, b2), (r3, b3), (r4, b4), (r5, b5), (r6, b6)] of
           (oks, s6) \<Rightarrow> oks = [True, True, True, True, True, True] \<and> \<not> hasEmptySlots s6 \<and>
             volumeBlockCount s6 = 6 \<and>
             (case addVolumeBlock s6 r7 b7 of (ok, s7, b7') \<Rightarrow>
                \<not> ok \<and> volumeBlockCount s7 = 6)"
  using assms
  by (simp add: Shelf_def addVolumeBlock_def hasEmptySlots_def volumeBlockCount_def
      findSlot.simps slotAt_def setSlot_def shelve_def numeral_eq_Suc)

text \<open>
  Claim C3. \<open>addVolumeBlock\<close> returns true exactly when the shelf has an empty slot and the
  block's color equals the shelf's color. On success the block's reference is written into
  the lowest-index empty slot and the block becomes Shelved with its owning reference set to
  this shelf; on failure the shelf and the block are returned unchanged. Scenario A: on a
  new red shelf of capacity 6, six adds of red blocks all succeed and leave no empty slot; a
  seventh add returns false and the occupied count stays 6.
\<close>

theorem addVolumeBlock_spec:
  "(fst (addVolumeBlock s r b) \<longleftrightarrow> hasEmptySlots s \<and> b_color b = s_color s)
   \<and> (hasEmptySlots s \<and> b_color b = s_color s \<longrightarrow>
        (\<exists>i < capacity s. slotAt s i = None \<and> (\<forall>j<i. slotAt s j \<noteq> None) \<and>
           addVolumeBlock s r b =
             (True, s\<lparr> volumeBlocks := setSlot (volumeBlocks s) i (Some r) \<rparr>,
              shelve (s_ref s) b)) \<and>
        isShelved (snd (snd (addVolumeBlock s r b))) \<and>
        b_shelf (snd (snd (addVolumeBlock s r b))) = Some (s_ref s))
   \<and> (\<not> (hasEmptySlots s \<and> b_color b = s_color s) \<longrightarrow> addVolumeBlock s r b = (False, s, b))
   \<and> (b_color b1 = ''red'' \<and> b_color b2 = ''red'' \<and> b_color b3 = ''red'' \<and>
      b_color b4 = ''red'' \<and> b_color b5 = ''red'' \<and> b_color b6 = ''red'' \<longrightarrow>
        (case addVolumeBlocks (Shelf ref x y ''red'' 6)
              [(r1, b1), (r2, b2), (r3, b3), (r4, b4), (r5, b5), (r6, b6)] of
           (oks, s6) \<Rightarrow> oks = [True, True, True, True, True, True] \<and> \<not> hasEmptySlots s6 \<and>
             volumeBlockCount s6 = 6 \<and>
             (case addVolumeBlock s6 r7 b7 of (ok, s7, b7') \<Rightarrow>
                \<not> ok \<and> volumeBlockCount s7 = 6)))"
proof (intro conjI impI)
  show "fst (addVolumeBlock s r b) \<longleftrightarrow> hasEmptySlots s \<and> b_color b = s_color s"
  proof (cases "hasEmptySlots s \<and> b_color b = s_color s")
    case True
    then show ?thesis using addVolumeBlock_success [of s b r] by auto
  next
    case False
    then show ?thesis using addVolumeBlock_failure [of s b r] by simp
  qed
next
  assume h: "hasEmptySlots s \<and> b_color b = s_color s"
  then show "\<exists>i < capacity s. slotAt s i = None \<and> (\<forall>j<i. slotAt s j \<noteq> None) \<and>
           addVolumeBlock s r b =
             (True, s\<lparr> volumeBlocks := setSlot (volumeBlocks s) i (Some r) \<rparr>,
              shelve (s_ref s) b)"
    using addVolumeBlock_success [of s b r] by blast
  from h show "isShelved (snd (snd (addVolumeBlock s r b)))"
    using addVolumeBlock_success [of s b r] by (auto simp: shelve_def)
  from h show "b_shelf (snd (snd (addVolumeBlock s r b))) = Some (s_ref s)"
    using addVolumeBlock_success [of s b r] by (auto simp: shelve_def)
next
  assume "\<not> (hasEmptySlots s \<and> b_color b = s_color s)"
  then show "addVolumeBlock s r b = (False, s, b)" by (rule addVolumeBlock_failure)
next
  assume "b_color b1 = ''red'' \<and> b_color b2 = ''red'' \<and> b_color b3 = ''red'' \<and>
      b_color b4 = ''red'' \<and> b_color b5 = ''red'' \<and> b_color b6 = ''red''"
  then show "case addVolumeBlocks (Shelf ref x y ''red'' 6)
              [(r1, b1), (r2, b2), (r3, b3), (r4, b4), (r5, b5), (r6, b6)] of
           (oks, s6) \<Rightarrow> oks = [True, True, True, True, True, True] \<and> \<not> hasEmptySlots s6 \<and>
             volumeBlockCount s6 = 6 \<and>
             (case addVolumeBlock s6 r7 b7 of (ok, s7, b7') \<Rightarrow>
                \<not> ok \<and> volumeBlockCount s7 = 6)"
    by (intro scenario_A) simp_all
qed

theorem addVolumeBlock_spec_witness:
  "hasEmptySlots (Shelf 0 200 200 ''red'' 6) \<and> b_color redBlock = s_color (Shelf 0 200 200 ''red'' 6)
   \<and> fst (addVolumeBlock (Shelf 0 200 200 ''red'' 6) 0 redBlock)
   \<and> isShelved (snd (snd (addVolumeBlock (Shelf 0 200 200 ''red'' 6) 0 redBlock)))
   \<and> fst (addVolumeBlocks (Shelf 0 200 200 ''red'' 6)
        [(0, redBlock), (1, redBlock), (2, redBlock), (3, redBlock), (4, redBlock), (5, redBlock)])
       = [True, True, True, True, True, True]"
proof -
  have h: "hasEmptySlots (Shelf 0 200 200 ''red'' 6) \<and>
           b_color redBlock = s_color (Shelf 0 200 200 ''red'' 6)"
    by (simp add: hasEmptySlots_def volumeBlockCount_def Shelf_def redBlock_def)
  have c: "b_color redBlock = ''red''" by (simp add: redBlock_def)
  show ?thesis
    using h c
      addVolumeBlock_spec [where s = "Shelf 0 200 200 ''red'' 6" and r = 0 and b = redBlock
        and ?b1.0 = redBlock and ?b2.0 = redBlock and ?b3.0 = redBlock and ?b4.0 = redBlock
        and ?b5.0 = redBlock and ?b6.0 = redBlock and ref = 0 and x = 200 and y = 200
        and ?r1.0 = 0 and ?r2.0 = 1 and ?r3.0 = 2 and ?r4.0 = 3 and ?r5.0 = 4 and ?r6.0 = 5]
    by (auto split: prod.splits)
qed

section \<open>The chaos economy\<close>

text \<open>
  Claim C2, as the claim states it, fails once the clamp is reached: with four blocks on
  the floor one minute into the game, no dampening, a chaos level of 99.9 of 100 and a
  tick of one second, the chaos level does not increase by 4 * 0.05 * 1 but stops at 100.
\<close>

theorem updateChaos_counterexample:
  "totalChaosVolumeBlocks chaosState = 4 \<and> elapsedTime (gameData chaosState) / 60 < 3 \<and>
   player chaosState = None \<and>
   chaosLevel (gameData (updateChaos 1 chaosState))
     \<noteq> chaosLevel (gameData chaosState) + 4 * 0.05 * 1 * (1 - 0 / 100)"
  by (simp add: updateChaos_def chaosPerVolumeBlock_def Let_def chaosState_def chaosGameData_def
      totalChaosVolumeBlocks_def redBlock_def heldByKid_def)


text \<open>
  Claim C2, amended. With \<open>chaosSource\<close> the number of blocks on the floor plus the number
  of blocks held by a kid, a tick of \<open>updateChaos\<close> changes nothing but the chaos level,
  and the new level is the clamp to [0, maxChaos] of: the old level plus
  chaosSource * rate * deltaTime * (1 - chaosDampening / 100) when chaosSource is positive,
  with rate 0.05 below 3 minutes, 0.03 from 3 to below 5 minutes and 0.01 from 5 minutes on
  (and no decay in that case); the old level minus 0.1 * deltaTime when chaosSource is 0 and
  the level is positive; the old level otherwise.
\<close>

theorem updateChaos_spec:
  "updateChaos deltaTime w =
     w\<lparr> gameData := (gameData w)\<lparr> chaosLevel :=
         max 0 (min (maxChaos (gameData w))
           (if totalChaosVolumeBlocks w > 0
            then chaosLevel (gameData w)
                 + real (totalChaosVolumeBlocks w)
                   * (if elapsedTime (gameData w) / 60 < 3 then 0.05
                      else if elapsedTime (gameData w) / 60 < 5 then 0.03 else 0.01)
                   * deltaTime
                   * (1 - (case player w of None \<Rightarrow> 0 | Some p \<Rightarrow> chaosDampening (stats p)) / 100)
            else if chaosLevel (gameData w) > 0
                 then chaosLevel (gameData w) - 0.1 * deltaTime
                 else chaosLevel (gameData w))) \<rparr> \<rparr>"
proof (cases "totalChaosVolumeBlocks w > 0")
  case True
  then show ?thesis
    by (simp add: updateChaos_def chaosPerVolumeBlock_def Let_def)
next
  case False
  then have z: "totalChaosVolumeBlocks w = 0" by simp
  show ?thesis
  proof (cases "chaosLevel (gameData w) > 0")
    case True
    with z show ?thesis by (simp add: updateChaos_def Let_def)
  next
    case False
    with z show ?thesis by (simp add: updateChaos_def Let_def)
  qed
qed



theorem updateChaos_spec_witness:
  "chaosLevel (gameData (updateChaos 1 chaosState)) = 100 \<and>
   chaosLevel (gameData (updateChaos (1/10) chaosState)) = 99.92"
  using updateChaos_spec [of 1 chaosState] updateChaos_spec [of "1/10" chaosState]
  by (simp add: chaosState_def chaosGameData_def totalChaosVolumeBlocks_def redBlock_def heldByKid_def)


section \<open>Leveling\<close>

lemma xpRequirement_ge: "100 \<le> xpRequirement l"
proof -
  have "(1::real) \<le> 1.45 ^ (l - 1)" by (rule one_le_power) simp
  then have "(100::real) \<le> 100 * 1.45 ^ (l - 1)" by simp
  then show ?thesis by (simp add: xpRequirement_def le_floor_iff)
qed

lemma levelUp_fields:
  "xp (gameData (levelUp w)) = xp (gameData w) - xpToNext (gameData w)"
  "playerLevel (gameData (levelUp w)) = playerLevel (gameData w) + 1"
  "xpToNext (gameData (levelUp w)) = xpRequirement (playerLevel (gameData w) + 1)"
  "requests (levelUp w) = requests w @ [PushUpgradeSelection]"
  "player (levelUp w) = map_option (\<lambda>p. p\<lparr> stats := (stats p)\<lparr> stamina := maxStamina (stats p) \<rparr> \<rparr>) (player w)"
  by (simp_all add: levelUp_def Let_def split: option.splits)

lemma levelUp_frame:
  "chaosLevel (gameData (levelUp w)) = chaosLevel (gameData w)"
  "maxChaos (gameData (levelUp w)) = maxChaos (gameData w)"
  "kidsRepelled (gameData (levelUp w)) = kidsRepelled (gameData w)"
  "elapsedTime (gameData (levelUp w)) = elapsedTime (gameData w)"
  "volumeBlocksCollected (gameData (levelUp w)) = volumeBlocksCollected (gameData w)"
  "volumeBlocksShelved (gameData (levelUp w)) = volumeBlocksShelved (gameData w)"
  "kids (levelUp w) = kids w"
  "ps_volumeBlocks (levelUp w) = ps_volumeBlocks w"
  "shelves (levelUp w) = shelves w"
  "cues (levelUp w) = cues w"
  "rnd (levelUp w) = rnd w"
  "particles (levelUp w) = particles w"
  by (simp_all add: levelUp_def Let_def)

lemma levelUpLoop_stop:
  "xp (gameData w) < xpToNext (gameData w) \<Longrightarrow> levelUpLoop w = w"
  by (subst levelUpLoop.simps) simp

lemma levelUpLoop_step:
  "xpToNext (gameData w) \<le> xp (gameData w) \<Longrightarrow> levelUpLoop w = levelUpLoop (levelUp w)"
  by (subst levelUpLoop.simps) simp

lemma levelUpLoop_frame:
  "chaosLevel (gameData (levelUpLoop w)) = chaosLevel (gameData w) \<and>
   maxChaos (gameData (levelUpLoop w)) = maxChaos (gameData w) \<and>
   kidsRepelled (gameData (levelUpLoop w)) = kidsRepelled (gameData w) \<and>
   elapsedTime (gameData (levelUpLoop w)) = elapsedTime (gameData w) \<and>
   volumeBlocksCollected (gameData (levelUpLoop w)) = volumeBlocksCollected (gameData w) \<and>
   volumeBlocksShelved (gameData (levelUpLoop w)) = volumeBlocksShelved (gameData w) \<and>
   kids (levelUpLoop w) = kids w \<and>
   ps_volumeBlocks (levelUpLoop w) = ps_volumeBlocks w \<and>
   shelves (levelUpLoop w) = shelves w \<and>
   cues (levelUpLoop w) = cues w \<and>
   rnd (levelUpLoop w) = rnd w \<and>
   particles (levelUpLoop w) = particles w"
proof (induction w rule: levelUpLoop.induct)
  case (1 w)
  show ?case
  proof (cases "xpToNext (gameData w) \<le> xp (gameData w)")
    case True
    then show ?thesis using 1 by (simp add: levelUpLoop_step levelUp_frame)
  next
    case False
    then show ?thesis by (simp add: levelUpLoop_stop)
  qed
qed

lemma levelUpLoop_main:
  "playerLevel (gameData w) \<le> playerLevel (gameData (levelUpLoop w)) \<and>
   requests (levelUpLoop w) = requests w @
      replicate (playerLevel (gameData (levelUpLoop w)) - playerLevel (gameData w)) PushUpgradeSelection \<and>
   xp (gameData (levelUpLoop w)) < xpToNext (gameData (levelUpLoop w)) \<and>
   (xp (gameData w) < xpToNext (gameData w) \<longrightarrow> levelUpLoop w = w) \<and>
   (xpToNext (gameData w) \<le> xp (gameData w) \<longrightarrow>
      playerLevel (gameData w) < playerLevel (gameData (levelUpLoop w)) \<and>
      xpToNext (gameData (levelUpLoop w)) = xpRequirement (playerLevel (gameData (levelUpLoop w))) \<and>
      player (levelUpLoop w) = map_option (\<lambda>p. p\<lparr> stats := (stats p)\<lparr> stamina := maxStamina (stats p) \<rparr> \<rparr>) (player w) \<and>
      xp (gameData w) = xp (gameData (levelUpLoop w)) + xpToNext (gameData w) +
         (\<Sum>l = playerLevel (gameData w) + 1 ..< playerLevel (gameData (levelUpLoop w)). xpRequirement l))"
proof (induction w rule: levelUpLoop.induct)
  case (1 w)
  show ?case
  proof (cases "xpToNext (gameData w) \<le> xp (gameData w)")
    case False
    then show ?thesis by (simp add: levelUpLoop_stop)
  next
    case True
    let ?w1 = "levelUp w"
    let ?w' = "levelUpLoop ?w1"
    have eq: "levelUpLoop w = ?w'" using True by (rule levelUpLoop_step)
    note IH = "1.IH" [OF True]
    have le1: "playerLevel (gameData w) + 1 \<le> playerLevel (gameData ?w')"
      using IH by (simp add: levelUp_fields)
    have req: "requests ?w' = requests w @
        replicate (playerLevel (gameData ?w') - playerLevel (gameData w)) PushUpgradeSelection"
    proof -
      have "requests ?w' = (requests w @ [PushUpgradeSelection]) @
          replicate (playerLevel (gameData ?w') - (playerLevel (gameData w) + 1)) PushUpgradeSelection"
        using IH by (simp add: levelUp_fields)
      also have "\<dots> = requests w @
          replicate (Suc (playerLevel (gameData ?w') - (playerLevel (gameData w) + 1))) PushUpgradeSelection"
        by simp
      also have "Suc (playerLevel (gameData ?w') - (playerLevel (gameData w) + 1))
          = playerLevel (gameData ?w') - playerLevel (gameData w)"
        using le1 by simp
      finally show ?thesis .
    qed
    have lt: "xp (gameData ?w') < xpToNext (gameData ?w')" using IH by simp
    have rest: "xpToNext (gameData ?w') = xpRequirement (playerLevel (gameData ?w')) \<and>
      player ?w' = map_option (\<lambda>p. p\<lparr> stats := (stats p)\<lparr> stamina := maxStamina (stats p) \<rparr> \<rparr>) (player w) \<and>
      xp (gameData w) = xp (gameData ?w') + xpToNext (gameData w) +
         (\<Sum>l = playerLevel (gameData w) + 1 ..< playerLevel (gameData ?w'). xpRequirement l)"
    proof (cases "xpToNext (gameData ?w1) \<le> xp (gameData ?w1)")
      case False
      then have s: "?w' = ?w1" by (simp add: levelUpLoop_stop)
      show ?thesis by (simp add: s levelUp_fields)
    next
      case T: True
      from IH T have a: "xpToNext (gameData ?w') = xpRequirement (playerLevel (gameData ?w'))"
        by simp
      from IH T have b: "player ?w' = map_option (\<lambda>p. p\<lparr> stats := (stats p)\<lparr> stamina := maxStamina (stats p) \<rparr> \<rparr>) (player ?w1)"
        by simp
      have b': "player ?w' = map_option (\<lambda>p. p\<lparr> stats := (stats p)\<lparr> stamina := maxStamina (stats p) \<rparr> \<rparr>) (player w)"
        unfolding b by (cases "player w") (simp_all add: levelUp_fields)
      from IH T have c: "xp (gameData ?w1) = xp (gameData ?w') + xpToNext (gameData ?w1) +
         (\<Sum>l = playerLevel (gameData ?w1) + 1 ..< playerLevel (gameData ?w'). xpRequirement l)"
        by simp
      from IH T have lt2: "playerLevel (gameData ?w1) < playerLevel (gameData ?w')" by simp
      have "(\<Sum>l = playerLevel (gameData w) + 1 ..< playerLevel (gameData ?w'). xpRequirement l)
          = xpRequirement (playerLevel (gameData w) + 1) +
            (\<Sum>l = playerLevel (gameData w) + 2 ..< playerLevel (gameData ?w'). xpRequirement l)"
        using lt2 by (simp add: levelUp_fields sum.atLeast_Suc_lessThan)
      with c have c': "xp (gameData w) = xp (gameData ?w') + xpToNext (gameData w) +
         (\<Sum>l = playerLevel (gameData w) + 1 ..< playerLevel (gameData ?w'). xpRequirement l)"
        by (simp add: levelUp_fields)
      from a b' c' show ?thesis by simp
    qed
    show ?thesis
      unfolding eq using True le1 req lt rest by simp
  qed
qed


lemma awardXP_unfold:
  "awardXP base w = levelUpLoop (w\<lparr> gameData := (gameData w)\<lparr> xp := xp (gameData w) + multipliedAmount base w \<rparr>,
      particles := (case player w of None \<Rightarrow> particles w
                | Some p \<Rightarrow> particles w @
                    [\<lparr> pt_x = playerCenterX p, pt_y = p_y p - 10, pt_amount = multipliedAmount base w,
                       pt_vy = - 50, lifetime = 1.5, age = 0 \<rparr>]) \<rparr>)"
  by (simp add: awardXP_def Let_def)

subsection \<open>Rounding to binary64\<close>

lemma floor_log2:
  assumes "0 < x" "2 powi e \<le> x" "x < 2 powi (e + 1)"
  shows "\<lfloor>log 2 x\<rfloor> = e"
proof -
  have p: "(2::real) powr real_of_int n = 2 powi n" for n
    by (rule powr_real_of_int') simp_all
  have "(2::real) powr real_of_int e \<le> x" using assms(2) by (simp only: p)
  then have a: "real_of_int e \<le> log 2 x"
    using assms(1) by (simp add: le_log_iff)
  have "x < (2::real) powr real_of_int (e + 1)" using assms(3) by (simp only: p)
  then have b: "log 2 x < real_of_int (e + 1)"
    using assms(1) by (simp add: log_less_iff)
  from a b show ?thesis by (simp add: floor_eq_iff)
qed

lemma fl_at:
  assumes "0 < x" "2 powi e \<le> x" "x < 2 powi (e + 1)"
  shows "fl x = of_int (roundHalfEven (x / 2 powi (e - 52))) * 2 powi (e - 52)"
  using assms floor_log2 [OF assms] by (simp add: fl_def Let_def)

lemma roundHalfEven_int: "roundHalfEven (of_int n) = n"
  by (simp add: roundHalfEven_def)

lemma fl_10: "fl 10 = 10"
proof -
  have "fl 10 = of_int (roundHalfEven (10 / 2 powi (3 - 52))) * 2 powi (3 - 52)"
    by (rule fl_at) simp_all
  also have "(10 :: real) / 2 powi (3 - 52) = of_int (10 * 2 ^ 49)"
    by (simp add: power_int_minus field_simps)
  finally show ?thesis
    by (simp only: roundHalfEven_int) (simp add: power_int_minus field_simps)
qed


lemma fl_eval:
  assumes "0 < x" "2 powi e \<le> x" "x < 2 powi (e + 1)"
    and "roundHalfEven (x / 2 powi (e - 52)) = n"
  shows "fl x = of_int n * 2 powi (e - 52)"
  using fl_at [OF assms(1-3)] assms(4) by simp

text \<open>The binary64 numbers nearest to 1.2 and to 1.4.\<close>

lemma fl_five_times_1_2: "fl (5 * (5404319552844595 / 4503599627370496)) = 6"
proof -
  have "fl (5 * (5404319552844595 / 4503599627370496)) = of_int 6755399441055744 * 2 powi (2 - 52)"
    by (rule fl_eval) (simp_all add: roundHalfEven_def Let_def power_int_minus)
  then show ?thesis by (simp add: power_int_minus)
qed

lemma fl_1_4_times_1_5:
  "fl (6305039478318694 / 4503599627370496 * 1.5) = 4728779608739020 / 2251799813685248"
proof -
  have "fl (6305039478318694 / 4503599627370496 * 1.5) = of_int 4728779608739020 * 2 powi (1 - 52)"
    by (rule fl_eval) (simp_all add: roundHalfEven_def Let_def power_int_minus)
  then show ?thesis by (simp add: power_int_minus)
qed

lemma fl_ten_times_that:
  "fl (10 * (4728779608739020 / 2251799813685248)) = 5910974510923775 / 281474976710656"
proof -
  have "fl (10 * (4728779608739020 / 2251799813685248)) = of_int 5910974510923775 * 2 powi (4 - 52)"
    by (rule fl_eval) (simp_all add: roundHalfEven_def Let_def power_int_minus)
  then show ?thesis by (simp add: power_int_minus)
qed

text \<open>The requirement of level 2 is 145 also when the product of 100 and the binary64
  number nearest to 1.45 is rounded to binary64.\<close>

lemma fl_hundred_times_1_45: "\<lfloor>fl (100 * (6530219459687219 / 4503599627370496))\<rfloor> = xpRequirement 2"
proof -
  have "fl (100 * (6530219459687219 / 4503599627370496)) = of_int 5101733952880640 * 2 powi (7 - 52)"
    by (rule fl_eval) (simp_all add: roundHalfEven_def Let_def power_int_minus)
  then have "fl (100 * (6530219459687219 / 4503599627370496)) = 145" by (simp add: power_int_minus)
  then show ?thesis by (simp add: xpRequirement_def)
qed

lemma pickupStep_awards:
  assumes "player w = Some p \<and>
       \<not> isHeld (ps_volumeBlocks w ! bi) \<and> \<not> isShelved (ps_volumeBlocks w ! bi) \<and>
       sqrt ((blockCenterX (ps_volumeBlocks w ! bi) - pcx)\<^sup>2 +
             (blockCenterY (ps_volumeBlocks w ! bi) - pcy)\<^sup>2) \<le> r \<and>
       int (length (carriedVolumeBlocks p)) < carrySlots (stats p)"
  shows "pickupStep r pcx pcy bi w =
          playPickupSound (awardXP 5
            (w\<lparr> player := Some (p\<lparr> carriedVolumeBlocks := carriedVolumeBlocks p @ [bi] \<rparr>),
                ps_volumeBlocks := (ps_volumeBlocks w)[bi := pickup PlayerRef (ps_volumeBlocks w ! bi)],
                gameData := (gameData w)
                  \<lparr> volumeBlocksCollected := volumeBlocksCollected (gameData w) + 1,
                    chaosLevel := max 0 (chaosLevel (gameData w) - 0.5) \<rparr> \<rparr>))"
  using assms by (simp add: pickupStep_def Let_def pickupVolumeBlock_def)

lemma snatchStep_awards:
  assumes "player w = Some p \<and> carriedVolumeBlock (kids w ! ki) = Some bi \<and>
       sqrt ((kidCenterX (kids w ! ki) - pcx)\<^sup>2 + (kidCenterY (kids w ! ki) - pcy)\<^sup>2) \<le> r \<and>
       int (length (carriedVolumeBlocks p)) < carrySlots (stats p)"
  shows "snatchStep r pcx pcy ki w =
          playPickupSound (awardXP 7
            (w\<lparr> player := Some (p\<lparr> carriedVolumeBlocks := carriedVolumeBlocks p @ [bi] \<rparr>),
                ps_volumeBlocks := (ps_volumeBlocks w)[bi := pickup PlayerRef (ps_volumeBlocks w ! bi)],
                kids := (kids w)[ki := (kids w ! ki)
                  \<lparr> carriedVolumeBlock := None, dropVolumeBlockTimer := 0, k_state := Fleeing \<rparr>],
                gameData := (gameData w)
                  \<lparr> volumeBlocksCollected := volumeBlocksCollected (gameData w) + 1,
                    chaosLevel := max 0 (chaosLevel (gameData w) - 0.75) \<rparr> \<rparr>))"
  using assms by (simp add: snatchStep_def Let_def pickupVolumeBlock_def)

lemma shelvingStep_awards:
  assumes "player w = Some p \<and> isPlayerNearShelf (Some p) (shelves w ! si) r \<and>
       hasEmptySlots (shelves w ! si) \<and>
       shelveVolumeBlock (ps_volumeBlocks w) p (shelves w ! si) = (Some bj, p') \<and>
       addVolumeBlock (shelves w ! si) bj (ps_volumeBlocks w ! bj) = (True, s', b')"
  shows "shelvingStep r si w =
          playShelfSound (awardXP 10
            (w\<lparr> player := Some p', shelves := (shelves w)[si := s'],
                ps_volumeBlocks := (ps_volumeBlocks w)[bj := b'],
                gameData := (gameData w)
                  \<lparr> volumeBlocksShelved := volumeBlocksShelved (gameData w) + 1,
                    chaosLevel := max 0 (chaosLevel (gameData w) - 1.0) \<rparr> \<rparr>))"
  using assms by (simp add: shelvingStep_def Let_def)

lemma multipliedAmount_unfold:
  "multipliedAmount base w =
      \<lfloor>fl (base *
          (if elapsedTime (gameData w) < 120
           then fl ((case player w of None \<Rightarrow> 1
                        | Some p \<Rightarrow> if xpMultiplier p = 0 then 1 else xpMultiplier p) * 1.5)
           else (case player w of None \<Rightarrow> 1
                        | Some p \<Rightarrow> if xpMultiplier p = 0 then 1 else xpMultiplier p)))\<rfloor>"
  by (simp add: multipliedAmount_def Let_def)

text \<open>The model floors what the source floors. With the binary64 number nearest to 1.4 as
  the multiplier and the early boost, a base of 10 grants 20 (the exact product of 10, 1.4
  and 1.5 is 21); with the binary64 number nearest to 1.2 and no boost, a base of 5 grants
  6 (the exact product with that number is below 6).\<close>

lemma multipliedAmount_rounding:
  "player w = Some p \<Longrightarrow> xpMultiplier p = 6305039478318694 / 4503599627370496 \<Longrightarrow>
     elapsedTime (gameData w) < 120 \<Longrightarrow> multipliedAmount 10 w = 20"
  "player w = Some p \<Longrightarrow> xpMultiplier p = 5404319552844595 / 4503599627370496 \<Longrightarrow>
     \<not> elapsedTime (gameData w) < 120 \<Longrightarrow> multipliedAmount 5 w = 6"
proof -
  assume a: "player w = Some p" "xpMultiplier p = 6305039478318694 / 4503599627370496"
    "elapsedTime (gameData w) < 120"
  have nz: "(6305039478318694 / 4503599627370496 :: real) \<noteq> 0" by simp
  have "multipliedAmount 10 w = \<lfloor>fl (10 * fl (6305039478318694 / 4503599627370496 * 1.5))\<rfloor>"
    unfolding multipliedAmount_unfold [of 10 w]
    by (simp only: a nz option.case if_True if_False)
  also have "\<dots> = \<lfloor>(5910974510923775 / 281474976710656 :: real)\<rfloor>"
    by (simp only: fl_1_4_times_1_5 fl_ten_times_that)
  also have "\<dots> = 20" by simp
  finally show "multipliedAmount 10 w = 20" .
next
  assume a: "player w = Some p" "xpMultiplier p = 5404319552844595 / 4503599627370496"
    "\<not> elapsedTime (gameData w) < 120"
  have nz: "(5404319552844595 / 4503599627370496 :: real) \<noteq> 0" by simp
  have "multipliedAmount 5 w = \<lfloor>fl (5 * (5404319552844595 / 4503599627370496))\<rfloor>"
    unfolding multipliedAmount_unfold [of 5 w]
    by (simp only: a nz option.case if_True if_False)
  also have "\<dots> = 6" by (simp only: fl_five_times_1_2) simp
  finally show "multipliedAmount 5 w = 6" .
qed

lemma awardXP_loop:
  "playerLevel (gameData w) \<le> playerLevel (gameData (awardXP base w))
   \<and> requests (awardXP base w) = requests w @
        replicate (playerLevel (gameData (awardXP base w)) - playerLevel (gameData w))
          PushUpgradeSelection
   \<and> xp (gameData (awardXP base w)) < xpToNext (gameData (awardXP base w))
   \<and> (playerLevel (gameData (awardXP base w)) = playerLevel (gameData w) \<longrightarrow>
        xp (gameData (awardXP base w)) = xp (gameData w) + multipliedAmount base w \<and>
        xpToNext (gameData (awardXP base w)) = xpToNext (gameData w) \<and>
        player (awardXP base w) = player w)
   \<and> (playerLevel (gameData w) < playerLevel (gameData (awardXP base w)) \<longrightarrow>
        xpToNext (gameData (awardXP base w))
          = \<lfloor>100 * (1.45 :: real) ^ (playerLevel (gameData (awardXP base w)) - 1)\<rfloor> \<and>
        (player w = Some p \<longrightarrow>
           (\<exists>p'. player (awardXP base w) = Some p' \<and> stamina (stats p') = maxStamina (stats p))) \<and>
        xp (gameData w) + multipliedAmount base w
          = xp (gameData (awardXP base w)) + xpToNext (gameData w) +
            (\<Sum>l = playerLevel (gameData w) + 1 ..< playerLevel (gameData (awardXP base w)).
               \<lfloor>100 * (1.45 :: real) ^ (l - 1)\<rfloor>))
   \<and> (xp (gameData w) = 95 \<and> xpToNext (gameData w) = 100 \<and> multipliedAmount base w = 10 \<longrightarrow>
        playerLevel (gameData (awardXP base w)) = playerLevel (gameData w) + 1 \<and>
        xp (gameData (awardXP base w)) = 5 \<and>
        xpToNext (gameData (awardXP base w)) = \<lfloor>100 * (1.45 :: real) ^ playerLevel (gameData w)\<rfloor> \<and>
        requests (awardXP base w) = requests w @ [PushUpgradeSelection])"
proof -
  define w0 where "w0 = w\<lparr> gameData := (gameData w)\<lparr> xp := xp (gameData w) + multipliedAmount base w \<rparr>,
      particles := (case player w of None \<Rightarrow> particles w
                | Some p \<Rightarrow> particles w @
                    [\<lparr> pt_x = playerCenterX p, pt_y = p_y p - 10, pt_amount = multipliedAmount base w,
                       pt_vy = - 50, lifetime = 1.5, age = 0 \<rparr>]) \<rparr>"
  have aw: "awardXP base w = levelUpLoop w0" by (simp add: awardXP_unfold w0_def)
  have f0: "playerLevel (gameData w0) = playerLevel (gameData w)"
    "xp (gameData w0) = xp (gameData w) + multipliedAmount base w"
    "xpToNext (gameData w0) = xpToNext (gameData w)"
    "requests w0 = requests w" "player w0 = player w"
    by (simp_all add: w0_def)
  note M = levelUpLoop_main [of w0, unfolded f0, folded aw]
  have same: "playerLevel (gameData (awardXP base w)) = playerLevel (gameData w) \<longrightarrow>
        xp (gameData (awardXP base w)) = xp (gameData w) + multipliedAmount base w \<and>
        xpToNext (gameData (awardXP base w)) = xpToNext (gameData w) \<and>
        player (awardXP base w) = player w"
  proof
    assume e: "playerLevel (gameData (awardXP base w)) = playerLevel (gameData w)"
    with M have "\<not> xpToNext (gameData w) \<le> xp (gameData w) + multipliedAmount base w" by auto
    with M have "awardXP base w = w0" by simp
    then show "xp (gameData (awardXP base w)) = xp (gameData w) + multipliedAmount base w \<and>
        xpToNext (gameData (awardXP base w)) = xpToNext (gameData w) \<and>
        player (awardXP base w) = player w" by (simp add: f0)
  qed
  have up: "playerLevel (gameData w) < playerLevel (gameData (awardXP base w)) \<longrightarrow>
        xpToNext (gameData (awardXP base w))
          = \<lfloor>100 * (1.45 :: real) ^ (playerLevel (gameData (awardXP base w)) - 1)\<rfloor> \<and>
        (player w = Some p \<longrightarrow>
           (\<exists>p'. player (awardXP base w) = Some p' \<and> stamina (stats p') = maxStamina (stats p))) \<and>
        xp (gameData w) + multipliedAmount base w
          = xp (gameData (awardXP base w)) + xpToNext (gameData w) +
            (\<Sum>l = playerLevel (gameData w) + 1 ..< playerLevel (gameData (awardXP base w)).
               \<lfloor>100 * (1.45 :: real) ^ (l - 1)\<rfloor>)"
  proof
    assume l: "playerLevel (gameData w) < playerLevel (gameData (awardXP base w))"
    have "\<not> xp (gameData w) + multipliedAmount base w < xpToNext (gameData w)"
    proof
      assume "xp (gameData w) + multipliedAmount base w < xpToNext (gameData w)"
      with M have "awardXP base w = w0" by simp
      with l show False by (simp add: f0)
    qed
    then have ge: "xpToNext (gameData w) \<le> xp (gameData w) + multipliedAmount base w" by simp
    from M ge have a: "xpToNext (gameData (awardXP base w))
        = xpRequirement (playerLevel (gameData (awardXP base w)))" by simp
    from M ge have b: "player (awardXP base w) =
        map_option (\<lambda>p. p\<lparr> stats := (stats p)\<lparr> stamina := maxStamina (stats p) \<rparr> \<rparr>) (player w)"
      by simp
    from M ge have c: "xp (gameData w) + multipliedAmount base w
          = xp (gameData (awardXP base w)) + xpToNext (gameData w) +
            (\<Sum>l = playerLevel (gameData w) + 1 ..< playerLevel (gameData (awardXP base w)).
               xpRequirement l)" by simp
    show "xpToNext (gameData (awardXP base w))
          = \<lfloor>100 * (1.45 :: real) ^ (playerLevel (gameData (awardXP base w)) - 1)\<rfloor> \<and>
        (player w = Some p \<longrightarrow>
           (\<exists>p'. player (awardXP base w) = Some p' \<and> stamina (stats p') = maxStamina (stats p))) \<and>
        xp (gameData w) + multipliedAmount base w
          = xp (gameData (awardXP base w)) + xpToNext (gameData w) +
            (\<Sum>l = playerLevel (gameData w) + 1 ..< playerLevel (gameData (awardXP base w)).
               \<lfloor>100 * (1.45 :: real) ^ (l - 1)\<rfloor>)"
      using a b c by (simp add: xpRequirement_def)
  qed
  have scen: "xp (gameData w) = 95 \<and> xpToNext (gameData w) = 100 \<and> multipliedAmount base w = 10 \<longrightarrow>
        playerLevel (gameData (awardXP base w)) = playerLevel (gameData w) + 1 \<and>
        xp (gameData (awardXP base w)) = 5 \<and>
        xpToNext (gameData (awardXP base w)) = \<lfloor>100 * (1.45 :: real) ^ playerLevel (gameData w)\<rfloor> \<and>
        requests (awardXP base w) = requests w @ [PushUpgradeSelection]"
  proof
    assume h: "xp (gameData w) = 95 \<and> xpToNext (gameData w) = 100 \<and> multipliedAmount base w = 10"
    then have ge: "xpToNext (gameData w0) \<le> xp (gameData w0)" by (simp add: f0)
    have s1: "levelUpLoop w0 = levelUpLoop (levelUp w0)" using ge by (rule levelUpLoop_step)
    have x1: "xp (gameData (levelUp w0)) = 5" using h by (simp add: levelUp_fields f0)
    have "100 \<le> xpToNext (gameData (levelUp w0))"
      by (simp add: levelUp_fields xpRequirement_ge)
    with x1 have "xp (gameData (levelUp w0)) < xpToNext (gameData (levelUp w0))" by simp
    then have s2: "levelUpLoop (levelUp w0) = levelUp w0" by (rule levelUpLoop_stop)
    have r: "awardXP base w = levelUp w0" by (simp add: aw s1 s2)
    show "playerLevel (gameData (awardXP base w)) = playerLevel (gameData w) + 1 \<and>
        xp (gameData (awardXP base w)) = 5 \<and>
        xpToNext (gameData (awardXP base w)) = \<lfloor>100 * (1.45 :: real) ^ playerLevel (gameData w)\<rfloor> \<and>
        requests (awardXP base w) = requests w @ [PushUpgradeSelection]"
      using x1 by (simp add: r levelUp_fields f0 xpRequirement_def)
  qed
  from M same up scen show ?thesis by blast
qed



section \<open>The spawn scheduler\<close>

lemma ensureSafeSpawnPosition_cases:
  "ensureSafeSpawnPosition k shs = k \<or> ensureSafeSpawnPosition k shs = k\<lparr> k_x := 30, k_y := 30 \<rparr>"
  by (induction shs) auto

lemma ensureSafeSpawnPosition_aggression:
  "aggressionLevel (ensureSafeSpawnPosition k shs) = aggressionLevel k"
  using ensureSafeSpawnPosition_cases [of k shs] by auto

lemma ensureSafeSpawnPosition_pos:
  "(k_x (ensureSafeSpawnPosition k shs), k_y (ensureSafeSpawnPosition k shs)) = (k_x k, k_y k) \<or>
   (k_x (ensureSafeSpawnPosition k shs), k_y (ensureSafeSpawnPosition k shs)) = (30, 30)"
  using ensureSafeSpawnPosition_cases [of k shs] by auto

lemma Kid_aggression: "aggressionLevel (fst (Kid ref shs x y level g)) = level"
  by (simp add: Kid_def Let_def ensureSafeSpawnPosition_aggression)

lemma Kid_pos:
  "(k_x (fst (Kid ref shs x y level g)), k_y (fst (Kid ref shs x y level g))) = (x, y) \<or>
   (k_x (fst (Kid ref shs x y level g)), k_y (fst (Kid ref shs x y level g))) = (30, 30)"
proof -
  obtain k0 where k: "fst (Kid ref shs x y level g) = ensureSafeSpawnPosition k0 shs"
     "k_x k0 = x" "k_y k0 = y"
    by (simp add: Kid_def Let_def)
  show ?thesis using ensureSafeSpawnPosition_pos [of k0 shs] k by simp
qed

lemma pick_in_range:
  assumes "0 \<le> r" "r < 1"
  shows "0 \<le> \<lfloor>r * real (length spawnPoints)\<rfloor> \<and> \<lfloor>r * real (length spawnPoints)\<rfloor> < int (length spawnPoints)"
proof -
  have l: "length spawnPoints = 8" by (simp add: spawnPoints_def)
  have "0 \<le> r * 8" using assms by simp
  moreover have "r * 8 < 8" using assms by simp
  ultimately show ?thesis unfolding l by (simp add: floor_less_iff)
qed

lemma pick_uniform:
  "\<lfloor>r * real (length spawnPoints)\<rfloor> = int i \<longleftrightarrow> real i / 8 \<le> r \<and> r < (real i + 1) / 8"
proof -
  have l: "length spawnPoints = 8" by (simp add: spawnPoints_def)
  show ?thesis unfolding l by (simp add: floor_eq_iff field_simps)
qed

text \<open>The state after the cap and the notification have been brought up to date.\<close>

lemma updateKidSpawning_spawn:
  assumes "0 \<le> rnd w 0" "rnd w 0 < 1"
    and "int (length (kids w)) < max (maxKids w) (waveMaxKids (elapsedTime (gameData w) / 60))"
    and "kidSpawnTimer w - deltaTime \<le> 0"
  shows "\<exists>w' k g. updateKidSpawning deltaTime w = Some w' \<and>
           (k, g) = Kid (length (kids w)) (shelves w)
                      (fst (spawnPoints ! nat \<lfloor>rnd w 0 * real (length spawnPoints)\<rfloor>))
                      (snd (spawnPoints ! nat \<lfloor>rnd w 0 * real (length spawnPoints)\<rfloor>))
                      (spawnAggression (elapsedTime (gameData w) / 60)) (\<lambda>n. rnd w (Suc n)) \<and>
           kids w' = kids w @ [k] \<and> kidSpawnTimer w' = 15 \<and> rnd w' = g \<and>
           maxKids w' = max (maxKids w) (waveMaxKids (elapsedTime (gameData w) / 60)) \<and>
           gameData w' = gameData w \<and> ps_volumeBlocks w' = ps_volumeBlocks w \<and>
           shelves w' = shelves w \<and> player w' = player w \<and> requests w' = requests w \<and>
           cues w' = cues w \<and> particles w' = particles w \<and> worldWidth w' = worldWidth w \<and>
           worldHeight w' = worldHeight w"
  using assms pick_in_range [OF assms(1,2)]
  by (cases "waveMaxKids (elapsedTime (gameData w) / 60) > maxKids w")
     (simp_all add: updateKidSpawning_def Let_def split: prod.splits)

lemma updateKidSpawning_nospawn:
  assumes "\<not> (int (length (kids w)) < max (maxKids w) (waveMaxKids (elapsedTime (gameData w) / 60))
      \<and> kidSpawnTimer w - deltaTime \<le> 0)"
  shows "\<exists>w'. updateKidSpawning deltaTime w = Some w' \<and> kids w' = kids w \<and> rnd w' = rnd w \<and>
           maxKids w' = max (maxKids w) (waveMaxKids (elapsedTime (gameData w) / 60)) \<and>
           gameData w' = gameData w \<and> ps_volumeBlocks w' = ps_volumeBlocks w \<and>
           shelves w' = shelves w \<and> player w' = player w \<and> requests w' = requests w \<and>
           cues w' = cues w \<and> particles w' = particles w \<and> worldWidth w' = worldWidth w \<and>
           worldHeight w' = worldHeight w \<and>
           (int (length (kids w)) < max (maxKids w) (waveMaxKids (elapsedTime (gameData w) / 60))
              \<longrightarrow> kidSpawnTimer w' = kidSpawnTimer w - deltaTime)"
  using assms
  by (cases "waveMaxKids (elapsedTime (gameData w) / 60) > maxKids w")
     (simp_all add: updateKidSpawning_def Let_def split: prod.splits)



lemma checkCollision_moved:
  "checkCollision (k\<lparr> k_x := a, k_y := b \<rparr>) x y s = checkCollision k x y s"
  by (simp add: checkCollision_def split: option.splits)

lemma ensureSafeSpawnPosition_exact:
  "ensureSafeSpawnPosition k shs =
     (if \<exists>s \<in> set shs. checkCollision k (k_x k) (k_y k) s
      then k\<lparr> k_x := 30, k_y := 30 \<rparr> else k)"
  by (induction shs) auto

lemma checkCollision_size:
  "k_width k = k_width k' \<Longrightarrow> k_height k = k_height k' \<Longrightarrow>
   checkCollision k x y s = checkCollision k' x y s"
  by (simp add: checkCollision_def split: option.splits)

lemma Kid_placed:
  "k_width (fst (Kid ref shs x y level g)) = 48 \<and>
   k_height (fst (Kid ref shs x y level g)) = 60 \<and>
   k_state (fst (Kid ref shs x y level g)) = Wandering \<and>
   carriedVolumeBlock (fst (Kid ref shs x y level g)) = None \<and>
   target (fst (Kid ref shs x y level g)) = None \<and>
   (k_x (fst (Kid ref shs x y level g)), k_y (fst (Kid ref shs x y level g))) =
     (if \<exists>s \<in> set shs. checkCollision (fst (Kid ref shs x y level g)) x y s
      then (30, 30) else (x, y))"
proof -
  obtain k0 where k: "fst (Kid ref shs x y level g) = ensureSafeSpawnPosition k0 shs"
    and f: "k_x k0 = x" "k_y k0 = y" "k_width k0 = 48" "k_height k0 = 60"
      "k_state k0 = Wandering" "carriedVolumeBlock k0 = None" "target k0 = None"
    by (simp add: Kid_def Let_def)
  let ?k = "ensureSafeSpawnPosition k0 shs"
  have sz: "k_width ?k = k_width k0" "k_height ?k = k_height k0"
    by (simp_all add: ensureSafeSpawnPosition_exact)
  have c: "checkCollision ?k x y s = checkCollision k0 x y s" for s
    using sz by (rule checkCollision_size)
  show ?thesis
    unfolding k c by (simp add: ensureSafeSpawnPosition_exact f)
qed

lemma updateKidSpawning_notification:
  assumes "updateKidSpawning deltaTime w = Some w'"
    and "waveMaxKids (elapsedTime (gameData w) / 60) > maxKids w"
  shows "maxKidsIncreaseNotification w' =
           \<lparr> active = (deltaTime < 3),
             increase = waveMaxKids (elapsedTime (gameData w) / 60) - maxKids w,
             timer = deltaTime, duration = 3 \<rparr>"
  using assms
  by (auto simp: updateKidSpawning_def Let_def split: if_splits prod.splits)

lemma updateKidSpawning_timer:
  assumes "updateKidSpawning deltaTime w = Some w'"
    and "\<not> (int (length (kids w)) < max (maxKids w) (waveMaxKids (elapsedTime (gameData w) / 60))
      \<and> kidSpawnTimer w - deltaTime \<le> 0)"
  shows "kidSpawnTimer w' =
           (if int (length (kids w)) < max (maxKids w) (waveMaxKids (elapsedTime (gameData w) / 60))
            then kidSpawnTimer w - deltaTime else kidSpawnTimer w)"
    and "kidSpawnInterval w' = kidSpawnInterval w"
  using assms
  by (cases "waveMaxKids (elapsedTime (gameData w) / 60) > maxKids w";
      auto simp: updateKidSpawning_def Let_def split: if_splits prod.splits)+

lemma updateKidSpawning_interval:
  assumes "updateKidSpawning deltaTime w = Some w'"
    and "int (length (kids w)) < max (maxKids w) (waveMaxKids (elapsedTime (gameData w) / 60))"
    and "kidSpawnTimer w - deltaTime \<le> 0"
  shows "kidSpawnInterval w' = 15"
  using assms
  by (cases "waveMaxKids (elapsedTime (gameData w) / 60) > maxKids w")
     (auto simp: updateKidSpawning_def Let_def split: if_splits prod.splits)



section \<open>Movement against shelves\<close>

lemma applyMovement_blocked_wandering:
  assumes "scanShelves k (k_x k + k_vx k * deltaTime) (k_y k + k_vy k * deltaTime)
             (v_shelves v) (True, True) = (False, False)"
    and "k_state k = Wandering"
  shows "applyMovement deltaTime (k, v) =
           (k\<lparr> k_vx := cos (v_rnd v 2 * pi * 2) * speed k * 0.5,
               direction := v_rnd v 2 * pi * 2,
               k_vy := sin (v_rnd v 2 * pi * 2) * speed k * 0.5 \<rparr>,
            v\<lparr> v_rnd := (\<lambda>n. v_rnd v (n + 3)) \<rparr>)"
  using assms
  by (simp add: applyMovement_def Let_def random_def numeral_2_eq_2 numeral_3_eq_3)

lemma applyMovement_blocked_other:
  assumes "scanShelves k (k_x k + k_vx k * deltaTime) (k_y k + k_vy k * deltaTime)
             (v_shelves v) (True, True) = (False, False)"
    and "k_state k \<noteq> Wandering"
  shows "applyMovement deltaTime (k, v) =
           (k\<lparr> k_vx := - k_vx k * 0.3, k_vy := - k_vy k * 0.3 \<rparr>, v)"
  using assms
  by (simp add: applyMovement_def Let_def random_def)


lemma corneredKid_fields:
  "k_x corneredKid = 100" "k_y corneredKid = 100" "k_vx corneredKid = 10" "k_vy corneredKid = 10"
  "k_width corneredKid = 48" "k_height corneredKid = 60" "k_state corneredKid = Fleeing"
  "direction corneredKid = 0" "speed corneredKid = 70"
  by (simp_all add: corneredKid_def demoKid_def Kid_def Let_def)

lemma cornered_scan:
  "scanShelves corneredKid
     (k_x corneredKid + k_vx corneredKid * 1) (k_y corneredKid + k_vy corneredKid * 1)
     (v_shelves corneredView) (True, True) = (False, False)"
  by (simp add: corneredKid_fields corneredView_def Shelf_def checkCollision_def Let_def)

lemma cornered_scan_wandering:
  "scanShelves (corneredKid\<lparr> k_state := Wandering \<rparr>)
     (k_x corneredKid + k_vx corneredKid * 1) (k_y corneredKid + k_vy corneredKid * 1)
     (v_shelves corneredView) (True, True) = (False, False)"
  by (simp add: corneredKid_fields corneredView_def Shelf_def checkCollision_def Let_def)


text \<open>
  Claim C9, as the claim states it, fails for a kid that is not wandering: a fleeing kid
  whose X and Y moves are both rejected draws no random number, keeps its heading, and only
  has both velocity components reversed and damped (here from (10, 10) to (-3, -3)).
\<close>

theorem applyMovement_counterexample:
  "k_state corneredKid = Fleeing \<and>
   scanShelves corneredKid (k_x corneredKid + k_vx corneredKid * 1)
     (k_y corneredKid + k_vy corneredKid * 1) (v_shelves corneredView) (True, True) = (False, False) \<and>
   snd (applyMovement 1 (corneredKid, corneredView)) = corneredView \<and>
   direction (fst (applyMovement 1 (corneredKid, corneredView))) = direction corneredKid \<and>
   k_vx (fst (applyMovement 1 (corneredKid, corneredView))) = - 3 \<and>
   k_vy (fst (applyMovement 1 (corneredKid, corneredView))) = - 3 \<and>
   k_vx (fst (applyMovement 1 (corneredKid, corneredView))) \<noteq>
     cos (direction (fst (applyMovement 1 (corneredKid, corneredView)))) * speed corneredKid * 0.5"
proof -
  have sc: "scanShelves corneredKid (k_x corneredKid + k_vx corneredKid * 1)
     (k_y corneredKid + k_vy corneredKid * 1) (v_shelves corneredView) (True, True) = (False, False)"
    by (rule cornered_scan)
  have "k_state corneredKid \<noteq> Wandering" by (simp add: corneredKid_fields)
  from applyMovement_blocked_other [OF sc this] sc
  show ?thesis by (simp add: corneredKid_fields)
qed


text \<open>
  Claim C9, amended. When both the X and the Y component of a tick's movement are rejected
  by the shelf collision tests, a kid in the Wandering state takes a new heading
  r * 2 * pi from the random source (the third value drawn in the call, after the two
  bounce deviations) and its velocity is set from that heading at half its speed; a kid in
  the Stealing or Fleeing state keeps its heading, draws nothing, and its velocity
  components become -0.3 times what they were. The position is unchanged in both cases.
\<close>

theorem applyMovement_both_blocked:
  assumes "scanShelves k (k_x k + k_vx k * deltaTime) (k_y k + k_vy k * deltaTime)
             (v_shelves v) (True, True) = (False, False)"
  shows "(k_state k = Wandering \<longrightarrow>
           applyMovement deltaTime (k, v) =
             (k\<lparr> direction := v_rnd v 2 * pi * 2,
                 k_vx := cos (v_rnd v 2 * pi * 2) * speed k * 0.5,
                 k_vy := sin (v_rnd v 2 * pi * 2) * speed k * 0.5 \<rparr>,
              v\<lparr> v_rnd := (\<lambda>n. v_rnd v (n + 3)) \<rparr>))
       \<and> (k_state k \<noteq> Wandering \<longrightarrow>
           applyMovement deltaTime (k, v) =
             (k\<lparr> k_vx := - k_vx k * 0.3, k_vy := - k_vy k * 0.3 \<rparr>, v))"
  using applyMovement_blocked_wandering [OF assms] applyMovement_blocked_other [OF assms]
  by simp

theorem applyMovement_both_blocked_witness:
  "scanShelves (corneredKid\<lparr> k_state := Wandering \<rparr>)
     (k_x (corneredKid\<lparr> k_state := Wandering \<rparr>) + k_vx (corneredKid\<lparr> k_state := Wandering \<rparr>) * 1)
     (k_y (corneredKid\<lparr> k_state := Wandering \<rparr>) + k_vy (corneredKid\<lparr> k_state := Wandering \<rparr>) * 1)
     (v_shelves corneredView) (True, True) = (False, False) \<and>
   k_state (corneredKid\<lparr> k_state := Wandering \<rparr>) = Wandering \<and>
   direction (fst (applyMovement 1 (corneredKid\<lparr> k_state := Wandering \<rparr>, corneredView))) = pi / 2 \<and>
   k_vx (fst (applyMovement 1 (corneredKid\<lparr> k_state := Wandering \<rparr>, corneredView))) = 0 \<and>
   k_vy (fst (applyMovement 1 (corneredKid\<lparr> k_state := Wandering \<rparr>, corneredView))) = 35"
proof -
  have sc: "scanShelves (corneredKid\<lparr> k_state := Wandering \<rparr>)
     (k_x (corneredKid\<lparr> k_state := Wandering \<rparr>) + k_vx (corneredKid\<lparr> k_state := Wandering \<rparr>) * 1)
     (k_y (corneredKid\<lparr> k_state := Wandering \<rparr>) + k_vy (corneredKid\<lparr> k_state := Wandering \<rparr>) * 1)
     (v_shelves corneredView) (True, True) = (False, False)"
    using cornered_scan_wandering by simp
  have r: "v_rnd corneredView 2 * pi * 2 = pi / 2" by (simp add: corneredView_def)
  from applyMovement_both_blocked [OF sc] sc
  show ?thesis by (simp add: r corneredKid_fields)
qed


section \<open>Theft at the shelf\<close>

lemma set_occupiedIndices:
  "set (occupiedIndices s) = {i. i < length (volumeBlocks s) \<and> volumeBlocks s ! i \<noteq> None}"
  by (auto simp: occupiedIndices_def)

lemma hasStock_occupied: "hasStock s \<longleftrightarrow> occupiedIndices s \<noteq> []"
proof
  assume "hasStock s"
  then obtain i where "i < length (volumeBlocks s)" "volumeBlocks s ! i \<noteq> None"
    by (auto simp: hasStock_def in_set_conv_nth)
  then have "i \<in> set (occupiedIndices s)" by (simp add: set_occupiedIndices)
  then show "occupiedIndices s \<noteq> []" by auto
next
  assume "occupiedIndices s \<noteq> []"
  then obtain i where "i \<in> set (occupiedIndices s)" by (cases "occupiedIndices s") auto
  then have "i < length (volumeBlocks s)" "volumeBlocks s ! i \<noteq> None"
    by (simp_all add: set_occupiedIndices)
  then have "volumeBlocks s ! i \<in> set (volumeBlocks s) \<and> volumeBlocks s ! i \<noteq> None"
    by simp
  then show "hasStock s" unfolding hasStock_def by blast
qed

lemma floor_pick_range:
  assumes "0 \<le> r" "r < 1" "0 < n"
  shows "0 \<le> \<lfloor>r * real n\<rfloor> \<and> \<lfloor>r * real n\<rfloor> < int n"
proof -
  have "0 \<le> r * real n" using assms by simp
  moreover have "r * real n < real n" using assms by simp
  ultimately show ?thesis by (simp add: floor_less_iff)
qed

lemma removeRandom_empty:
  "\<not> hasStock (v_shelves v ! t) \<Longrightarrow> removeRandomVolumeBlock t v = (None, v)"
  by (simp add: hasStock_occupied removeRandomVolumeBlock_def Let_def)

lemma removeRandom_stocked:
  assumes "hasStock (v_shelves v ! t)" "0 \<le> v_rnd v 0" "v_rnd v 0 < 1"
  shows "\<exists>bi i. i = occupiedIndices (v_shelves v ! t) !
                  nat \<lfloor>v_rnd v 0 * real (length (occupiedIndices (v_shelves v ! t)))\<rfloor> \<and>
           i < length (volumeBlocks (v_shelves v ! t)) \<and>
           volumeBlocks (v_shelves v ! t) ! i = Some bi \<and>
           removeRandomVolumeBlock t v =
             (Some bi,
              v\<lparr> v_rnd := (\<lambda>n. v_rnd v (Suc n)),
                 v_shelves := (v_shelves v)[t := (v_shelves v ! t)
                    \<lparr> volumeBlocks := (volumeBlocks (v_shelves v ! t))[i := None] \<rparr>],
                 v_volumeBlocks := (v_volumeBlocks v)[bi := unshelve (v_volumeBlocks v ! bi)] \<rparr>)"
proof -
  let ?s = "v_shelves v ! t"
  let ?occ = "occupiedIndices ?s"
  let ?p = "\<lfloor>v_rnd v 0 * real (length ?occ)\<rfloor>"
  let ?i = "?occ ! nat ?p"
  have ne: "0 < length ?occ" using assms(1) by (simp add: hasStock_occupied)
  have pr: "0 \<le> ?p \<and> ?p < int (length ?occ)"
    using floor_pick_range [OF assms(2,3) ne] .
  then have "nat ?p < length ?occ" by linarith
  then have "?i \<in> set ?occ" by (rule nth_mem)
  then have il: "?i < length (volumeBlocks ?s)" and io: "volumeBlocks ?s ! ?i \<noteq> None"
    by (simp_all add: set_occupiedIndices)
  then obtain bi where bi: "volumeBlocks ?s ! ?i = Some bi" by auto
  have "removeRandomVolumeBlock t v =
             (Some bi,
              v\<lparr> v_rnd := (\<lambda>n. v_rnd v (Suc n)),
                 v_shelves := (v_shelves v)[t := ?s
                    \<lparr> volumeBlocks := (volumeBlocks ?s)[?i := None] \<rparr>],
                 v_volumeBlocks := (v_volumeBlocks v)[bi := unshelve (v_volumeBlocks v ! bi)] \<rparr>)"
    using ne pr il bi
    by (simp add: removeRandomVolumeBlock_def Let_def random_def removeVolumeBlockIn_def
        removeVolumeBlock_def)
  with il bi show ?thesis by blast
qed


lemma updateStealing_at_shelf:
  assumes "target k = Some t" "carriedVolumeBlock k = None" "\<not> playerIsClose k v"
    "isNearShelf k (v_shelves v ! t) 5"
    "(if grabDelay k \<le> 0 then grabDelayTime k else grabDelay k) - deltaTime \<le> 0"
  shows "updateStealing deltaTime (k, v) =
           grabFromShelf t (k\<lparr> grabDelay :=
              (if grabDelay k \<le> 0 then grabDelayTime k else grabDelay k) - deltaTime \<rparr>, v)"
  using assms by (cases "grabDelay k \<le> 0") (simp_all add: updateStealing_def Let_def)

lemma grabFromShelf_empty:
  "\<not> hasStock (v_shelves v ! t) \<Longrightarrow>
   grabFromShelf t (k, v) =
     (k\<lparr> k_state := Wandering, volumeBlockStealCooldown := 1, target := None, grabDelay := 0 \<rparr>, v)"
  by (simp add: grabFromShelf_def removeRandom_empty)

lemma grabFromShelf_drop:
  assumes rm: "removeRandomVolumeBlock t v = (Some bi, v1)"
    and r: "v_rnd v1 0 < 0.5"
    and bl: "bi < length (v_volumeBlocks v1)"
  shows "grabFromShelf t (k, v) =
     (k\<lparr> volumeBlockStealCooldown := volumeBlockStealCooldownTime k, k_state := Fleeing,
         target := None, grabDelay := 0 \<rparr>,
      v1\<lparr> v_rnd := (\<lambda>n. v_rnd v1 (n + 5)),
          v_volumeBlocks := (v_volumeBlocks v1)[bi := (v_volumeBlocks v1 ! bi)
            \<lparr> b_x := shelfCenterX (v_shelves v1 ! t)
                      + cos (v_rnd v1 1 * pi * 2) * (v_rnd v1 2 * 150)
                      - b_width (v_volumeBlocks v1 ! bi) / 2,
              b_y := shelfCenterY (v_shelves v1 ! t)
                      + sin (v_rnd v1 1 * pi * 2) * (v_rnd v1 2 * 150)
                      - b_height (v_volumeBlocks v1 ! bi) / 2,
              b_vx := (v_rnd v1 3 - 0.5) * 60, b_vy := (v_rnd v1 4 - 0.5) * 60,
              visible := True \<rparr>] \<rparr>)"
  using r bl
  by (simp add: grabFromShelf_def rm Let_def random_def numeral_2_eq_2 numeral_3_eq_3
      eval_nat_numeral)

lemma grabFromShelf_carry:
  assumes rm: "removeRandomVolumeBlock t v = (Some bi, v1)"
    and r: "\<not> v_rnd v1 0 < 0.5"
  shows "grabFromShelf t (k, v) =
     (k\<lparr> carriedVolumeBlock := Some bi,
         volumeBlockStealCooldown := volumeBlockStealCooldownTime k, k_state := Fleeing,
         target := None, grabDelay := 0 \<rparr>,
      v1\<lparr> v_rnd := (\<lambda>n. v_rnd v1 (Suc n)),
          v_volumeBlocks := (v_volumeBlocks v1)[bi := (v_volumeBlocks v1 ! bi)
            \<lparr> isHeld := True, holder := Some (KidRef (k_ref k)), visible := True \<rparr>] \<rparr>)"
  using r
  by (simp add: grabFromShelf_def rm Let_def random_def)


lemma grab_at_empty_shelf:
  assumes tgt: "target k = Some t" and nc: "carriedVolumeBlock k = None"
    and far: "\<not> playerIsClose k v"
    and near: "isNearShelf k (v_shelves v ! t) 5"
    and delay: "(if grabDelay k \<le> 0 then grabDelayTime k else grabDelay k) - deltaTime \<le> 0"
    and ns: "\<not> hasStock (v_shelves v ! t)"
  shows "updateStealing deltaTime (k, v) =
             (k\<lparr> k_state := Wandering, volumeBlockStealCooldown := 1, target := None,
                 grabDelay := 0 \<rparr>, v)"
  unfolding updateStealing_at_shelf [OF tgt nc far near delay]
  using ns by (simp add: grabFromShelf_empty)

lemma grab_at_stocked_shelf:
  assumes tgt: "target k = Some t" and nc: "carriedVolumeBlock k = None"
    and far: "\<not> playerIsClose k v"
    and near: "isNearShelf k (v_shelves v ! t) 5"
    and delay: "(if grabDelay k \<le> 0 then grabDelayTime k else grabDelay k) - deltaTime \<le> 0"
    and r0: "0 \<le> v_rnd v 0" "v_rnd v 0 < 1"
    and tl: "t < length (v_shelves v)"
    and refs: "\<forall>bi. Some bi \<in> set (volumeBlocks (v_shelves v ! t)) \<longrightarrow> bi < length (v_volumeBlocks v)"
    and st: "hasStock (v_shelves v ! t)"
  shows "\<exists>i bi k' v'. updateStealing deltaTime (k, v) = (k', v') \<and>
              i = occupiedIndices (v_shelves v ! t) !
                    nat \<lfloor>v_rnd v 0 * real (length (occupiedIndices (v_shelves v ! t)))\<rfloor> \<and>
              i < length (volumeBlocks (v_shelves v ! t)) \<and>
              volumeBlocks (v_shelves v ! t) ! i = Some bi \<and>
              volumeBlocks (v_shelves v' ! t) = (volumeBlocks (v_shelves v ! t))[i := None] \<and>
              k_state k' = Fleeing \<and>
              volumeBlockStealCooldown k' = volumeBlockStealCooldownTime k \<and>
              target k' = None \<and> grabDelay k' = 0 \<and>
              v_kidsRepelled v' = v_kidsRepelled v \<and>
              (v_rnd v 1 < 1 / 2 \<longrightarrow>
                 carriedVolumeBlock k' = None \<and>
                 \<not> isHeld (v_volumeBlocks v' ! bi) \<and> \<not> isShelved (v_volumeBlocks v' ! bi) \<and>
                 holder (v_volumeBlocks v' ! bi) = None \<and> b_shelf (v_volumeBlocks v' ! bi) = None \<and>
                 visible (v_volumeBlocks v' ! bi) \<and>
                 blockCenterX (v_volumeBlocks v' ! bi) =
                   shelfCenterX (v_shelves v ! t) + cos (v_rnd v 2 * pi * 2) * (v_rnd v 3 * 150) \<and>
                 blockCenterY (v_volumeBlocks v' ! bi) =
                   shelfCenterY (v_shelves v ! t) + sin (v_rnd v 2 * pi * 2) * (v_rnd v 3 * 150)) \<and>
              (\<not> v_rnd v 1 < 1 / 2 \<longrightarrow>
                 carriedVolumeBlock k' = Some bi \<and>
                 isHeld (v_volumeBlocks v' ! bi) \<and> \<not> isShelved (v_volumeBlocks v' ! bi) \<and>
                 holder (v_volumeBlocks v' ! bi) = Some (KidRef (k_ref k)))"
proof -
  let ?k2 = "k\<lparr> grabDelay := (if grabDelay k \<le> 0 then grabDelayTime k else grabDelay k) - deltaTime \<rparr>"
  have us: "updateStealing deltaTime (k, v) = grabFromShelf t (?k2, v)"
    using tgt nc far near delay by (rule updateStealing_at_shelf)
  let ?s = "v_shelves v ! t"
  from removeRandom_stocked [OF st r0]
  obtain bi i where i: "i = occupiedIndices ?s ! nat \<lfloor>v_rnd v 0 * real (length (occupiedIndices ?s))\<rfloor>"
    and il: "i < length (volumeBlocks ?s)" and ib: "volumeBlocks ?s ! i = Some bi"
    and rm: "removeRandomVolumeBlock t v =
             (Some bi,
              v\<lparr> v_rnd := (\<lambda>n. v_rnd v (Suc n)),
                 v_shelves := (v_shelves v)[t := ?s\<lparr> volumeBlocks := (volumeBlocks ?s)[i := None] \<rparr>],
                 v_volumeBlocks := (v_volumeBlocks v)[bi := unshelve (v_volumeBlocks v ! bi)] \<rparr>)"
    by blast
  let ?v1 = "v\<lparr> v_rnd := (\<lambda>n. v_rnd v (Suc n)),
                 v_shelves := (v_shelves v)[t := ?s\<lparr> volumeBlocks := (volumeBlocks ?s)[i := None] \<rparr>],
                 v_volumeBlocks := (v_volumeBlocks v)[bi := unshelve (v_volumeBlocks v ! bi)] \<rparr>"
  have "Some bi \<in> set (volumeBlocks ?s)" using il ib by (metis nth_mem)
  with refs have bl: "bi < length (v_volumeBlocks v)" by blast
  show ?thesis
  proof (cases "v_rnd v 1 < 1 / 2")
    case True
    then have r: "v_rnd ?v1 0 < 0.5" by simp
    have bl1: "bi < length (v_volumeBlocks ?v1)" using bl by simp
    note g = grabFromShelf_drop [OF rm r bl1, of ?k2]
    show ?thesis
      apply (rule exI [of _ i], rule exI [of _ bi])
      apply (intro exI conjI)
                apply (simp only: us, rule g)
      using True i il ib tl bl nc
      by (simp_all add: unshelve_def blockCenterX_def blockCenterY_def shelfCenterX_def
          shelfCenterY_def numeral_2_eq_2 numeral_3_eq_3)
  next
    case False
    then have r: "\<not> v_rnd ?v1 0 < 0.5" by simp
    note g = grabFromShelf_carry [OF rm r, of ?k2]
    show ?thesis
      apply (rule exI [of _ i], rule exI [of _ bi])
      apply (intro exI conjI)
                apply (simp only: us, rule g)
      using False i il ib tl bl nc
      by (simp_all add: unshelve_def)
  qed
qed

lemma thief_facts:
  "target thiefKid = Some 0" "carriedVolumeBlock thiefKid = None"
  "\<not> playerIsClose thiefKid thiefView" "isNearShelf thiefKid (v_shelves thiefView ! 0) 5"
  "(if grabDelay thiefKid \<le> 0 then grabDelayTime thiefKid else grabDelay thiefKid) - 1 \<le> 0"
  "0 \<le> v_rnd thiefView 0" "v_rnd thiefView 0 < 1" "0 < length (v_shelves thiefView)"
  "\<forall>bi. Some bi \<in> set (volumeBlocks (v_shelves thiefView ! 0)) \<longrightarrow> bi < length (v_volumeBlocks thiefView)"
  "hasStock (v_shelves thiefView ! 0)"
  "occupiedIndices (v_shelves thiefView ! 0) = [0]"
  "volumeBlocks (v_shelves thiefView ! 0) ! 0 = Some 0"
  "v_rnd thiefView 1 < 1 / 2" "k_state thiefKid = Stealing"
  by (simp_all add: thiefKid_def thiefView_def thiefShelf_def demoKid_def Kid_def Let_def
      playerIsClose_def isNearShelf_def Shelf_def hasStock_def occupiedIndices_def upt_rec)

text \<open>
  Claim C1, as the claim states it, fails in the floor-drop case: the kid that knocks the
  block to the floor (second random value below 1/2) does not go back to Wandering; it is
  put into Fleeing like the kid that carries the block away.
\<close>

theorem updateStealing_counterexample:
  "k_state thiefKid = Stealing \<and> target thiefKid = Some 0 \<and>
   isNearShelf thiefKid (v_shelves thiefView ! 0) 5 \<and> hasStock (v_shelves thiefView ! 0) \<and>
   v_rnd thiefView 1 < 1 / 2 \<and>
   carriedVolumeBlock (fst (updateStealing 1 (thiefKid, thiefView))) = None \<and>
   \<not> isHeld (v_volumeBlocks (snd (updateStealing 1 (thiefKid, thiefView))) ! 0) \<and>
   \<not> isShelved (v_volumeBlocks (snd (updateStealing 1 (thiefKid, thiefView))) ! 0) \<and>
   k_state (fst (updateStealing 1 (thiefKid, thiefView))) = Fleeing \<and>
   k_state (fst (updateStealing 1 (thiefKid, thiefView))) \<noteq> Wandering"
proof -
  from grab_at_stocked_shelf [of thiefKid 0 thiefView 1, OF thief_facts(1-10)]
  obtain i bi k' v' where r: "updateStealing 1 (thiefKid, thiefView) = (k', v')"
    "i = occupiedIndices (v_shelves thiefView ! 0) !
           nat \<lfloor>v_rnd thiefView 0 * real (length (occupiedIndices (v_shelves thiefView ! 0)))\<rfloor>"
    "volumeBlocks (v_shelves thiefView ! 0) ! i = Some bi"
    "k_state k' = Fleeing"
    "v_rnd thiefView 1 < 1 / 2 \<longrightarrow>
       carriedVolumeBlock k' = None \<and>
       \<not> isHeld (v_volumeBlocks v' ! bi) \<and> \<not> isShelved (v_volumeBlocks v' ! bi)"
    by blast
  have "i = 0" using r(2) by (simp add: thief_facts(11)) (simp add: thiefView_def)
  with r(3) have "bi = 0" by (simp add: thief_facts(12))
  with r(1,4,5) thief_facts show ?thesis by simp
qed

text \<open>
  Claim C1, amended. Let a kid with a target shelf and no carried block, with no player in
  detection range, stand within 5 pixels of the target shelf's bounding box while its grab
  delay runs out in this tick; let the shelf's slots refer to existing blocks and the next
  random value r0 be in [0, 1). If the shelf has no stocked block, the kid returns to
  Wandering with a steal cooldown of 1, its target and grab delay cleared, and nothing else
  changes. Otherwise the occupied slot number floor(r0 * n) of the n occupied slots is
  emptied, and in both cases the kid goes to Fleeing with the steal cooldown of its
  aggression tier, its target and grab delay cleared and the repelled counter unchanged:
  if the next random value is below 1/2 the block is left on the floor (not held, not
  shelved, no owner, visible) at a random point within 150 of the shelf's centre and the
  kid carries nothing; otherwise the kid carries the block, which is Held with holder this
  kid.
\<close>

theorem updateStealing_grab:
  assumes tgt: "target k = Some t" and nc: "carriedVolumeBlock k = None"
    and far: "\<not> playerIsClose k v"
    and near: "isNearShelf k (v_shelves v ! t) 5"
    and delay: "(if grabDelay k \<le> 0 then grabDelayTime k else grabDelay k) - deltaTime \<le> 0"
    and r0: "0 \<le> v_rnd v 0" "v_rnd v 0 < 1"
    and tl: "t < length (v_shelves v)"
    and refs: "\<forall>bi. Some bi \<in> set (volumeBlocks (v_shelves v ! t)) \<longrightarrow> bi < length (v_volumeBlocks v)"
  shows "(\<not> hasStock (v_shelves v ! t) \<longrightarrow>
           updateStealing deltaTime (k, v) =
             (k\<lparr> k_state := Wandering, volumeBlockStealCooldown := 1, target := None,
                 grabDelay := 0 \<rparr>, v))
       \<and> (hasStock (v_shelves v ! t) \<longrightarrow>
           (\<exists>i bi k' v'. updateStealing deltaTime (k, v) = (k', v') \<and>
              i = occupiedIndices (v_shelves v ! t) !
                    nat \<lfloor>v_rnd v 0 * real (length (occupiedIndices (v_shelves v ! t)))\<rfloor> \<and>
              i < length (volumeBlocks (v_shelves v ! t)) \<and>
              volumeBlocks (v_shelves v ! t) ! i = Some bi \<and>
              volumeBlocks (v_shelves v' ! t) = (volumeBlocks (v_shelves v ! t))[i := None] \<and>
              k_state k' = Fleeing \<and>
              volumeBlockStealCooldown k' = volumeBlockStealCooldownTime k \<and>
              target k' = None \<and> grabDelay k' = 0 \<and>
              v_kidsRepelled v' = v_kidsRepelled v \<and>
              (v_rnd v 1 < 1 / 2 \<longrightarrow>
                 carriedVolumeBlock k' = None \<and>
                 \<not> isHeld (v_volumeBlocks v' ! bi) \<and> \<not> isShelved (v_volumeBlocks v' ! bi) \<and>
                 holder (v_volumeBlocks v' ! bi) = None \<and> b_shelf (v_volumeBlocks v' ! bi) = None \<and>
                 visible (v_volumeBlocks v' ! bi) \<and>
                 blockCenterX (v_volumeBlocks v' ! bi) =
                   shelfCenterX (v_shelves v ! t) + cos (v_rnd v 2 * pi * 2) * (v_rnd v 3 * 150) \<and>
                 blockCenterY (v_volumeBlocks v' ! bi) =
                   shelfCenterY (v_shelves v ! t) + sin (v_rnd v 2 * pi * 2) * (v_rnd v 3 * 150)) \<and>
              (\<not> v_rnd v 1 < 1 / 2 \<longrightarrow>
                 carriedVolumeBlock k' = Some bi \<and>
                 isHeld (v_volumeBlocks v' ! bi) \<and> \<not> isShelved (v_volumeBlocks v' ! bi) \<and>
                 holder (v_volumeBlocks v' ! bi) = Some (KidRef (k_ref k)))))"
  using grab_at_empty_shelf [OF tgt nc far near delay]
    grab_at_stocked_shelf [OF tgt nc far near delay r0 tl refs]
  by blast

theorem updateStealing_grab_witness:
  "target thiefKid = Some 0 \<and> carriedVolumeBlock thiefKid = None \<and>
   \<not> playerIsClose thiefKid thiefView \<and> isNearShelf thiefKid (v_shelves thiefView ! 0) 5 \<and>
   (if grabDelay thiefKid \<le> 0 then grabDelayTime thiefKid else grabDelay thiefKid) - 1 \<le> 0 \<and>
   0 \<le> v_rnd thiefView 0 \<and> v_rnd thiefView 0 < 1 \<and> 0 < length (v_shelves thiefView) \<and>
   volumeBlocks (v_shelves thiefView ! 0) = [Some 0, None, None, None, None, None] \<and>
   length (v_volumeBlocks thiefView) = 1 \<and>
   hasStock (v_shelves thiefView ! 0) \<and>
   (\<exists>k' v'. updateStealing 1 (thiefKid, thiefView) = (k', v') \<and> k_state k' = Fleeing \<and>
      volumeBlockStealCooldown k' = 2 \<and> target k' = None)"
proof -
  have c: "volumeBlockStealCooldownTime thiefKid = 2"
    by (simp add: thiefKid_def demoKid_def Kid_def Let_def)
  from updateStealing_grab [of thiefKid 0 thiefView 1, OF thief_facts(1-9)] thief_facts(10)
  obtain k' v' where "updateStealing 1 (thiefKid, thiefView) = (k', v')" "k_state k' = Fleeing"
    "volumeBlockStealCooldown k' = volumeBlockStealCooldownTime thiefKid" "target k' = None"
    by blast
  moreover have "volumeBlocks (v_shelves thiefView ! 0) = [Some 0, None, None, None, None, None]"
    "length (v_volumeBlocks thiefView) = 1"
    by (simp_all add: thiefView_def thiefShelf_def)
  ultimately show ?thesis using c thief_facts by simp
qed

section \<open>The repelled counter and the flee episode\<close>

lemma random_frame:
  "v_kidsRepelled (snd (random v)) = v_kidsRepelled v"
  "v_cues (snd (random v)) = v_cues v"
  "v_player (snd (random v)) = v_player v"
  "v_shelves (snd (random v)) = v_shelves v"
  "v_volumeBlocks (snd (random v)) = v_volumeBlocks v"
  "v_worldWidth (snd (random v)) = v_worldWidth v"
  "v_worldHeight (snd (random v)) = v_worldHeight v"
  by (simp_all add: random_def)

lemma playLaughingSound_frame:
  "k_state (fst (playLaughingSound (k, v))) = k_state k"
  "hasPlayedLaughSound (fst (playLaughingSound (k, v)))"
  "carriedVolumeBlock (fst (playLaughingSound (k, v))) = carriedVolumeBlock k"
  "dropVolumeBlockTimer (fst (playLaughingSound (k, v))) = dropVolumeBlockTimer k"
  "dropVolumeBlockMinTime (fst (playLaughingSound (k, v))) = dropVolumeBlockMinTime k"
  "dropVolumeBlockMaxTime (fst (playLaughingSound (k, v))) = dropVolumeBlockMaxTime k"
  "k_vx (fst (playLaughingSound (k, v))) = k_vx k"
  "k_vy (fst (playLaughingSound (k, v))) = k_vy k"
  "stuckTimer (fst (playLaughingSound (k, v))) = stuckTimer k"
  "v_kidsRepelled (snd (playLaughingSound (k, v))) = v_kidsRepelled v"
  "v_rnd (snd (playLaughingSound (k, v))) = v_rnd v"
  "v_cues (snd (playLaughingSound (k, v))) =
     (if hasPlayedLaughSound k then v_cues v else v_cues v @ [LaughCue])"
  by (simp_all add: playLaughingSound_def)

lemma startFleeing_frame:
  "k_state (fst (startFleeing (k, v))) = Fleeing"
  "hasPlayedLaughSound (fst (startFleeing (k, v)))"
  "carriedVolumeBlock (fst (startFleeing (k, v))) = carriedVolumeBlock k"
  "dropVolumeBlockTimer (fst (startFleeing (k, v))) = dropVolumeBlockTimer k"
  "dropVolumeBlockMinTime (fst (startFleeing (k, v))) = dropVolumeBlockMinTime k"
  "dropVolumeBlockMaxTime (fst (startFleeing (k, v))) = dropVolumeBlockMaxTime k"
  "k_vx (fst (startFleeing (k, v))) = k_vx k"
  "k_vy (fst (startFleeing (k, v))) = k_vy k"
  "stuckTimer (fst (startFleeing (k, v))) = stuckTimer k"
  "v_kidsRepelled (snd (startFleeing (k, v))) =
     (if k_state k \<noteq> Fleeing then v_kidsRepelled v + 1 else v_kidsRepelled v)"
  "v_rnd (snd (startFleeing (k, v))) = v_rnd v"
  "v_cues (snd (startFleeing (k, v))) =
     (if hasPlayedLaughSound k then v_cues v else v_cues v @ [LaughCue])"
  by (simp_all add: startFleeing_def Let_def playLaughingSound_frame)

lemma stuckCheck_frame:
  "k_state (fst (stuckCheck dt (k, v))) = k_state k"
  "hasPlayedLaughSound (fst (stuckCheck dt (k, v))) = hasPlayedLaughSound k"
  "carriedVolumeBlock (fst (stuckCheck dt (k, v))) = carriedVolumeBlock k"
  "dropVolumeBlockTimer (fst (stuckCheck dt (k, v))) = dropVolumeBlockTimer k"
  "dropVolumeBlockMinTime (fst (stuckCheck dt (k, v))) = dropVolumeBlockMinTime k"
  "dropVolumeBlockMaxTime (fst (stuckCheck dt (k, v))) = dropVolumeBlockMaxTime k"
  "v_kidsRepelled (snd (stuckCheck dt (k, v))) = v_kidsRepelled v"
  "v_cues (snd (stuckCheck dt (k, v))) = v_cues v"
  "v_rnd (snd (stuckCheck dt (k, v))) =
     (if \<bar>k_vx k\<bar> < 0.1 \<and> \<bar>k_vy k\<bar> < 0.1 \<and> stuckTimer k + dt > 1
      then (\<lambda>n. v_rnd v (Suc n)) else v_rnd v)"
  by (simp_all add: stuckCheck_def Let_def random_def)

lemma dropVolumeBlock_frame:
  "k_state (fst (dropVolumeBlock (k, v))) = k_state k"
  "hasPlayedLaughSound (fst (dropVolumeBlock (k, v))) = hasPlayedLaughSound k"
  "v_kidsRepelled (snd (dropVolumeBlock (k, v))) = v_kidsRepelled v"
  "v_cues (snd (dropVolumeBlock (k, v))) = v_cues v"
  by (simp_all add: dropVolumeBlock_def Let_def random_def split: option.splits)

lemma carryTimer_frame:
  "k_state (fst (carryTimer dt (k, v))) =
     (if carriedVolumeBlock k \<noteq> None \<and>
         dropVolumeBlockTimer k + dt >
           dropVolumeBlockMinTime k + v_rnd v 0 * (dropVolumeBlockMaxTime k - dropVolumeBlockMinTime k)
      then Wandering else k_state k)"
  "hasPlayedLaughSound (fst (carryTimer dt (k, v))) = hasPlayedLaughSound k"
  "v_kidsRepelled (snd (carryTimer dt (k, v))) = v_kidsRepelled v"
  "v_cues (snd (carryTimer dt (k, v))) = v_cues v"
  by (simp_all add: carryTimer_def Let_def random_def dropVolumeBlock_frame case_prod_beta)

lemma keepInWorld_frame:
  "k_state (fst (keepInWorld (k, v))) = k_state k"
  "hasPlayedLaughSound (fst (keepInWorld (k, v))) = hasPlayedLaughSound k"
  "v_kidsRepelled (snd (keepInWorld (k, v))) = v_kidsRepelled v"
  "v_cues (snd (keepInWorld (k, v))) = v_cues v"
  by (simp_all add: keepInWorld_def)


lemma applyMovement_frame:
  "k_state (fst (applyMovement dt (k, v))) = k_state k"
  "hasPlayedLaughSound (fst (applyMovement dt (k, v))) = hasPlayedLaughSound k"
  "fleeTimer (fst (applyMovement dt (k, v))) = fleeTimer k"
  "carriedVolumeBlock (fst (applyMovement dt (k, v))) = carriedVolumeBlock k"
  "v_kidsRepelled (snd (applyMovement dt (k, v))) = v_kidsRepelled v"
  "v_cues (snd (applyMovement dt (k, v))) = v_cues v"
  by (simp_all add: applyMovement_def Let_def random_def case_prod_beta)

lemma updateFleeing_counter:
  "v_kidsRepelled (snd (updateFleeing dt (k, v))) = v_kidsRepelled v"
proof (cases "v_player v")
  case None
  then show ?thesis
    by (simp add: updateFleeing_def Let_def case_prod_beta applyMovement_frame)
next
  case (Some p)
  then show ?thesis
    by (simp add: updateFleeing_def Let_def case_prod_beta applyMovement_frame
        dropVolumeBlock_frame random_frame)
qed

lemma updateFleeing_far:
  assumes "v_player v = Some p" "distToPlayer k p > playerDetectionRange k * 1.5"
  shows "updateFleeing dt (k, v) = (k\<lparr> k_state := Wandering, hasPlayedLaughSound := False \<rparr>, v)"
  using assms by (simp add: updateFleeing_def)

lemma updateFleeing_timeout:
  assumes "v_player v = None"
    "(case fleeTimer k of None \<Rightarrow> 1 | Some t \<Rightarrow> if t = 0 then 1 else t) - dt \<le> 0"
  shows "k_state (fst (updateFleeing dt (k, v))) = Wandering"
    "\<not> hasPlayedLaughSound (fst (updateFleeing dt (k, v)))"
    "fleeTimer (fst (updateFleeing dt (k, v))) = None"
  using assms
  by (simp_all add: updateFleeing_def Let_def case_prod_beta applyMovement_frame)

lemma updateFleeing_leaves:
  assumes "k_state k = Fleeing" "k_state (fst (updateFleeing dt (k, v))) \<noteq> Fleeing"
  shows "k_state (fst (updateFleeing dt (k, v))) = Wandering \<and>
         \<not> hasPlayedLaughSound (fst (updateFleeing dt (k, v)))"
proof (cases "v_player v")
  case None
  with assms show ?thesis
    by (simp add: updateFleeing_def Let_def case_prod_beta applyMovement_frame split: if_splits)
next
  case (Some p)
  with assms show ?thesis
    by (simp add: updateFleeing_def Let_def case_prod_beta applyMovement_frame
        dropVolumeBlock_frame split: if_splits)
qed

lemma playerIsClose_cooldown:
  "playerIsClose (k\<lparr> volumeBlockStealCooldown := c \<rparr>) v = playerIsClose k v"
  by (simp add: playerIsClose_def distToPlayer_def getDistanceTo_def kidCenterX_def kidCenterY_def
      split: option.splits)

lemma stateMachine_repel:
  assumes "playerIsClose k v"
    and "k_state k = Wandering \<or> (k_state k = Stealing \<and> target k \<noteq> None \<and> carriedVolumeBlock k = None)"
  shows "stateMachine dt (k, v) = startFleeing (k, v)"
  using assms by (auto simp: stateMachine_def updateWandering_def updateStealing_def)

lemma Kid_update_tail:
  "k_state (fst (keepInWorld (carryTimer dt (stuckCheck dt (k, v))))) =
     (if carriedVolumeBlock k \<noteq> None \<and>
         dropVolumeBlockTimer k + dt >
           dropVolumeBlockMinTime k +
           v_rnd v (if \<bar>k_vx k\<bar> < 0.1 \<and> \<bar>k_vy k\<bar> < 0.1 \<and> stuckTimer k + dt > 1 then 1 else 0)
             * (dropVolumeBlockMaxTime k - dropVolumeBlockMinTime k)
      then Wandering else k_state k)"
  "hasPlayedLaughSound (fst (keepInWorld (carryTimer dt (stuckCheck dt (k, v))))) = hasPlayedLaughSound k"
  "v_kidsRepelled (snd (keepInWorld (carryTimer dt (stuckCheck dt (k, v))))) = v_kidsRepelled v"
  "v_cues (snd (keepInWorld (carryTimer dt (stuckCheck dt (k, v))))) = v_cues v"
proof -
  obtain k1 v1 where s: "stuckCheck dt (k, v) = (k1, v1)" by (cases "stuckCheck dt (k, v)")
  obtain k2 v2 where c: "carryTimer dt (k1, v1) = (k2, v2)" by (cases "carryTimer dt (k1, v1)")
  have f1: "k_state k1 = k_state k" "hasPlayedLaughSound k1 = hasPlayedLaughSound k"
    "carriedVolumeBlock k1 = carriedVolumeBlock k" "dropVolumeBlockTimer k1 = dropVolumeBlockTimer k"
    "dropVolumeBlockMinTime k1 = dropVolumeBlockMinTime k"
    "dropVolumeBlockMaxTime k1 = dropVolumeBlockMaxTime k"
    "v_kidsRepelled v1 = v_kidsRepelled v" "v_cues v1 = v_cues v"
    "v_rnd v1 = (if \<bar>k_vx k\<bar> < 0.1 \<and> \<bar>k_vy k\<bar> < 0.1 \<and> stuckTimer k + dt > 1
      then (\<lambda>n. v_rnd v (Suc n)) else v_rnd v)"
    using stuckCheck_frame [of dt k v] unfolding s by simp_all
  have f2: "k_state k2 =
     (if carriedVolumeBlock k1 \<noteq> None \<and>
         dropVolumeBlockTimer k1 + dt >
           dropVolumeBlockMinTime k1 + v_rnd v1 0 * (dropVolumeBlockMaxTime k1 - dropVolumeBlockMinTime k1)
      then Wandering else k_state k1)"
    "hasPlayedLaughSound k2 = hasPlayedLaughSound k1"
    "v_kidsRepelled v2 = v_kidsRepelled v1" "v_cues v2 = v_cues v1"
    using carryTimer_frame [of dt k1 v1] unfolding c by simp_all
  have r0: "v_rnd v1 0 = v_rnd v (if \<bar>k_vx k\<bar> < 0.1 \<and> \<bar>k_vy k\<bar> < 0.1 \<and> stuckTimer k + dt > 1 then 1 else 0)"
    by (simp add: f1)
  show "k_state (fst (keepInWorld (carryTimer dt (stuckCheck dt (k, v))))) =
     (if carriedVolumeBlock k \<noteq> None \<and>
         dropVolumeBlockTimer k + dt >
           dropVolumeBlockMinTime k +
           v_rnd v (if \<bar>k_vx k\<bar> < 0.1 \<and> \<bar>k_vy k\<bar> < 0.1 \<and> stuckTimer k + dt > 1 then 1 else 0)
             * (dropVolumeBlockMaxTime k - dropVolumeBlockMinTime k)
      then Wandering else k_state k)"
    unfolding s c keepInWorld_frame f2 r0 by (simp only: f1)
  show "hasPlayedLaughSound (fst (keepInWorld (carryTimer dt (stuckCheck dt (k, v))))) = hasPlayedLaughSound k"
    unfolding s c keepInWorld_frame f2 by (simp only: f1)
  show "v_kidsRepelled (snd (keepInWorld (carryTimer dt (stuckCheck dt (k, v))))) = v_kidsRepelled v"
    unfolding s c keepInWorld_frame f2 by (simp only: f1)
  show "v_cues (snd (keepInWorld (carryTimer dt (stuckCheck dt (k, v))))) = v_cues v"
    unfolding s c keepInWorld_frame f2 by (simp only: f1)
qed


lemma Kid_update_unfold:
  "Kid_update dt (k, v) =
     keepInWorld (carryTimer dt (stuckCheck dt (stateMachine dt
       (if volumeBlockStealCooldown k > 0
        then k\<lparr> volumeBlockStealCooldown := volumeBlockStealCooldown k - dt \<rparr> else k, v))))"
  by (simp add: Kid_update_def Let_def)

lemma Kid_update_repel:
  assumes close: "playerIsClose k v"
    and st: "k_state k = Wandering \<or>
             (k_state k = Stealing \<and> target k \<noteq> None \<and> carriedVolumeBlock k = None)"
  shows "v_kidsRepelled (snd (Kid_update dt (k, v))) = v_kidsRepelled v + 1"
    and "k_state (fst (Kid_update dt (k, v))) =
         (if carriedVolumeBlock k \<noteq> None \<and>
            dropVolumeBlockTimer k + dt >
              dropVolumeBlockMinTime k +
              v_rnd v (if \<bar>k_vx k\<bar> < 0.1 \<and> \<bar>k_vy k\<bar> < 0.1 \<and> stuckTimer k + dt > 1 then 1 else 0)
                * (dropVolumeBlockMaxTime k - dropVolumeBlockMinTime k)
          then Wandering else Fleeing)"
    and "hasPlayedLaughSound (fst (Kid_update dt (k, v)))"
    and "v_cues (snd (Kid_update dt (k, v))) =
         (if hasPlayedLaughSound k then v_cues v else v_cues v @ [LaughCue])"
proof -
  let ?k1 = "if volumeBlockStealCooldown k > 0
        then k\<lparr> volumeBlockStealCooldown := volumeBlockStealCooldown k - dt \<rparr> else k"
  have c1: "playerIsClose ?k1 v" using close by (simp add: playerIsClose_cooldown)
  have s1: "k_state ?k1 = Wandering \<or>
             (k_state ?k1 = Stealing \<and> target ?k1 \<noteq> None \<and> carriedVolumeBlock ?k1 = None)"
    using st by simp
  have nf: "k_state ?k1 \<noteq> Fleeing" using st by auto
  have sm: "stateMachine dt (?k1, v) = startFleeing (?k1, v)"
    using c1 s1 by (rule stateMachine_repel)
  obtain kA vA where a: "startFleeing (?k1, v) = (kA, vA)" by (cases "startFleeing (?k1, v)")
  have fa: "k_state kA = Fleeing" "hasPlayedLaughSound kA"
    "carriedVolumeBlock kA = carriedVolumeBlock k" "dropVolumeBlockTimer kA = dropVolumeBlockTimer k"
    "dropVolumeBlockMinTime kA = dropVolumeBlockMinTime k"
    "dropVolumeBlockMaxTime kA = dropVolumeBlockMaxTime k"
    "k_vx kA = k_vx k" "k_vy kA = k_vy k" "stuckTimer kA = stuckTimer k"
    "v_kidsRepelled vA = v_kidsRepelled v + 1" "v_rnd vA = v_rnd v"
    "v_cues vA = (if hasPlayedLaughSound k then v_cues v else v_cues v @ [LaughCue])"
    using startFleeing_frame [of ?k1 v] nf unfolding a by (simp_all split: if_splits)
  have u: "Kid_update dt (k, v) = keepInWorld (carryTimer dt (stuckCheck dt (kA, vA)))"
    by (simp only: Kid_update_unfold sm a)
  show "v_kidsRepelled (snd (Kid_update dt (k, v))) = v_kidsRepelled v + 1"
    unfolding u Kid_update_tail by (simp only: fa)
  show "k_state (fst (Kid_update dt (k, v))) =
         (if carriedVolumeBlock k \<noteq> None \<and>
            dropVolumeBlockTimer k + dt >
              dropVolumeBlockMinTime k +
              v_rnd v (if \<bar>k_vx k\<bar> < 0.1 \<and> \<bar>k_vy k\<bar> < 0.1 \<and> stuckTimer k + dt > 1 then 1 else 0)
                * (dropVolumeBlockMaxTime k - dropVolumeBlockMinTime k)
          then Wandering else Fleeing)"
    unfolding u Kid_update_tail by (simp only: fa)
  show "hasPlayedLaughSound (fst (Kid_update dt (k, v)))"
    unfolding u Kid_update_tail by (simp only: fa)
  show "v_cues (snd (Kid_update dt (k, v))) =
         (if hasPlayedLaughSound k then v_cues v else v_cues v @ [LaughCue])"
    unfolding u Kid_update_tail by (simp only: fa)
qed

lemma Kid_update_fleeing_counter:
  assumes "k_state k = Fleeing"
  shows "v_kidsRepelled (snd (Kid_update dt (k, v))) = v_kidsRepelled v"
proof -
  let ?k1 = "if volumeBlockStealCooldown k > 0
        then k\<lparr> volumeBlockStealCooldown := volumeBlockStealCooldown k - dt \<rparr> else k"
  have sm: "stateMachine dt (?k1, v) = updateFleeing dt (?k1, v)"
    using assms by (simp add: stateMachine_def)
  obtain kA vA where a: "updateFleeing dt (?k1, v) = (kA, vA)" by (cases "updateFleeing dt (?k1, v)")
  have "v_kidsRepelled vA = v_kidsRepelled v"
    using updateFleeing_counter [of dt ?k1 v] unfolding a by simp
  then show ?thesis
    by (simp only: Kid_update_unfold sm a Kid_update_tail)
qed

lemma Kid_update_leave_fleeing:
  assumes fl: "k_state k = Fleeing"
    and ex: "(\<exists>p. v_player v = Some p \<and> distToPlayer k p > playerDetectionRange k * 1.5) \<or>
             (v_player v = None \<and>
              (case fleeTimer k of None \<Rightarrow> 1 | Some t \<Rightarrow> if t = 0 then 1 else t) - dt \<le> 0)"
  shows "k_state (fst (Kid_update dt (k, v))) = Wandering \<and>
         \<not> hasPlayedLaughSound (fst (Kid_update dt (k, v)))"
proof -
  let ?k1 = "if volumeBlockStealCooldown k > 0
        then k\<lparr> volumeBlockStealCooldown := volumeBlockStealCooldown k - dt \<rparr> else k"
  have sm: "stateMachine dt (?k1, v) = updateFleeing dt (?k1, v)"
    using fl by (simp add: stateMachine_def)
  obtain kA vA where a: "updateFleeing dt (?k1, v) = (kA, vA)" by (cases "updateFleeing dt (?k1, v)")
  have d: "distToPlayer ?k1 p = distToPlayer k p" for p
    by (simp add: distToPlayer_def getDistanceTo_def kidCenterX_def kidCenterY_def)
  have fa: "k_state kA = Wandering \<and> \<not> hasPlayedLaughSound kA"
    using ex
  proof
    assume "\<exists>p. v_player v = Some p \<and> distToPlayer k p > playerDetectionRange k * 1.5"
    then obtain p where p: "v_player v = Some p" "distToPlayer ?k1 p > playerDetectionRange ?k1 * 1.5"
      using d by auto
    show ?thesis using updateFleeing_far [OF p, of dt] unfolding a by auto
  next
    assume h: "v_player v = None \<and>
              (case fleeTimer k of None \<Rightarrow> 1 | Some t \<Rightarrow> if t = 0 then 1 else t) - dt \<le> 0"
    then have t: "(case fleeTimer ?k1 of None \<Rightarrow> 1 | Some t \<Rightarrow> if t = 0 then 1 else t) - dt \<le> 0"
      by simp
    from h have n: "v_player v = None" by simp
    show ?thesis using updateFleeing_timeout [OF n t] unfolding a by simp
  qed
  show ?thesis
    by (simp only: Kid_update_unfold sm a Kid_update_tail) (simp add: fa)
qed

lemma demoKid_fields:
  "k_x demoKid = 100" "k_y demoKid = 100" "k_width demoKid = 48" "k_height demoKid = 60"
  "k_vx demoKid = 0" "k_vy demoKid = 0" "stuckTimer demoKid = 0" "k_state demoKid = Wandering"
  "playerDetectionRange demoKid = 120" "dropVolumeBlockMinTime demoKid = 4"
  "dropVolumeBlockMaxTime demoKid = 6" "carriedVolumeBlock demoKid = None"
  "dropVolumeBlockTimer demoKid = 0" "hasPlayedLaughSound demoKid = False"
  by (simp_all add: demoKid_def Kid_def Let_def)

lemma near_close: "playerIsClose demoKid nearView" "playerIsClose carrierKid nearView"
  by (simp_all add: playerIsClose_def nearView_def distToPlayer_def getDistanceTo_def
      kidCenterX_def kidCenterY_def playerCenterX_def playerCenterY_def demoPlayer_def
      carrierKid_def demoKid_fields)

lemma far_dist:
  "distToPlayer (demoKid\<lparr> k_state := Fleeing, hasPlayedLaughSound := True \<rparr>)
     (demoPlayer\<lparr> p_x := 108, p_y := 476 \<rparr>) = 370"
proof -
  have "sqrt ((370 :: real) * 370) = \<bar>370\<bar>" by (rule real_sqrt_abs2)
  then have "sqrt 136900 = (370 :: real)" by simp
  then show ?thesis
    by (simp add: distToPlayer_def getDistanceTo_def kidCenterX_def kidCenterY_def
        playerCenterX_def playerCenterY_def demoPlayer_def demoKid_fields Let_def)
qed

text \<open>
  Claim C8, as the claim states it, fails for a wandering kid that carries a block: with
  the player in detection range the update counts the kid as repelled and sets it Fleeing,
  but the carry timer (5 s carried, threshold 4.5 s) expires in the same update, the block
  is force-dropped, and the update ends with the kid Wandering, not Fleeing.
\<close>

theorem Kid_update_counterexample:
  "k_state carrierKid = Wandering \<and> playerIsClose carrierKid nearView \<and>
   k_state (fst (Kid_update (1 / 10) (carrierKid, nearView))) = Wandering \<and>
   k_state (fst (Kid_update (1 / 10) (carrierKid, nearView))) \<noteq> Fleeing \<and>
   v_kidsRepelled (snd (Kid_update (1 / 10) (carrierKid, nearView))) = v_kidsRepelled nearView + 1"
proof -
  have w: "k_state carrierKid = Wandering \<or>
     (k_state carrierKid = Stealing \<and> target carrierKid \<noteq> None \<and> carriedVolumeBlock carrierKid = None)"
    by (simp add: carrierKid_def demoKid_fields)
  have r: "v_rnd nearView n = 1 / 4" for n by (simp add: nearView_def)
  from Kid_update_repel(1,2) [OF near_close(2) w, of "1 / 10"] w
  show ?thesis
    by (simp add: near_close r) (simp add: carrierKid_def demoKid_fields)
qed

text \<open>
  Claim C8, amended. For every kid in Wandering, or in Stealing with a target and no
  carried block, whose distance to the player is below \<open>playerDetectionRange\<close>, the next
  update increments the repelled counter exactly once, sets the one-shot alert flag
  (playing the alert cue if the flag was not set) and leaves the kid Fleeing, unless the
  kid carries a block whose carry timer expires in that same update: then the block is
  force-dropped and the kid ends the update Wandering. No update of a kid that is already
  Fleeing changes the counter. When a Fleeing kid's distance to the player exceeds
  1.5 * \<open>playerDetectionRange\<close>, or there is no player and the flee timeout runs out, the
  update leaves the kid Wandering with the one-shot alert flag reset.
\<close>

theorem Kid_update_repelled:
  "(playerIsClose k v \<and>
    (k_state k = Wandering \<or>
     (k_state k = Stealing \<and> target k \<noteq> None \<and> carriedVolumeBlock k = None)) \<longrightarrow>
      v_kidsRepelled (snd (Kid_update dt (k, v))) = v_kidsRepelled v + 1 \<and>
      k_state (fst (Kid_update dt (k, v))) =
         (if carriedVolumeBlock k \<noteq> None \<and>
            dropVolumeBlockTimer k + dt >
              dropVolumeBlockMinTime k +
              v_rnd v (if \<bar>k_vx k\<bar> < 0.1 \<and> \<bar>k_vy k\<bar> < 0.1 \<and> stuckTimer k + dt > 1 then 1 else 0)
                * (dropVolumeBlockMaxTime k - dropVolumeBlockMinTime k)
          then Wandering else Fleeing) \<and>
      hasPlayedLaughSound (fst (Kid_update dt (k, v))) \<and>
      v_cues (snd (Kid_update dt (k, v))) =
         (if hasPlayedLaughSound k then v_cues v else v_cues v @ [LaughCue]))
   \<and> (k_state k = Fleeing \<longrightarrow>
        v_kidsRepelled (snd (Kid_update dt (k, v))) = v_kidsRepelled v)
   \<and> (k_state k = Fleeing \<and>
       ((\<exists>p. v_player v = Some p \<and> distToPlayer k p > playerDetectionRange k * 1.5) \<or>
        (v_player v = None \<and>
         (case fleeTimer k of None \<Rightarrow> 1 | Some t \<Rightarrow> if t = 0 then 1 else t) - dt \<le> 0)) \<longrightarrow>
        k_state (fst (Kid_update dt (k, v))) = Wandering \<and>
        \<not> hasPlayedLaughSound (fst (Kid_update dt (k, v))))"
  using Kid_update_repel [of k v dt] Kid_update_fleeing_counter [of k dt v]
    Kid_update_leave_fleeing [of k v dt]
  by blast

theorem Kid_update_repelled_witness:
  "playerIsClose demoKid nearView \<and> k_state demoKid = Wandering \<and>
   v_kidsRepelled (snd (Kid_update (1 / 10) (demoKid, nearView))) = 1 \<and>
   k_state (fst (Kid_update (1 / 10) (demoKid, nearView))) = Fleeing \<and>
   v_cues (snd (Kid_update (1 / 10) (demoKid, nearView))) = [LaughCue] \<and>
   k_state (demoKid\<lparr> k_state := Fleeing, hasPlayedLaughSound := True \<rparr>) = Fleeing \<and>
   (\<exists>p. v_player farView = Some p \<and>
      distToPlayer (demoKid\<lparr> k_state := Fleeing, hasPlayedLaughSound := True \<rparr>) p
        > playerDetectionRange (demoKid\<lparr> k_state := Fleeing, hasPlayedLaughSound := True \<rparr>) * 1.5) \<and>
   v_kidsRepelled (snd (Kid_update (1 / 10)
      (demoKid\<lparr> k_state := Fleeing, hasPlayedLaughSound := True \<rparr>, farView))) = 0 \<and>
   k_state (fst (Kid_update (1 / 10)
      (demoKid\<lparr> k_state := Fleeing, hasPlayedLaughSound := True \<rparr>, farView))) = Wandering \<and>
   \<not> hasPlayedLaughSound (fst (Kid_update (1 / 10)
      (demoKid\<lparr> k_state := Fleeing, hasPlayedLaughSound := True \<rparr>, farView)))"
proof -
  let ?f = "demoKid\<lparr> k_state := Fleeing, hasPlayedLaughSound := True \<rparr>"
  have far: "\<exists>p. v_player farView = Some p \<and> distToPlayer ?f p > playerDetectionRange ?f * 1.5"
    using far_dist by (simp add: farView_def demoKid_fields)
  have n: "v_kidsRepelled nearView = 0" "v_cues nearView = []" "v_kidsRepelled farView = 0"
    by (simp_all add: nearView_def farView_def)
  from Kid_update_repelled [of demoKid nearView "1 / 10"]
    Kid_update_repelled [of ?f farView "1 / 10"] far
  show ?thesis
    by (simp add: near_close demoKid_fields n)
qed

section \<open>The chaos level stays in range\<close>

lemma awardXP_frame:
  "chaosLevel (gameData (awardXP a w)) = chaosLevel (gameData w)"
  "maxChaos (gameData (awardXP a w)) = maxChaos (gameData w)"
  "kidsRepelled (gameData (awardXP a w)) = kidsRepelled (gameData w)"
  "kids (awardXP a w) = kids w"
  "ps_volumeBlocks (awardXP a w) = ps_volumeBlocks w"
  "shelves (awardXP a w) = shelves w"
  "cues (awardXP a w) = cues w"
  "rnd (awardXP a w) = rnd w"
  using levelUpLoop_frame [of "w\<lparr> gameData := (gameData w)\<lparr> xp := xp (gameData w) + multipliedAmount a w \<rparr>,
      particles := (case player w of None \<Rightarrow> particles w
                | Some p \<Rightarrow> particles w @
                    [\<lparr> pt_x = playerCenterX p, pt_y = p_y p - 10, pt_amount = multipliedAmount a w,
                       pt_vy = - 50, lifetime = 1.5, age = 0 \<rparr>]) \<rparr>"]
  by (simp_all add: awardXP_unfold)

lemma awardXP_player_some:
  "player w = Some p \<Longrightarrow> \<exists>p'. player (awardXP a w) = Some p' \<and>
      carriedVolumeBlocks p' = carriedVolumeBlocks p \<and> carrySlots (stats p') = carrySlots (stats p)"
proof -
  assume p: "player w = Some p"
  let ?w0 = "w\<lparr> gameData := (gameData w)\<lparr> xp := xp (gameData w) + multipliedAmount a w \<rparr>,
      particles := (case player w of None \<Rightarrow> particles w
                | Some p \<Rightarrow> particles w @
                    [\<lparr> pt_x = playerCenterX p, pt_y = p_y p - 10, pt_amount = multipliedAmount a w,
                       pt_vy = - 50, lifetime = 1.5, age = 0 \<rparr>]) \<rparr>"
  have "levelUpLoop ?w0 = ?w0 \<or>
     player (levelUpLoop ?w0) = map_option (\<lambda>p. p\<lparr> stats := (stats p)\<lparr> stamina := maxStamina (stats p) \<rparr> \<rparr>) (player ?w0)"
    using levelUpLoop_main [of ?w0] by (cases "xp (gameData ?w0) < xpToNext (gameData ?w0)") auto
  then show ?thesis using p by (auto simp: awardXP_unfold)
qed

lemma fold_inv:
  assumes "\<And>x s. P s \<Longrightarrow> P (f x s)" and "P s"
  shows "P (fold f xs s)"
  using assms(2) by (induction xs arbitrary: s) (simp_all add: assms(1))

lemma pickupStep_chaos:
  assumes "chaosInRange w"
  shows "chaosInRange (pickupStep r x y bi w)"
  using assms
  by (auto simp: pickupStep_def Let_def chaosInRange_def playPickupSound_def awardXP_frame
      split: option.splits prod.splits bool.splits)

lemma snatchStep_chaos:
  assumes "chaosInRange w"
  shows "chaosInRange (snatchStep r x y ki w)"
  using assms
  by (auto simp: snatchStep_def Let_def chaosInRange_def playPickupSound_def awardXP_frame
      split: option.splits prod.splits bool.splits)

lemma shelvingStep_chaos:
  assumes "chaosInRange w"
  shows "chaosInRange (shelvingStep r si w)"
  using assms
  by (auto simp: shelvingStep_def Let_def chaosInRange_def playShelfSound_def awardXP_frame
      split: option.splits prod.splits bool.splits)

lemma resolveInteractions_chaos:
  assumes "chaosInRange w"
  shows "chaosInRange (resolveInteractions dt w)"
proof -
  have 1: "chaosInRange (checkVolumeBlockPickup w)"
    using assms by (auto simp: checkVolumeBlockPickup_def split: option.splits
        intro: fold_inv pickupStep_chaos)
  have 2: "chaosInRange (checkVolumeBlockSnatching (checkVolumeBlockPickup w))"
    using 1 by (auto simp: checkVolumeBlockSnatching_def split: option.splits
        intro: fold_inv snatchStep_chaos)
  have 3: "chaosInRange (checkVolumeBlockShelving (checkVolumeBlockSnatching (checkVolumeBlockPickup w)))"
    using 2 by (auto simp: checkVolumeBlockShelving_def split: option.splits
        intro: fold_inv shelvingStep_chaos)
  then show ?thesis
    by (simp add: resolveInteractions_def Let_def chaosInRange_def updateParticles_def)
qed

lemma kidStep_gameData:
  "chaosLevel (gameData (kidStep dt ki w)) = chaosLevel (gameData w) \<and>
   maxChaos (gameData (kidStep dt ki w)) = maxChaos (gameData w)"
  by (simp add: kidStep_def split: prod.splits)

lemma updateEntities_chaos:
  "chaosInRange w \<Longrightarrow> chaosInRange (updateEntities pu dt w)"
proof -
  assume a: "chaosInRange w"
  have s: "chaosInRange s \<Longrightarrow> chaosInRange (kidStep dt ki s)" for ki s
    using kidStep_gameData [of dt ki s] by (simp add: chaosInRange_def)
  show ?thesis
    unfolding updateEntities_def Let_def
    by (rule fold_inv) (use a s in \<open>simp_all add: chaosInRange_def\<close>)
qed

lemma updateKidSpawning_gameData:
  "updateKidSpawning dt w = Some w' \<Longrightarrow> gameData w' = gameData w"
  by (cases "waveMaxKids (elapsedTime (gameData w) / 60) > maxKids w")
     (auto simp: updateKidSpawning_def Let_def split: if_splits prod.splits)

lemma updateChaos_range:
  "0 \<le> maxChaos (gameData w) \<Longrightarrow> chaosInRange (updateChaos dt w)"
  by (simp add: updateChaos_def Let_def chaosInRange_def)

lemma updateChaos_maxChaos:
  "maxChaos (gameData (updateChaos dt w)) = maxChaos (gameData w)"
  by (simp add: updateChaos_def Let_def)


lemma updateKidSpawning_total:
  assumes "0 \<le> rnd w 0" "rnd w 0 < 1"
  shows "\<exists>w'. updateKidSpawning dt w = Some w'"
proof (cases "int (length (kids w)) < max (maxKids w) (waveMaxKids (elapsedTime (gameData w) / 60))
      \<and> kidSpawnTimer w - dt \<le> 0")
  case True
  then show ?thesis using updateKidSpawning_spawn [OF assms, of dt] by blast
next
  case False
  then show ?thesis using updateKidSpawning_nospawn [of w dt] by blast
qed

lemma update_cases:
  assumes "update pausePressed Player_update deltaTime w = Some w'"
  shows "(pausePressed \<or> isPaused (gameData w) \<or>
          elapsedTime (gameData w) + deltaTime \<ge> targetTime (gameData w)) \<and>
         chaosLevel (gameData w') = chaosLevel (gameData w) \<and>
         maxChaos (gameData w') = maxChaos (gameData w)
       \<or> \<not> pausePressed \<and> \<not> isPaused (gameData w) \<and>
          elapsedTime (gameData w) + deltaTime < targetTime (gameData w) \<and>
          (w' = (updateChaos deltaTime (w\<lparr> gameData := (gameData w)
                   \<lparr> elapsedTime := elapsedTime (gameData w) + deltaTime \<rparr> \<rparr>))
                 \<lparr> requests := requests w @ [GameOverChaos] \<rparr>
           \<or> (\<exists>w4. updateKidSpawning deltaTime
                       (updateEntities Player_update deltaTime
                          (updateChaos deltaTime (w\<lparr> gameData := (gameData w)
                             \<lparr> elapsedTime := elapsedTime (gameData w) + deltaTime \<rparr> \<rparr>))) = Some w4 \<and>
                     w' = resolveInteractions deltaTime w4))"
proof -
  have rq: "requests (updateChaos deltaTime x) = requests x" for x
    by (simp add: updateChaos_def Let_def)
  show ?thesis
    using assms
    by (auto simp: update_def Let_def rq split: if_splits option.splits)
qed

text \<open>
  Claim C7. A tick of \<open>PlayingState.update\<close> that returns keeps the chaos level in
  [0, maxChaos] when it was there before; and a complete tick (no pause, target time not
  reached), in which the chaos accrual or decay is followed by the pickup, snatch and
  shelve steps that each subtract their flat reward, ends with the chaos level in
  [0, maxChaos] whatever it was before, as long as maxChaos is not negative.
\<close>

theorem update_chaos_in_range:
  assumes "update pausePressed Player_update deltaTime w = Some w'"
  shows "(0 \<le> chaosLevel (gameData w) \<and> chaosLevel (gameData w) \<le> maxChaos (gameData w) \<longrightarrow>
            0 \<le> chaosLevel (gameData w') \<and> chaosLevel (gameData w') \<le> maxChaos (gameData w'))
       \<and> (0 \<le> maxChaos (gameData w) \<and> \<not> pausePressed \<and> \<not> isPaused (gameData w) \<and>
          elapsedTime (gameData w) + deltaTime < targetTime (gameData w) \<longrightarrow>
            0 \<le> chaosLevel (gameData w') \<and> chaosLevel (gameData w') \<le> maxChaos (gameData w'))"
proof -
  have complete: "chaosInRange w'"
    if m: "0 \<le> maxChaos (gameData w)" and c: "\<not> pausePressed" "\<not> isPaused (gameData w)"
      "elapsedTime (gameData w) + deltaTime < targetTime (gameData w)"
  proof -
    define w1 where "w1 = w\<lparr> gameData := (gameData w)
                   \<lparr> elapsedTime := elapsedTime (gameData w) + deltaTime \<rparr> \<rparr>"
    have w1: "maxChaos (gameData w1) = maxChaos (gameData w)" by (simp add: w1_def)
    from update_cases [OF assms] c
    have r: "w' = (updateChaos deltaTime w1)\<lparr> requests := requests w @ [GameOverChaos] \<rparr>
              \<or> (\<exists>w4. updateKidSpawning deltaTime
                          (updateEntities Player_update deltaTime (updateChaos deltaTime w1)) = Some w4 \<and>
                        w' = resolveInteractions deltaTime w4)"
      unfolding w1_def by auto
    have u: "chaosInRange (updateChaos deltaTime w1)"
      using m w1 by (simp add: updateChaos_range)
    from r show ?thesis
    proof
      assume "w' = (updateChaos deltaTime w1)\<lparr> requests := requests w @ [GameOverChaos] \<rparr>"
      with u show ?thesis by (simp add: chaosInRange_def)
    next
      assume "\<exists>w4. updateKidSpawning deltaTime
                          (updateEntities Player_update deltaTime (updateChaos deltaTime w1)) = Some w4 \<and>
                        w' = resolveInteractions deltaTime w4"
      then obtain w4 where k: "updateKidSpawning deltaTime
             (updateEntities Player_update deltaTime (updateChaos deltaTime w1)) = Some w4"
        and e: "w' = resolveInteractions deltaTime w4" by blast
      have "chaosInRange (updateEntities Player_update deltaTime (updateChaos deltaTime w1))"
        using u by (rule updateEntities_chaos)
      then have "chaosInRange w4"
        using updateKidSpawning_gameData [OF k] by (simp add: chaosInRange_def)
      then show ?thesis unfolding e by (rule resolveInteractions_chaos)
    qed
  qed
  have inv: "chaosInRange w'" if i: "chaosInRange w"
  proof (cases "\<not> pausePressed \<and> \<not> isPaused (gameData w) \<and>
          elapsedTime (gameData w) + deltaTime < targetTime (gameData w)")
    case True
    moreover from i have "0 \<le> maxChaos (gameData w)" by (simp add: chaosInRange_def)
    ultimately show ?thesis using complete by blast
  next
    case False
    with update_cases [OF assms] i show ?thesis by (auto simp: chaosInRange_def)
  qed
  from complete inv show ?thesis by (auto simp: chaosInRange_def)
qed

theorem update_chaos_in_range_witness:
  "0 \<le> chaosLevel (gameData chaosState) \<and>
   chaosLevel (gameData chaosState) \<le> maxChaos (gameData chaosState) \<and>
   0 \<le> maxChaos (gameData chaosState) \<and> \<not> isPaused (gameData chaosState) \<and>
   elapsedTime (gameData chaosState) + 1 / 10 < targetTime (gameData chaosState) \<and>
   (\<exists>w'. update False (\<lambda>dt p. p) (1 / 10) chaosState = Some w' \<and>
      0 \<le> chaosLevel (gameData w') \<and> chaosLevel (gameData w') \<le> maxChaos (gameData w'))"
proof -
  let ?w1 = "chaosState\<lparr> gameData := (gameData chaosState)
      \<lparr> elapsedTime := elapsedTime (gameData chaosState) + 1 / 10 \<rparr> \<rparr>"
  let ?w3 = "updateEntities (\<lambda>dt p. p) (1 / 10) (updateChaos (1 / 10) ?w1)"
  have f: "0 \<le> chaosLevel (gameData chaosState)"
    "chaosLevel (gameData chaosState) \<le> maxChaos (gameData chaosState)"
    "0 \<le> maxChaos (gameData chaosState)" "\<not> isPaused (gameData chaosState)"
    "elapsedTime (gameData chaosState) + 1 / 10 < targetTime (gameData chaosState)"
    by (simp_all add: chaosState_def chaosGameData_def)
  have r: "rnd ?w3 0 = 1 / 4"
    by (simp add: updateEntities_def updateChaos_def Let_def chaosState_def)
  have nl: "\<not> chaosLevel (gameData (updateChaos (1 / 10) ?w1)) \<ge> maxChaos (gameData (updateChaos (1 / 10) ?w1))"
    by (simp add: updateChaos_def Let_def chaosState_def chaosGameData_def
        totalChaosVolumeBlocks_def redBlock_def heldByKid_def chaosPerVolumeBlock_def)
  obtain w4 where w4: "updateKidSpawning (1 / 10) ?w3 = Some w4"
    using updateKidSpawning_total [of ?w3 "1 / 10"] r by auto
  have u: "update False (\<lambda>dt p. p) (1 / 10) chaosState = Some (resolveInteractions (1 / 10) w4)"
    using f(4,5) nl w4 by (simp add: update_def Let_def)
  from update_chaos_in_range [OF u] f u show ?thesis by simp
qed

section \<open>Snatching a block from a kid\<close>

lemma snatchStep_success:
  assumes p: "player w = Some p" and ki: "ki < length (kids w)"
    and c: "carriedVolumeBlock (kids w ! ki) = Some bi"
    and d: "sqrt ((kidCenterX (kids w ! ki) - pcx)\<^sup>2 + (kidCenterY (kids w ! ki) - pcy)\<^sup>2) \<le> r"
    and free: "int (length (carriedVolumeBlocks p)) < carrySlots (stats p)"
  shows "kids (snatchStep r pcx pcy ki w) =
           (kids w)[ki := (kids w ! ki)\<lparr> carriedVolumeBlock := None, dropVolumeBlockTimer := 0,
                                         k_state := Fleeing \<rparr>]"
    and "ps_volumeBlocks (snatchStep r pcx pcy ki w) =
           (ps_volumeBlocks w)[bi := pickup PlayerRef (ps_volumeBlocks w ! bi)]"
    and "\<exists>p'. player (snatchStep r pcx pcy ki w) = Some p' \<and>
              carriedVolumeBlocks p' = carriedVolumeBlocks p @ [bi] \<and>
              carrySlots (stats p') = carrySlots (stats p)"
    and "kidsRepelled (gameData (snatchStep r pcx pcy ki w)) = kidsRepelled (gameData w)"
    and "cues (snatchStep r pcx pcy ki w) = cues w @ [PickupCue]"
    and "chaosLevel (gameData (snatchStep r pcx pcy ki w)) = max 0 (chaosLevel (gameData w) - 0.75)"
proof -
  let ?kid1 = "(kids w ! ki)\<lparr> carriedVolumeBlock := None, dropVolumeBlockTimer := 0 \<rparr>"
  let ?w2 = "w\<lparr> player := Some (p\<lparr> carriedVolumeBlocks := carriedVolumeBlocks p @ [bi] \<rparr>),
        ps_volumeBlocks := (ps_volumeBlocks w)[bi := pickup PlayerRef (ps_volumeBlocks w ! bi)],
        kids := (kids w)[ki := ?kid1\<lparr> k_state := Fleeing \<rparr>],
        gameData := (gameData w)\<lparr> volumeBlocksCollected := volumeBlocksCollected (gameData w) + 1,
                       chaosLevel := max 0 (chaosLevel (gameData w) - 0.75) \<rparr> \<rparr>"
  have e: "snatchStep r pcx pcy ki w = playPickupSound (awardXP 7 ?w2)"
    using p c d free by (simp add: snatchStep_def Let_def pickupVolumeBlock_def)
  show "kids (snatchStep r pcx pcy ki w) =
           (kids w)[ki := (kids w ! ki)\<lparr> carriedVolumeBlock := None, dropVolumeBlockTimer := 0,
                                         k_state := Fleeing \<rparr>]"
    by (simp add: e playPickupSound_def awardXP_frame)
  show "ps_volumeBlocks (snatchStep r pcx pcy ki w) =
           (ps_volumeBlocks w)[bi := pickup PlayerRef (ps_volumeBlocks w ! bi)]"
    by (simp add: e playPickupSound_def awardXP_frame)
  show "\<exists>p'. player (snatchStep r pcx pcy ki w) = Some p' \<and>
              carriedVolumeBlocks p' = carriedVolumeBlocks p @ [bi] \<and>
              carrySlots (stats p') = carrySlots (stats p)"
    using awardXP_player_some [of ?w2 "p\<lparr> carriedVolumeBlocks := carriedVolumeBlocks p @ [bi] \<rparr>" 7]
    by (simp add: e playPickupSound_def)
  show "kidsRepelled (gameData (snatchStep r pcx pcy ki w)) = kidsRepelled (gameData w)"
    by (simp add: e playPickupSound_def awardXP_frame)
  show "cues (snatchStep r pcx pcy ki w) = cues w @ [PickupCue]"
    by (simp add: e playPickupSound_def awardXP_frame)
  show "chaosLevel (gameData (snatchStep r pcx pcy ki w)) = max 0 (chaosLevel (gameData w) - 0.75)"
    by (simp add: e playPickupSound_def awardXP_frame)
qed

lemma snatchStep_full:
  assumes p: "player w = Some p"
    and c: "carriedVolumeBlock (kids w ! ki) = Some bi"
    and d: "sqrt ((kidCenterX (kids w ! ki) - pcx)\<^sup>2 + (kidCenterY (kids w ! ki) - pcy)\<^sup>2) \<le> r"
    and full: "\<not> int (length (carriedVolumeBlocks p)) < carrySlots (stats p)"
  shows "snatchStep r pcx pcy ki w =
           w\<lparr> kids := (kids w)[ki := (kids w ! ki)\<lparr> carriedVolumeBlock := None,
                                                   dropVolumeBlockTimer := 0 \<rparr>],
              player := Some p \<rparr>"
  using p c d full by (simp add: snatchStep_def Let_def pickupVolumeBlock_def)

lemma snatchStep_skip:
  assumes "carriedVolumeBlock (kids w ! ki) = None \<or>
     \<not> sqrt ((kidCenterX (kids w ! ki) - pcx)\<^sup>2 + (kidCenterY (kids w ! ki) - pcy)\<^sup>2) \<le> r"
  shows "snatchStep r pcx pcy ki w = w"
  using assms by (auto simp: snatchStep_def Let_def split: option.splits)

lemma nth_list_update_same:
  assumes "\<And>y. f (g y) = f y"
  shows "f (xs[k := g (xs ! k)] ! i) = f (xs ! i)"
proof (cases "k < length xs")
  case True
  then show ?thesis using assms by (cases "i = k") simp_all
next
  case False
  then show ?thesis by (simp add: list_update_beyond)
qed

lemma snatchStep_kids:
  "kids (snatchStep r pcx pcy ki w) = kids w \<or>
   kids (snatchStep r pcx pcy ki w) =
     (kids w)[ki := (\<lambda>k. k\<lparr> carriedVolumeBlock := None, dropVolumeBlockTimer := 0 \<rparr>) (kids w ! ki)] \<or>
   kids (snatchStep r pcx pcy ki w) =
     (kids w)[ki := (\<lambda>k. k\<lparr> carriedVolumeBlock := None, dropVolumeBlockTimer := 0,
                             k_state := Fleeing \<rparr>) (kids w ! ki)]"
  by (auto simp: snatchStep_def Let_def playPickupSound_def awardXP_frame
      split: option.splits prod.splits bool.splits)

lemma snatchStep_frame:
  "kidsRepelled (gameData (snatchStep r pcx pcy ki w)) = kidsRepelled (gameData w)"
  "cues (snatchStep r pcx pcy ki w) = cues w \<or> cues (snatchStep r pcx pcy ki w) = cues w @ [PickupCue]"
  by (auto simp: snatchStep_def Let_def playPickupSound_def awardXP_frame
      split: option.splits prod.splits bool.splits)

lemma snatchStep_kid_frame:
  "length (kids (snatchStep r pcx pcy ki w)) = length (kids w)"
  "hasPlayedLaughSound (kids (snatchStep r pcx pcy ki w) ! i) = hasPlayedLaughSound (kids w ! i)"
  "k_state (kids (snatchStep r pcx pcy ki w) ! i) = k_state (kids w ! i) \<or>
   k_state (kids (snatchStep r pcx pcy ki w) ! i) = Fleeing"
proof -
  note K = snatchStep_kids [of r pcx pcy ki w]
  show "length (kids (snatchStep r pcx pcy ki w)) = length (kids w)"
    using K by auto
  show "hasPlayedLaughSound (kids (snatchStep r pcx pcy ki w) ! i) = hasPlayedLaughSound (kids w ! i)"
    using K
      nth_list_update_same [of hasPlayedLaughSound
        "\<lambda>k. k\<lparr> carriedVolumeBlock := None, dropVolumeBlockTimer := 0 \<rparr>" "kids w" ki i]
      nth_list_update_same [of hasPlayedLaughSound
        "\<lambda>k. k\<lparr> carriedVolumeBlock := None, dropVolumeBlockTimer := 0, k_state := Fleeing \<rparr>"
        "kids w" ki i]
    by auto
  show "k_state (kids (snatchStep r pcx pcy ki w) ! i) = k_state (kids w ! i) \<or>
   k_state (kids (snatchStep r pcx pcy ki w) ! i) = Fleeing"
  proof (cases "ki < length (kids w) \<and> i = ki")
    case True
    then show ?thesis using K by auto
  next
    case False
    then have "xs = kids w \<Longrightarrow> xs[ki := x] ! i = kids w ! i" for xs x
      by (cases "ki < length (kids w)") (auto simp: list_update_beyond)
    then show ?thesis using K by metis
  qed
qed


lemma checkVolumeBlockSnatching_inv:
  "kidsRepelled (gameData (checkVolumeBlockSnatching w)) = kidsRepelled (gameData w) \<and>
   length (kids (checkVolumeBlockSnatching w)) = length (kids w) \<and>
   (\<forall>i. hasPlayedLaughSound (kids (checkVolumeBlockSnatching w) ! i) = hasPlayedLaughSound (kids w ! i) \<and>
        (k_state (kids (checkVolumeBlockSnatching w) ! i) = k_state (kids w ! i) \<or>
         k_state (kids (checkVolumeBlockSnatching w) ! i) = Fleeing)) \<and>
   (\<exists>added. cues (checkVolumeBlockSnatching w) = cues w @ added \<and> LaughCue \<notin> set added)"
proof -
  let ?P = "\<lambda>s. kidsRepelled (gameData s) = kidsRepelled (gameData w) \<and>
     length (kids s) = length (kids w) \<and>
     (\<forall>i. hasPlayedLaughSound (kids s ! i) = hasPlayedLaughSound (kids w ! i) \<and>
        (k_state (kids s ! i) = k_state (kids w ! i) \<or> k_state (kids s ! i) = Fleeing)) \<and>
     (\<exists>added. cues s = cues w @ added \<and> LaughCue \<notin> set added)"
  have step: "?P (snatchStep r x y ki s)" if a: "?P s" for r x y ki s
  proof -
    from a obtain added where ad: "cues s = cues w @ added" "LaughCue \<notin> set added" by blast
    have c: "\<exists>added. cues (snatchStep r x y ki s) = cues w @ added \<and> LaughCue \<notin> set added"
      using snatchStep_frame(2) [of r x y ki s]
    proof
      assume "cues (snatchStep r x y ki s) = cues s"
      with ad show ?thesis by auto
    next
      assume "cues (snatchStep r x y ki s) = cues s @ [PickupCue]"
      with ad have "cues (snatchStep r x y ki s) = cues w @ (added @ [PickupCue]) \<and>
          LaughCue \<notin> set (added @ [PickupCue])" by simp
      then show ?thesis by blast
    qed
    have k: "hasPlayedLaughSound (kids (snatchStep r x y ki s) ! i) = hasPlayedLaughSound (kids w ! i) \<and>
        (k_state (kids (snatchStep r x y ki s) ! i) = k_state (kids w ! i) \<or>
         k_state (kids (snatchStep r x y ki s) ! i) = Fleeing)" for i
      using a snatchStep_kid_frame(2,3) [of r x y ki s i] by metis
    show ?thesis
      using a c k by (simp add: snatchStep_frame(1) snatchStep_kid_frame(1))
  qed
  have base: "?P w" by simp
  show ?thesis
  proof (cases "player w")
    case None
    then show ?thesis by (simp add: checkVolumeBlockSnatching_def)
  next
    case (Some p)
    show ?thesis
    proof (cases "int (length (carriedVolumeBlocks p)) \<ge> carrySlots (stats p)")
      case True
      with Some show ?thesis by (simp add: checkVolumeBlockSnatching_def)
    next
      case False
      have "?P (fold (snatchStep (repelRadius p) (playerCenterX p) (playerCenterY p))
                 [0 ..< length (kids w)] w)"
        by (rule fold_inv [where P = ?P]) (use step base in blast)+
      with Some False show ?thesis by (simp add: checkVolumeBlockSnatching_def)
    qed
  qed
qed

text \<open>
  Claim C10. \<open>checkVolumeBlockSnatching\<close> leaves the \<open>kidsRepelled\<close> counter unchanged,
  leaves every kid's one-shot alert flag as it was, plays no alert cue, and changes a kid's
  state only to Fleeing. A snatch that succeeds (the kid carries a block, is within the
  snatch radius, and the player has a free carry slot) clears the kid's carried block and
  carry timer and assigns Fleeing to it directly, with the counter unchanged and only the
  pickup cue played.
\<close>

theorem checkVolumeBlockSnatching_kidsRepelled:
  "kidsRepelled (gameData (checkVolumeBlockSnatching w)) = kidsRepelled (gameData w)
   \<and> length (kids (checkVolumeBlockSnatching w)) = length (kids w)
   \<and> (\<forall>i. hasPlayedLaughSound (kids (checkVolumeBlockSnatching w) ! i)
             = hasPlayedLaughSound (kids w ! i) \<and>
           (k_state (kids (checkVolumeBlockSnatching w) ! i) = k_state (kids w ! i) \<or>
            k_state (kids (checkVolumeBlockSnatching w) ! i) = Fleeing))
   \<and> (\<exists>added. cues (checkVolumeBlockSnatching w) = cues w @ added \<and> LaughCue \<notin> set added)
   \<and> (player w = Some p \<and> ki < length (kids w) \<and>
       carriedVolumeBlock (kids w ! ki) = Some bi \<and>
       sqrt ((kidCenterX (kids w ! ki) - pcx)\<^sup>2 + (kidCenterY (kids w ! ki) - pcy)\<^sup>2) \<le> r \<and>
       int (length (carriedVolumeBlocks p)) < carrySlots (stats p) \<longrightarrow>
         kids (snatchStep r pcx pcy ki w) =
           (kids w)[ki := (kids w ! ki)\<lparr> carriedVolumeBlock := None, dropVolumeBlockTimer := 0,
                                         k_state := Fleeing \<rparr>] \<and>
         kidsRepelled (gameData (snatchStep r pcx pcy ki w)) = kidsRepelled (gameData w) \<and>
         cues (snatchStep r pcx pcy ki w) = cues w @ [PickupCue])"
  using checkVolumeBlockSnatching_inv [of w] snatchStep_success(1,4,5) [of w p ki bi pcx pcy r]
  by blast

lemma snatchState_facts:
  "player snatchState = Some (demoPlayer\<lparr> p_x := 108, p_y := 106 \<rparr>)"
  "length (kids snatchState) = 2"
  "kids snatchState ! 0 = carrierKid"
  "kids snatchState ! 1 = carrierKid\<lparr> k_ref := 1, carriedVolumeBlock := Some 1 \<rparr>"
  "ps_volumeBlocks snatchState ! 1 = redBlock\<lparr> isHeld := True, holder := Some (KidRef 1) \<rparr>"
  "length (ps_volumeBlocks snatchState) = 2"
  "kidsRepelled (gameData snatchState) = 0" "cues snatchState = []"
  "repelRadius (demoPlayer\<lparr> p_x := 108, p_y := 106 \<rparr>) = 64"
  "playerCenterX (demoPlayer\<lparr> p_x := 108, p_y := 106 \<rparr>) = 124"
  "playerCenterY (demoPlayer\<lparr> p_x := 108, p_y := 106 \<rparr>) = 130"
  "carriedVolumeBlocks (demoPlayer\<lparr> p_x := 108, p_y := 106 \<rparr>) = []"
  "carrySlots (stats (demoPlayer\<lparr> p_x := 108, p_y := 106 \<rparr>)) = 1"
  "carrySlots (stats demoPlayer) = 1" "carriedVolumeBlocks demoPlayer = []"
  "repelRadius demoPlayer = 64"
  by (simp_all add: snatchState_def chaosState_def chaosGameData_def demoPlayer_def
      playerCenterX_def playerCenterY_def)

lemma carrierKid_facts:
  "carriedVolumeBlock carrierKid = Some 0" "kidCenterX carrierKid = 124" "kidCenterY carrierKid = 130"
  "k_state carrierKid = Wandering"
  "kidCenterX (carrierKid\<lparr> k_ref := 1, carriedVolumeBlock := Some 1 \<rparr>) = 124"
  "kidCenterY (carrierKid\<lparr> k_ref := 1, carriedVolumeBlock := Some 1 \<rparr>) = 130"
  by (simp_all add: carrierKid_def kidCenterX_def kidCenterY_def demoKid_fields)

theorem checkVolumeBlockSnatching_kidsRepelled_witness:
  "player snatchState = Some (demoPlayer\<lparr> p_x := 108, p_y := 106 \<rparr>) \<and>
   0 < length (kids snatchState) \<and> carriedVolumeBlock (kids snatchState ! 0) = Some 0 \<and>
   sqrt ((kidCenterX (kids snatchState ! 0) - 124)\<^sup>2 + (kidCenterY (kids snatchState ! 0) - 130)\<^sup>2) \<le> 64 \<and>
   int (length (carriedVolumeBlocks (demoPlayer\<lparr> p_x := 108, p_y := 106 \<rparr>)))
     < carrySlots (stats (demoPlayer\<lparr> p_x := 108, p_y := 106 \<rparr>)) \<and>
   k_state (kids (snatchStep 64 124 130 0 snatchState) ! 0) = Fleeing \<and>
   kidsRepelled (gameData (snatchStep 64 124 130 0 snatchState)) = 0 \<and>
   cues (snatchStep 64 124 130 0 snatchState) = [PickupCue] \<and>
   kidsRepelled (gameData (checkVolumeBlockSnatching snatchState)) = 0"
proof -
  have h: "player snatchState = Some (demoPlayer\<lparr> p_x := 108, p_y := 106 \<rparr>) \<and>
     0 < length (kids snatchState) \<and> carriedVolumeBlock (kids snatchState ! 0) = Some 0 \<and>
     sqrt ((kidCenterX (kids snatchState ! 0) - 124)\<^sup>2 + (kidCenterY (kids snatchState ! 0) - 130)\<^sup>2) \<le> 64 \<and>
     int (length (carriedVolumeBlocks (demoPlayer\<lparr> p_x := 108, p_y := 106 \<rparr>)))
       < carrySlots (stats (demoPlayer\<lparr> p_x := 108, p_y := 106 \<rparr>))"
    by (simp add: snatchState_facts carrierKid_facts)
  from checkVolumeBlockSnatching_kidsRepelled [of snatchState "demoPlayer\<lparr> p_x := 108, p_y := 106 \<rparr>"
      0 0 124 130 64] h
  show ?thesis by (simp add: snatchState_facts)
qed

text \<open>
  Claim C4 fails on the code. The player has one free carry slot and two kids, each
  carrying a block, stand within the snatch radius. The first snatch fills the slot. For
  the second kid the step clears the kid's reference to its block and its carry timer
  before asking the player, who refuses: the kid stays Wandering, the player does not hold
  the block, and the block is left marked Held with holder = the second kid, which no
  longer refers to it.
\<close>

theorem checkVolumeBlockSnatching_orphan:
  "carriedVolumeBlock (kids snatchState ! 1) = Some 1 \<and>
   isHeld (ps_volumeBlocks snatchState ! 1) \<and>
   holder (ps_volumeBlocks snatchState ! 1) = Some (KidRef 1) \<and>
   carriedVolumeBlock (kids (checkVolumeBlockSnatching snatchState) ! 1) = None \<and>
   k_state (kids (checkVolumeBlockSnatching snatchState) ! 1) = Wandering \<and>
   isHeld (ps_volumeBlocks (checkVolumeBlockSnatching snatchState) ! 1) \<and>
   holder (ps_volumeBlocks (checkVolumeBlockSnatching snatchState) ! 1) = Some (KidRef 1) \<and>
   (\<exists>p'. player (checkVolumeBlockSnatching snatchState) = Some p' \<and> carriedVolumeBlocks p' = [0])"
proof -
  let ?p = "demoPlayer\<lparr> p_x := 108, p_y := 106 \<rparr>"
  let ?w1 = "snatchStep 64 124 130 0 snatchState"
  have e: "checkVolumeBlockSnatching snatchState = snatchStep 64 124 130 1 ?w1"
    by (simp add: checkVolumeBlockSnatching_def snatchState_facts upt_rec)
  have d0: "sqrt ((kidCenterX (kids snatchState ! 0) - 124)\<^sup>2 +
        (kidCenterY (kids snatchState ! 0) - 130)\<^sup>2) \<le> 64"
    by (simp add: snatchState_facts carrierKid_facts)
  have c0: "carriedVolumeBlock (kids snatchState ! 0) = Some 0"
    by (simp add: snatchState_facts carrierKid_facts)
  have l0: "0 < length (kids snatchState)" by (simp add: snatchState_facts)
  have f0: "int (length (carriedVolumeBlocks ?p)) < carrySlots (stats ?p)"
    by (simp add: snatchState_facts)
  note S = snatchStep_success [OF snatchState_facts(1) l0 c0 d0 f0]
  from S(3) obtain p' where p': "player ?w1 = Some p'" "carriedVolumeBlocks p' = [0]"
    "carrySlots (stats p') = 1"
    by (auto simp: snatchState_facts)
  have k1: "kids ?w1 ! 1 = carrierKid\<lparr> k_ref := 1, carriedVolumeBlock := Some 1 \<rparr>"
    unfolding S(1) using snatchState_facts(4) by simp
  have b1: "ps_volumeBlocks ?w1 ! 1 = redBlock\<lparr> isHeld := True, holder := Some (KidRef 1) \<rparr>"
    unfolding S(2) using snatchState_facts(5) by simp
  have lk: "length (kids ?w1) = 2" unfolding S(1) by (simp add: snatchState_facts)
  have c1: "carriedVolumeBlock (kids ?w1 ! 1) = Some 1" using k1 by simp
  have d1: "sqrt ((kidCenterX (kids ?w1 ! 1) - 124)\<^sup>2 + (kidCenterY (kids ?w1 ! 1) - 130)\<^sup>2) \<le> 64"
    using k1 carrierKid_facts by simp
  have full: "\<not> int (length (carriedVolumeBlocks p')) < carrySlots (stats p')"
    by (simp add: p')
  note F = snatchStep_full [OF p'(1) c1 d1 full]
  have r1: "kids (checkVolumeBlockSnatching snatchState) ! 1 =
      (carrierKid\<lparr> k_ref := 1, carriedVolumeBlock := Some 1 \<rparr>)
        \<lparr> carriedVolumeBlock := None, dropVolumeBlockTimer := 0 \<rparr>"
    unfolding e F using lk k1 by simp
  have r2: "ps_volumeBlocks (checkVolumeBlockSnatching snatchState) ! 1 =
      redBlock\<lparr> isHeld := True, holder := Some (KidRef 1) \<rparr>"
    unfolding e F using b1 by simp
  have r3: "player (checkVolumeBlockSnatching snatchState) = Some p'"
    unfolding e F by simp
  show ?thesis
    using r1 r2 r3 p' snatchState_facts carrierKid_facts by simp
qed

text \<open>
  Claim C5. With the next random value r in [0, 1), a tick of \<open>updateKidSpawning\<close> returns
  and leaves the cap at the larger of the old cap and the step function of the elapsed
  minutes (3, 5 from minute 1, 7 from minute 3, 10 from minute 5, then 10 plus 2 per whole
  minute past 10), so the cap never decreases; a rising cap starts the notification and
  by itself spawns nothing. A kid is spawned exactly when the number of kids is below that
  cap and the spawn timer, decremented by the tick, has run out. A spawn appends exactly
  the kid that the constructor makes at spawn point floor(r * 8) of the eight spawn
  points, each of which is chosen on an interval of r of length 1/8, with aggression 1
  below 5 minutes, 2 from 5 to below 10 minutes and 3 from 10 minutes on; the kid stands
  at that spawn point unless its 48 by 60 box there overlaps a shelf, in which case the
  constructor has moved it to (30, 30); the timer and the interval are reset to 15
  seconds. On a tick without a spawn the kids and the random source are unchanged and the
  timer has counted down by the tick while the number of kids is below the cap, and has
  stood still otherwise. The number of kids stays within the cap, and the game data, the
  shelves, the blocks and the player are untouched.
\<close>

theorem updateKidSpawning_spec:
  assumes "0 \<le> rnd w 0" and "rnd w 0 < 1"
  shows "\<exists>w'. updateKidSpawning deltaTime w = Some w' \<and>
     maxKids w' = max (maxKids w)
        (if elapsedTime (gameData w) / 60 < 1 then 3
         else if elapsedTime (gameData w) / 60 < 3 then 5
         else if elapsedTime (gameData w) / 60 < 5 then 7
         else if elapsedTime (gameData w) / 60 < 10 then 10
         else 10 + 2 * \<lfloor>elapsedTime (gameData w) / 60 - 10\<rfloor>) \<and>
     maxKids w \<le> maxKids w' \<and>
     (int (length (kids w)) < maxKids w' \<and> kidSpawnTimer w - deltaTime \<le> 0 \<longrightarrow>
        kids w' = kids w @
          [fst (Kid (length (kids w)) (shelves w) (fst (spawnPoints ! nat \<lfloor>rnd w 0 * 8\<rfloor>)) (snd (spawnPoints ! nat \<lfloor>rnd w 0 * 8\<rfloor>))
                  (if elapsedTime (gameData w) / 60 < 5 then 1
                 else if elapsedTime (gameData w) / 60 < 10 then 2 else 3)
                  (\<lambda>n. rnd w (Suc n)))] \<and>
        (\<exists>k. kids w' = kids w @ [k] \<and>
           aggressionLevel k = (if elapsedTime (gameData w) / 60 < 5 then 1
                 else if elapsedTime (gameData w) / 60 < 10 then 2 else 3) \<and>
           k_width k = 48 \<and> k_height k = 60 \<and> k_state k = Wandering \<and>
           carriedVolumeBlock k = None \<and> target k = None \<and>
           (k_x k, k_y k) =
             (if \<exists>s \<in> set (shelves w).
                   checkCollision k (fst (spawnPoints ! nat \<lfloor>rnd w 0 * 8\<rfloor>)) (snd (spawnPoints ! nat \<lfloor>rnd w 0 * 8\<rfloor>)) s
              then (30, 30) else (spawnPoints ! nat \<lfloor>rnd w 0 * 8\<rfloor>))) \<and>
        nat \<lfloor>rnd w 0 * 8\<rfloor> < length spawnPoints \<and>
        (\<forall>i<8. nat \<lfloor>rnd w 0 * 8\<rfloor> = i \<longleftrightarrow> real i / 8 \<le> rnd w 0 \<and> rnd w 0 < (real i + 1) / 8) \<and>
        kidSpawnTimer w' = 15 \<and> kidSpawnInterval w' = 15) \<and>
     (\<not> (int (length (kids w)) < maxKids w' \<and> kidSpawnTimer w - deltaTime \<le> 0) \<longrightarrow>
        kids w' = kids w \<and> rnd w' = rnd w \<and> kidSpawnInterval w' = kidSpawnInterval w \<and>
        kidSpawnTimer w' =
          (if int (length (kids w)) < maxKids w' then kidSpawnTimer w - deltaTime
           else kidSpawnTimer w)) \<and>
     (int (length (kids w)) \<le> maxKids w \<longrightarrow> int (length (kids w')) \<le> maxKids w') \<and>
     (maxKids w < maxKids w' \<longrightarrow>
        maxKidsIncreaseNotification w' =
          \<lparr> active = (deltaTime < 3), increase = maxKids w' - maxKids w,
            timer = deltaTime, duration = 3 \<rparr>) \<and>
     gameData w' = gameData w \<and> shelves w' = shelves w \<and>
     ps_volumeBlocks w' = ps_volumeBlocks w \<and> player w' = player w"
proof -
  let ?m = "elapsedTime (gameData w) / 60"
  have step: "(if ?m < 1 then 3
         else if ?m < 3 then 5
         else if ?m < 5 then 7
         else if ?m < 10 then 10
         else 10 + 2 * \<lfloor>?m - 10\<rfloor>) = waveMaxKids ?m"
    by (simp add: waveMaxKids_def)
  have tier: "(if ?m < 5 then 1
                 else if ?m < 10 then 2 else 3) = spawnAggression ?m"
    by (simp add: spawnAggression_def)
  have l8: "real (length spawnPoints) = 8" by (simp add: spawnPoints_def)
  have pr: "0 \<le> \<lfloor>rnd w 0 * 8\<rfloor> \<and> \<lfloor>rnd w 0 * 8\<rfloor> < 8"
    using pick_in_range [OF assms] by (simp add: spawnPoints_def)
  have uni: "\<forall>i<8. nat \<lfloor>rnd w 0 * 8\<rfloor> = i \<longleftrightarrow> real i / 8 \<le> rnd w 0 \<and> rnd w 0 < (real i + 1) / 8"
  proof (intro allI impI)
    fix i :: nat assume "i < 8"
    have "nat \<lfloor>rnd w 0 * 8\<rfloor> = i \<longleftrightarrow> \<lfloor>rnd w 0 * 8\<rfloor> = int i" using pr by auto
    also have "\<dots> \<longleftrightarrow> real i / 8 \<le> rnd w 0 \<and> rnd w 0 < (real i + 1) / 8"
      using pick_uniform [of "rnd w 0" i] by (simp add: l8)
    finally show "nat \<lfloor>rnd w 0 * 8\<rfloor> = i \<longleftrightarrow> real i / 8 \<le> rnd w 0 \<and> rnd w 0 < (real i + 1) / 8" .
  qed
  show ?thesis
  proof (cases "int (length (kids w)) < max (maxKids w) (waveMaxKids ?m) \<and> kidSpawnTimer w - deltaTime \<le> 0")
    case True
    then obtain w' k g where r: "updateKidSpawning deltaTime w = Some w'"
      "(k, g) = Kid (length (kids w)) (shelves w)
                      (fst (spawnPoints ! nat \<lfloor>rnd w 0 * real (length spawnPoints)\<rfloor>))
                      (snd (spawnPoints ! nat \<lfloor>rnd w 0 * real (length spawnPoints)\<rfloor>))
                      (spawnAggression ?m) (\<lambda>n. rnd w (Suc n))"
      "kids w' = kids w @ [k]" "kidSpawnTimer w' = 15"
      "maxKids w' = max (maxKids w) (waveMaxKids ?m)"
      "gameData w' = gameData w" "shelves w' = shelves w"
      "ps_volumeBlocks w' = ps_volumeBlocks w" "player w' = player w"
      using updateKidSpawning_spawn [OF assms, of deltaTime] by blast
    let ?K = "Kid (length (kids w)) (shelves w)
                      (fst (spawnPoints ! nat \<lfloor>rnd w 0 * 8\<rfloor>))
                      (snd (spawnPoints ! nat \<lfloor>rnd w 0 * 8\<rfloor>))
                      (spawnAggression ?m) (\<lambda>n. rnd w (Suc n))"
    have kf: "k = fst ?K"
      using r(2) by (metis fst_conv l8)
    have ka: "aggressionLevel k = spawnAggression ?m" unfolding kf by (rule Kid_aggression)
    note kp = Kid_placed [of "length (kids w)" "shelves w"
          "fst (spawnPoints ! nat \<lfloor>rnd w 0 * 8\<rfloor>)" "snd (spawnPoints ! nat \<lfloor>rnd w 0 * 8\<rfloor>)"
          "spawnAggression ?m" "\<lambda>n. rnd w (Suc n)", folded kf]
    have "length spawnPoints = 8" by (simp add: spawnPoints_def)
    then have pl: "nat \<lfloor>rnd w 0 * 8\<rfloor> < length spawnPoints" using pr by linarith
    have cap: "int (length (kids w')) \<le> maxKids w'" using True r(3,5) by simp
    have iv: "kidSpawnInterval w' = 15"
      using updateKidSpawning_interval [OF r(1)] True by simp
    have nt: "maxKids w < maxKids w' \<longrightarrow>
        maxKidsIncreaseNotification w' =
          \<lparr> active = (deltaTime < 3), increase = maxKids w' - maxKids w,
            timer = deltaTime, duration = 3 \<rparr>"
      using updateKidSpawning_notification [OF r(1)] r(5) by auto
    have ex: "\<exists>k. kids w' = kids w @ [k] \<and>
           aggressionLevel k = spawnAggression ?m \<and>
           k_width k = 48 \<and> k_height k = 60 \<and> k_state k = Wandering \<and>
           carriedVolumeBlock k = None \<and> target k = None \<and>
           (k_x k, k_y k) =
             (if \<exists>s \<in> set (shelves w).
                   checkCollision k (fst (spawnPoints ! nat \<lfloor>rnd w 0 * 8\<rfloor>)) (snd (spawnPoints ! nat \<lfloor>rnd w 0 * 8\<rfloor>)) s
              then (30, 30) else (spawnPoints ! nat \<lfloor>rnd w 0 * 8\<rfloor>))"
      using r(3) ka kp by (intro exI [of _ k]) simp
    show ?thesis
      unfolding step tier
      apply (rule exI [of _ w'])
      using r(1,3,4,5,6,7,8,9) True pl uni cap iv nt ex kf by simp
  next
    case False
    then obtain w' where r: "updateKidSpawning deltaTime w = Some w'" "kids w' = kids w"
      "rnd w' = rnd w"
      "maxKids w' = max (maxKids w) (waveMaxKids ?m)"
      "gameData w' = gameData w" "shelves w' = shelves w"
      "ps_volumeBlocks w' = ps_volumeBlocks w" "player w' = player w"
      using updateKidSpawning_nospawn [of w deltaTime] by blast
    note tm = updateKidSpawning_timer [OF r(1) False]
    have nt: "maxKids w < maxKids w' \<longrightarrow>
        maxKidsIncreaseNotification w' =
          \<lparr> active = (deltaTime < 3), increase = maxKids w' - maxKids w,
            timer = deltaTime, duration = 3 \<rparr>"
      using updateKidSpawning_notification [OF r(1)] r(4) by auto
    show ?thesis
      unfolding step tier
      apply (rule exI [of _ w'])
      using r False tm nt by auto
  qed
qed

theorem updateKidSpawning_spec_witness:
  "0 \<le> rnd chaosState 0 \<and> rnd chaosState 0 < 1 \<and>
   int (length (kids chaosState)) < 5 \<and> kidSpawnTimer chaosState - 15 \<le> 0 \<and>
   \<not> kidSpawnTimer chaosState - 1 \<le> 0 \<and>
   (\<exists>w'. updateKidSpawning 15 chaosState = Some w' \<and> maxKids w' = 5 \<and>
      (\<exists>k. kids w' = [k] \<and> aggressionLevel k = 1 \<and> (k_x k, k_y k) = (500, 800)) \<and>
      kidSpawnTimer w' = 15 \<and>
      maxKidsIncreaseNotification w' = \<lparr> active = False, increase = 2, timer = 15, duration = 3 \<rparr>) \<and>
   (\<exists>w'. updateKidSpawning 1 chaosState = Some w' \<and> maxKids w' = 5 \<and> kids w' = [] \<and>
      kidSpawnTimer w' = 14)"
proof -
  have h: "0 \<le> rnd chaosState 0" "rnd chaosState 0 < 1"
    by (simp_all add: chaosState_def)
  have f: "rnd chaosState 0 = 1 / 4" "kids chaosState = []" "kidSpawnTimer chaosState = 15"
    "maxKids chaosState = 3" "elapsedTime (gameData chaosState) = 60" "shelves chaosState = []"
    by (simp_all add: chaosState_def chaosGameData_def)
  have p: "spawnPoints ! 2 = (500, 800)" by (simp add: spawnPoints_def)
  from updateKidSpawning_spec [OF h, of 15] updateKidSpawning_spec [OF h, of 1]
  show ?thesis unfolding f by (auto simp: p)
qed


text \<open>
  Claim C6, as the claim states it, fails for a player whose XP multiplier is 0: the
  source replaces a zero multiplier by 1 (\<open>getXPMultiplier() || 1\<close>), so after the first two
  minutes a base of 10 grants 10 XP, not floor(10 * 0 * 1) = 0.
\<close>

theorem awardXP_counterexample:
  "player zeroXpState = Some (demoPlayer\<lparr> xpMultiplier := 0 \<rparr>) \<and>
   xpMultiplier (demoPlayer\<lparr> xpMultiplier := 0 \<rparr>) = 0 \<and>
   \<not> elapsedTime (gameData zeroXpState) < 120 \<and>
   multipliedAmount 10 zeroXpState = 10 \<and>
   multipliedAmount 10 zeroXpState \<noteq> \<lfloor>10 * xpMultiplier (demoPlayer\<lparr> xpMultiplier := 0 \<rparr>) * 1\<rfloor> \<and>
   xp (gameData (awardXP 10 zeroXpState)) = 5 \<and>
   playerLevel (gameData (awardXP 10 zeroXpState)) = playerLevel (gameData zeroXpState) + 1"
proof -
  have f: "player zeroXpState = Some (demoPlayer\<lparr> xpMultiplier := 0 \<rparr>)"
    "\<not> elapsedTime (gameData zeroXpState) < 120"
    "xp (gameData zeroXpState) = 95" "xpToNext (gameData zeroXpState) = 100"
    by (simp_all add: zeroXpState_def xpState_def chaosState_def chaosGameData_def)
  have m: "multipliedAmount 10 zeroXpState = 10"
    using f by (simp add: multipliedAmount_def Let_def fl_10)
  from awardXP_loop [of zeroXpState 10] f m show ?thesis by simp
qed

text \<open>
  Claim C6, amended. The amount granted for a base amount is
  floor(base * (m * boost)), each product rounded as a binary64 product, where m is the
  player's XP multiplier, or 1 when there is no player or the multiplier is 0, and the
  boost of 1.5 is applied only while less than 120 seconds have elapsed. A successful
  pickup awards with base 5, a successful snatch with base 7 and a successful shelving
  with base 10. The level-up loop always ends; it gains zero or more levels in one award,
  pushes one upgrade-selection request per level gained, leaves the XP below the next
  requirement, sets each new requirement to floor(100 * 1.45 ^ (level - 1)), refills the
  player's stamina, and consumes exactly the requirements of the levels gained. Scenario E:
  from XP 95 with requirement 100 and a granted amount of 10, exactly one level is gained,
  the XP is 5 and the new requirement is floor(100 * 1.45 ^ oldLevel).
\<close>

theorem awardXP_spec:
  "multipliedAmount base w =
      \<lfloor>fl (base *
          (if elapsedTime (gameData w) < 120
           then fl ((case player w of None \<Rightarrow> 1
                        | Some p \<Rightarrow> if xpMultiplier p = 0 then 1 else xpMultiplier p) * 1.5)
           else (case player w of None \<Rightarrow> 1
                        | Some p \<Rightarrow> if xpMultiplier p = 0 then 1 else xpMultiplier p)))\<rfloor>
   \<and> (player w = Some p \<and>
       \<not> isHeld (ps_volumeBlocks w ! bi) \<and> \<not> isShelved (ps_volumeBlocks w ! bi) \<and>
       sqrt ((blockCenterX (ps_volumeBlocks w ! bi) - pcx)\<^sup>2 +
             (blockCenterY (ps_volumeBlocks w ! bi) - pcy)\<^sup>2) \<le> r \<and>
       int (length (carriedVolumeBlocks p)) < carrySlots (stats p) \<longrightarrow>
        pickupStep r pcx pcy bi w =
          playPickupSound (awardXP 5
            (w\<lparr> player := Some (p\<lparr> carriedVolumeBlocks := carriedVolumeBlocks p @ [bi] \<rparr>),
                ps_volumeBlocks := (ps_volumeBlocks w)[bi := pickup PlayerRef (ps_volumeBlocks w ! bi)],
                gameData := (gameData w)
                  \<lparr> volumeBlocksCollected := volumeBlocksCollected (gameData w) + 1,
                    chaosLevel := max 0 (chaosLevel (gameData w) - 0.5) \<rparr> \<rparr>)))
   \<and> (player w = Some p \<and> carriedVolumeBlock (kids w ! ki) = Some bi \<and>
       sqrt ((kidCenterX (kids w ! ki) - pcx)\<^sup>2 + (kidCenterY (kids w ! ki) - pcy)\<^sup>2) \<le> r \<and>
       int (length (carriedVolumeBlocks p)) < carrySlots (stats p) \<longrightarrow>
        snatchStep r pcx pcy ki w =
          playPickupSound (awardXP 7
            (w\<lparr> player := Some (p\<lparr> carriedVolumeBlocks := carriedVolumeBlocks p @ [bi] \<rparr>),
                ps_volumeBlocks := (ps_volumeBlocks w)[bi := pickup PlayerRef (ps_volumeBlocks w ! bi)],
                kids := (kids w)[ki := (kids w ! ki)
                  \<lparr> carriedVolumeBlock := None, dropVolumeBlockTimer := 0, k_state := Fleeing \<rparr>],
                gameData := (gameData w)
                  \<lparr> volumeBlocksCollected := volumeBlocksCollected (gameData w) + 1,
                    chaosLevel := max 0 (chaosLevel (gameData w) - 0.75) \<rparr> \<rparr>)))
   \<and> (player w = Some p \<and> isPlayerNearShelf (Some p) (shelves w ! si) r \<and>
       hasEmptySlots (shelves w ! si) \<and>
       shelveVolumeBlock (ps_volumeBlocks w) p (shelves w ! si) = (Some bj, p') \<and>
       addVolumeBlock (shelves w ! si) bj (ps_volumeBlocks w ! bj) = (True, s', b') \<longrightarrow>
        shelvingStep r si w =
          playShelfSound (awardXP 10
            (w\<lparr> player := Some p', shelves := (shelves w)[si := s'],
                ps_volumeBlocks := (ps_volumeBlocks w)[bj := b'],
                gameData := (gameData w)
                  \<lparr> volumeBlocksShelved := volumeBlocksShelved (gameData w) + 1,
                    chaosLevel := max 0 (chaosLevel (gameData w) - 1.0) \<rparr> \<rparr>)))
   \<and> playerLevel (gameData w) \<le> playerLevel (gameData (awardXP base w))
   \<and> requests (awardXP base w) = requests w @
        replicate (playerLevel (gameData (awardXP base w)) - playerLevel (gameData w))
          PushUpgradeSelection
   \<and> xp (gameData (awardXP base w)) < xpToNext (gameData (awardXP base w))
   \<and> (playerLevel (gameData (awardXP base w)) = playerLevel (gameData w) \<longrightarrow>
        xp (gameData (awardXP base w)) = xp (gameData w) + multipliedAmount base w \<and>
        xpToNext (gameData (awardXP base w)) = xpToNext (gameData w) \<and>
        player (awardXP base w) = player w)
   \<and> (playerLevel (gameData w) < playerLevel (gameData (awardXP base w)) \<longrightarrow>
        xpToNext (gameData (awardXP base w))
          = \<lfloor>100 * (1.45 :: real) ^ (playerLevel (gameData (awardXP base w)) - 1)\<rfloor> \<and>
        (player w = Some p \<longrightarrow>
           (\<exists>p'. player (awardXP base w) = Some p' \<and> stamina (stats p') = maxStamina (stats p))) \<and>
        xp (gameData w) + multipliedAmount base w
          = xp (gameData (awardXP base w)) + xpToNext (gameData w) +
            (\<Sum>l = playerLevel (gameData w) + 1 ..< playerLevel (gameData (awardXP base w)).
               \<lfloor>100 * (1.45 :: real) ^ (l - 1)\<rfloor>))
   \<and> (xp (gameData w) = 95 \<and> xpToNext (gameData w) = 100 \<and> multipliedAmount base w = 10 \<longrightarrow>
        playerLevel (gameData (awardXP base w)) = playerLevel (gameData w) + 1 \<and>
        xp (gameData (awardXP base w)) = 5 \<and>
        xpToNext (gameData (awardXP base w)) = \<lfloor>100 * (1.45 :: real) ^ playerLevel (gameData w)\<rfloor> \<and>
        requests (awardXP base w) = requests w @ [PushUpgradeSelection])"
  using multipliedAmount_unfold [of base w] pickupStep_awards [of w p bi pcx pcy r]
    snatchStep_awards [of w p ki bi pcx pcy r] shelvingStep_awards [of w p si r bj p' s' b']
    awardXP_loop [of w base p]
  by blast

theorem awardXP_spec_witness:
  "player xpState = Some demoPlayer \<and>
   xp (gameData xpState) = 95 \<and> xpToNext (gameData xpState) = 100 \<and>
   multipliedAmount 10 xpState = 10 \<and>
   playerLevel (gameData xpState) = 1 \<and>
   playerLevel (gameData (awardXP 10 xpState)) = 2 \<and>
   xp (gameData (awardXP 10 xpState)) = 5 \<and>
   xpToNext (gameData (awardXP 10 xpState)) = 145 \<and>
   requests (awardXP 10 xpState) = [PushUpgradeSelection] \<and>
   (\<exists>p'. player (awardXP 10 xpState) = Some p' \<and> stamina (stats p') = 100) \<and>
   \<not> isHeld (ps_volumeBlocks xpState ! 0) \<and> \<not> isShelved (ps_volumeBlocks xpState ! 0) \<and>
   sqrt ((blockCenterX (ps_volumeBlocks xpState ! 0) - 8)\<^sup>2 +
         (blockCenterY (ps_volumeBlocks xpState ! 0) - 8)\<^sup>2) \<le> 32 \<and>
   int (length (carriedVolumeBlocks demoPlayer)) < carrySlots (stats demoPlayer) \<and>
   (\<exists>w1. pickupStep 32 8 8 0 xpState = playPickupSound (awardXP 5 w1)) \<and>
   player snatchState = Some (demoPlayer\<lparr> p_x := 108, p_y := 106 \<rparr>) \<and>
   carriedVolumeBlock (kids snatchState ! 0) = Some 0 \<and>
   sqrt ((kidCenterX (kids snatchState ! 0) - 124)\<^sup>2 + (kidCenterY (kids snatchState ! 0) - 130)\<^sup>2) \<le> 64 \<and>
   int (length (carriedVolumeBlocks (demoPlayer\<lparr> p_x := 108, p_y := 106 \<rparr>)))
     < carrySlots (stats (demoPlayer\<lparr> p_x := 108, p_y := 106 \<rparr>)) \<and>
   (\<exists>w1. snatchStep 64 124 130 0 snatchState = playPickupSound (awardXP 7 w1)) \<and>
   player shelvingState = Some (demoPlayer\<lparr> carriedVolumeBlocks := [0] \<rparr>) \<and>
   isPlayerNearShelf (Some (demoPlayer\<lparr> carriedVolumeBlocks := [0] \<rparr>)) (shelves shelvingState ! 0) 32 \<and>
   hasEmptySlots (shelves shelvingState ! 0) \<and>
   shelveVolumeBlock (ps_volumeBlocks shelvingState) (demoPlayer\<lparr> carriedVolumeBlocks := [0] \<rparr>)
       (shelves shelvingState ! 0) = (Some 0, demoPlayer\<lparr> carriedVolumeBlocks := [] \<rparr>) \<and>
   fst (addVolumeBlock (shelves shelvingState ! 0) 0 (ps_volumeBlocks shelvingState ! 0)) \<and>
   (\<exists>w1. shelvingStep 32 0 shelvingState = playShelfSound (awardXP 10 w1))"
proof -
  have h: "player xpState = Some demoPlayer \<and> xpMultiplier demoPlayer = 1 \<and>
      xp (gameData xpState) = 95 \<and> xpToNext (gameData xpState) = 100 \<and>
      playerLevel (gameData xpState) = 1 \<and> requests xpState = [] \<and>
      elapsedTime (gameData xpState) = 200 \<and> maxStamina (stats demoPlayer) = 100"
    by (simp add: xpState_def demoPlayer_def chaosState_def chaosGameData_def)
  have m: "multipliedAmount 10 xpState = 10"
    using h awardXP_spec [of 10 xpState] by (simp add: fl_10)
  have f: "\<lfloor>100 * (1.45 :: real)\<rfloor> = 145" by simp
  have a: "playerLevel (gameData (awardXP 10 xpState)) = 2 \<and>
     xp (gameData (awardXP 10 xpState)) = 5 \<and>
     xpToNext (gameData (awardXP 10 xpState)) = 145 \<and>
     requests (awardXP 10 xpState) = [PushUpgradeSelection] \<and>
     (\<exists>p'. player (awardXP 10 xpState) = Some p' \<and> stamina (stats p') = 100)"
    using h m f awardXP_spec [where w = xpState and p = demoPlayer and base = 10] by simp
  have pk: "\<not> isHeld (ps_volumeBlocks xpState ! 0) \<and> \<not> isShelved (ps_volumeBlocks xpState ! 0) \<and>
     sqrt ((blockCenterX (ps_volumeBlocks xpState ! 0) - 8)\<^sup>2 +
           (blockCenterY (ps_volumeBlocks xpState ! 0) - 8)\<^sup>2) \<le> 32 \<and>
     int (length (carriedVolumeBlocks demoPlayer)) < carrySlots (stats demoPlayer)"
    by (simp add: xpState_def chaosState_def redBlock_def blockCenterX_def blockCenterY_def
        demoPlayer_def)
  have pe: "\<exists>w1. pickupStep 32 8 8 0 xpState = playPickupSound (awardXP 5 w1)"
    using h pk awardXP_spec [where w = xpState and p = demoPlayer and bi = 0 and pcx = 8
        and pcy = 8 and r = 32]
    by blast
  have s: "player snatchState = Some (demoPlayer\<lparr> p_x := 108, p_y := 106 \<rparr>) \<and>
     carriedVolumeBlock (kids snatchState ! 0) = Some 0 \<and>
     sqrt ((kidCenterX (kids snatchState ! 0) - 124)\<^sup>2 + (kidCenterY (kids snatchState ! 0) - 130)\<^sup>2) \<le> 64 \<and>
     int (length (carriedVolumeBlocks (demoPlayer\<lparr> p_x := 108, p_y := 106 \<rparr>)))
       < carrySlots (stats (demoPlayer\<lparr> p_x := 108, p_y := 106 \<rparr>))"
    by (simp add: snatchState_facts carrierKid_facts)
  have e: "\<exists>w1. snatchStep 64 124 130 0 snatchState = playPickupSound (awardXP 7 w1)"
    using s awardXP_spec [where w = snatchState and p = "demoPlayer\<lparr> p_x := 108, p_y := 106 \<rparr>"
        and ki = 0 and bi = 0 and pcx = 124 and pcy = 130 and r = 64]
    by blast
  let ?q = "demoPlayer\<lparr> carriedVolumeBlocks := [0] \<rparr>"
  let ?s = "Shelf 0 100 500 ''red'' 6"
  let ?b = "pickup PlayerRef redBlock"
  have sf: "player shelvingState = Some ?q" "shelves shelvingState ! 0 = ?s"
    "ps_volumeBlocks shelvingState ! 0 = ?b" "ps_volumeBlocks shelvingState = [?b]"
    by (simp_all add: shelvingState_def xpState_def chaosState_def)
  have col: "b_color ?b = s_color ?s" "hasEmptySlots ?s"
    by (simp_all add: pickup_def redBlock_def Shelf_def hasEmptySlots_def volumeBlockCount_def)
  have near: "isPlayerNearShelf (Some ?q) ?s 32"
    by (simp add: isPlayerNearShelf_def Let_def demoPlayer_def Shelf_def)
  have sv: "shelveVolumeBlock [?b] ?q ?s = (Some 0, demoPlayer\<lparr> carriedVolumeBlocks := [] \<rparr>)"
    using col(1) by (simp add: shelveVolumeBlock_def demoPlayer_def)
  obtain i where ad: "addVolumeBlock ?s 0 ?b =
      (True, ?s\<lparr> volumeBlocks := setSlot (volumeBlocks ?s) i (Some 0) \<rparr>, shelve (s_ref ?s) ?b)"
    using addVolumeBlock_success [OF col(2) col(1) [symmetric, THEN sym], of 0] by blast
  have sh: "player shelvingState = Some ?q \<and>
     isPlayerNearShelf (Some ?q) (shelves shelvingState ! 0) 32 \<and>
     hasEmptySlots (shelves shelvingState ! 0) \<and>
     shelveVolumeBlock (ps_volumeBlocks shelvingState) ?q (shelves shelvingState ! 0)
       = (Some 0, demoPlayer\<lparr> carriedVolumeBlocks := [] \<rparr>) \<and>
     fst (addVolumeBlock (shelves shelvingState ! 0) 0 (ps_volumeBlocks shelvingState ! 0))"
    using sf col near sv ad by simp
  have ad': "addVolumeBlock (shelves shelvingState ! 0) 0 (ps_volumeBlocks shelvingState ! 0) =
      (True, ?s\<lparr> volumeBlocks := setSlot (volumeBlocks ?s) i (Some 0) \<rparr>, shelve (s_ref ?s) ?b)"
    using ad sf by simp
  have se: "\<exists>w1. shelvingStep 32 0 shelvingState = playShelfSound (awardXP 10 w1)"
    using sh ad' awardXP_spec [where w = shelvingState and p = ?q and si = 0 and r = 32
        and bj = 0 and p' = "demoPlayer\<lparr> carriedVolumeBlocks := [] \<rparr>"
        and s' = "?s\<lparr> volumeBlocks := setSlot (volumeBlocks ?s) i (Some 0) \<rparr>"
        and b' = "shelve (s_ref ?s) ?b"]
    by blast
  show ?thesis using h m a pk pe s e sh se by simp
qed

end
